theory Spec2Isabelle
  imports Main "HOL-Library.Word"
begin

unbundle bit_operations_syntax

section \<open>Machine words and the bit helpers of utils.h\<close>

type_synonym u8 = "8 word"
type_synonym u16 = "16 word"
type_synonym u32 = "32 word"
type_synonym u64 = "64 word"

text \<open>
  Modelled from the spec: \<open>utils::bit_mask (first, last)\<close>, \<open>utils::bit_extract\<close>,
  \<open>utils::align_down\<close> and \<open>utils::is_aligned\<close> live in utils.h, which is not part
  of the sources at hand.  Their meaning is fixed by their uses in architecture.cpp
  (``PC[47:32] in ttmp11[22:7]'' is \<open>bit_extract (pc, 32, 47) << 7\<close> under
  \<open>bit_mask (7, 22)\<close>): a mask with the bits \<open>first .. last\<close> set, and the field
  \<open>first .. last\<close> shifted down to bit 0.
\<close>

definition bit_mask :: "nat \<Rightarrow> nat \<Rightarrow> 'a::len word" where
  "bit_mask lo hi = push_bit lo (mask (Suc hi - lo))"

definition bit_extract :: "'a::len word \<Rightarrow> nat \<Rightarrow> nat \<Rightarrow> 'a word" where
  "bit_extract x lo hi = take_bit (Suc hi - lo) (drop_bit lo x)"

definition align_down :: "u64 \<Rightarrow> u64 \<Rightarrow> u64" where
  "align_down x alignment = x AND NOT (alignment - 1)"

definition is_aligned :: "u64 \<Rightarrow> u64 \<Rightarrow> bool" where
  "is_aligned x alignment \<longleftrightarrow> x AND (alignment - 1) = 0"

section \<open>Errors\<close>

text \<open>
  \<open>dbgapi_assert\<close> and \<open>dbgapi_assert_not_reached\<close> abort on a programming
  error, \<open>fatal_error\<close> aborts on an unrecoverable invariant violation, and
  \<open>throw exception_t (status)\<close> reports a client-recoverable status;
  \<open>std::optional::value ()\<close> on an empty optional throws.  Each is a value
  of the error type; a function that can take one of these exits returns
  \<open>error + 'a\<close>.
\<close>

datatype error =
    Assert_failed
  | Fatal_error
  | Invalid_register_id
  | Invalid_argument_compatibility
  | Bad_optional_access

definition bind_e :: "error + 'a \<Rightarrow> ('a \<Rightarrow> error + 'b) \<Rightarrow> error + 'b" where
  "bind_e m f = (case m of Inl e \<Rightarrow> Inl e | Inr x \<Rightarrow> f x)"

definition dbgapi_assert :: "bool \<Rightarrow> error + unit" where
  "dbgapi_assert c = (if c then Inr () else Inl Assert_failed)"

section \<open>Register numbers\<close>

text \<open>
  Modelled from the spec: \<open>amdgpu_regnum_t\<close> is declared in register.h, which is not
  part of the sources at hand.  The spec describes it as an index partitioned into
  contiguous ranges (scalar, vector, trap temporaries, hardware registers, pseudo
  registers); each range is a constructor that carries the offset from the first
  register of the range (\<open>sgpr n\<close> is \<open>s0 + n\<close>, \<open>ttmp n\<close> is \<open>first_ttmp + n\<close>),
  and each register the code names outside a range is a constructor of its own.
\<close>

datatype amdgpu_regnum_t =
    sgpr nat
  | shadow_sgpr nat
  | vgpr_32 nat
  | vgpr_64 nat
  | ttmp nat
  | hwreg nat
  | m0
  | pc
  | exec_lo
  | exec_hi
  | exec_32
  | exec_64
  | vcc_lo
  | vcc_hi
  | vcc_32
  | vcc_64
  | flat_scratch_lo
  | flat_scratch_hi
  | flat_scratch
  | xnack_mask_lo
  | xnack_mask_hi
  | xnack_mask_64
  | status
  | trapsts
  | mode
  | lds_0
  | pseudo_status
  | pseudo_exec_64
  | pseudo_vcc_64
  | wave_id
  | csp
  | null
  | other_regnum nat

text \<open>
  \<open>regnum + k\<close>: inside a range the offset grows; the scalar operand encodings
  place the high half of a register pair right after its low half (operands 106/107,
  126/127, 102/103, 104/105), which is what \<open>*regnum + 1\<close> relies on.
\<close>

fun regnum_add :: "amdgpu_regnum_t \<Rightarrow> nat \<Rightarrow> amdgpu_regnum_t" where
  "regnum_add r 0 = r"
| "regnum_add (sgpr n) k = sgpr (n + k)"
| "regnum_add (shadow_sgpr n) k = shadow_sgpr (n + k)"
| "regnum_add (vgpr_32 n) k = vgpr_32 (n + k)"
| "regnum_add (vgpr_64 n) k = vgpr_64 (n + k)"
| "regnum_add (ttmp n) k = ttmp (n + k)"
| "regnum_add (hwreg n) k = hwreg (n + k)"
| "regnum_add exec_lo (Suc 0) = exec_hi"
| "regnum_add vcc_lo (Suc 0) = vcc_hi"
| "regnum_add flat_scratch_lo (Suc 0) = flat_scratch_hi"
| "regnum_add xnack_mask_lo (Suc 0) = xnack_mask_hi"
| "regnum_add (other_regnum n) k = other_regnum (n + k)"
| "regnum_add r k = other_regnum k"

abbreviation ttmp4 :: amdgpu_regnum_t where "ttmp4 \<equiv> ttmp 4"
abbreviation ttmp5 :: amdgpu_regnum_t where "ttmp5 \<equiv> ttmp 5"
abbreviation ttmp6 :: amdgpu_regnum_t where "ttmp6 \<equiv> ttmp 6"
abbreviation ttmp7 :: amdgpu_regnum_t where "ttmp7 \<equiv> ttmp 7"
abbreviation ttmp11 :: amdgpu_regnum_t where "ttmp11 \<equiv> ttmp 11"

section \<open>Instructions\<close>

text \<open>
  Modelled from the spec: \<open>instruction_t\<close> is declared in a header that is not part
  of the sources at hand.  It is an immutable byte buffer bound to one architecture;
  its size is the result of the native decoder, computed once, and an instruction
  whose decoded size is 0 is invalid.  \<open>capacity ()\<close> is the number of bytes held
  and \<open>word<0> ()\<close> the first four bytes read as a little-endian 32-bit word.
\<close>

record instruction_t =
  data :: "u8 list"
  decoded_size :: nat

definition capacity :: "instruction_t \<Rightarrow> nat" where
  "capacity i = length (data i)"

definition is_valid :: "instruction_t \<Rightarrow> bool" where
  "is_valid i \<longleftrightarrow> decoded_size i \<noteq> 0"

definition isize :: "instruction_t \<Rightarrow> u64" where
  "isize i = of_nat (decoded_size i)"

definition word0 :: "instruction_t \<Rightarrow> u32" where
  "word0 i =
     (ucast (data i ! 0) :: u32)
       OR push_bit 8 (ucast (data i ! 1))
       OR push_bit 16 (ucast (data i ! 2))
       OR push_bit 24 (ucast (data i ! 3))"

definition legal_instruction :: "u8 list \<Rightarrow> instruction_t" where
  "legal_instruction bs = \<lparr> data = bs, decoded_size = length bs \<rparr>"

subsection \<open>Operand fields and encodings (amdgcn_architecture_t)\<close>

definition ssrc0_operand :: "instruction_t \<Rightarrow> u8" where
  "ssrc0_operand i = ucast (bit_extract (word0 i) 0 7)"

definition ssrc1_operand :: "instruction_t \<Rightarrow> u8" where
  "ssrc1_operand i = ucast (bit_extract (word0 i) 8 15)"

definition sdst_operand :: "instruction_t \<Rightarrow> u8" where
  "sdst_operand i = ucast (bit_extract (word0 i) 16 22)"

definition simm16_operand :: "instruction_t \<Rightarrow> u16" where
  "simm16_operand i = ucast (bit_extract (word0 i) 0 15)"

definition encoding_op7 :: "instruction_t \<Rightarrow> u8" where
  "encoding_op7 i = ucast (bit_extract (word0 i) 16 22)"

definition is_sopk_encoding :: "nat list \<Rightarrow> instruction_t \<Rightarrow> bool" where
  "is_sopk_encoding ops i \<longleftrightarrow>
     (if capacity i < 4 then False
      else list_ex (\<lambda>op5. word0 i AND 0xFF800000
                            = (0xB0000000 OR push_bit 23 (of_nat op5 AND 0x1F))) ops)"

definition is_sop1_encoding :: "nat list \<Rightarrow> instruction_t \<Rightarrow> bool" where
  "is_sop1_encoding ops i \<longleftrightarrow>
     (if capacity i < 4 then False
      else list_ex (\<lambda>op8. word0 i AND 0xFF80FF00
                            = (0xBE800000 OR push_bit 8 (of_nat op8 AND 0xFF))) ops)"

definition is_sop2_encoding :: "nat list \<Rightarrow> instruction_t \<Rightarrow> bool" where
  "is_sop2_encoding ops i \<longleftrightarrow>
     (if capacity i < 4 then False
      else list_ex (\<lambda>op7. word0 i AND 0xFF800000
                            = (0x80000000 OR push_bit 23 (of_nat op7 AND 0x7F))) ops)"

definition is_sopp_encoding :: "nat list \<Rightarrow> instruction_t \<Rightarrow> bool" where
  "is_sopp_encoding ops i \<longleftrightarrow>
     (if capacity i < 4 then False
      else list_ex (\<lambda>op7. word0 i AND 0xFFFF0000
                            = (0xBF800000 OR push_bit 16 (of_nat op7 AND 0x7F))) ops)"

section \<open>Architectures\<close>

text \<open>
  The generation hierarchy \<open>amdgcn \<rightarrow> gfx9 \<rightarrow> gfx10 \<rightarrow> gfx11 \<rightarrow> gfx12\<close>.  A virtual
  call is a function of the generation; a generation that does not override a member
  takes its parent's.  The MI variants (gfx908, gfx90a, gfx940) decode instructions
  as \<open>GFX9\<close> does.
\<close>

datatype arch = GFX9 | GFX10 | GFX11 | GFX12

fun scalar_operand_to_regnum_gfx9 :: "nat \<Rightarrow> bool \<Rightarrow> amdgpu_regnum_t option" where
  "scalar_operand_to_regnum_gfx9 operand priv =
     (if operand \<le> 101 then Some (sgpr operand)
      else if 108 \<le> operand \<and> operand \<le> 123
        then (if priv then Some (ttmp (operand - 108)) else Some null)
      else if operand = 102 then Some flat_scratch_lo
      else if operand = 103 then Some flat_scratch_hi
      else if operand = 104 then Some xnack_mask_lo
      else if operand = 105 then Some xnack_mask_hi
      else if operand = 106 then Some vcc_lo
      else if operand = 107 then Some vcc_hi
      else if operand = 124 then Some m0
      else if operand = 126 then Some exec_lo
      else if operand = 127 then Some exec_hi
      else None)"

fun scalar_operand_to_regnum_gfx10 :: "nat \<Rightarrow> bool \<Rightarrow> amdgpu_regnum_t option" where
  "scalar_operand_to_regnum_gfx10 operand priv =
     (if operand \<le> 105 then Some (sgpr operand)
      else if 108 \<le> operand \<and> operand \<le> 123
        then (if priv then Some (ttmp (operand - 108)) else Some null)
      else if operand = 106 then Some vcc_lo
      else if operand = 107 then Some vcc_hi
      else if operand = 124 then Some m0
      else if operand = 125 then Some null
      else if operand = 126 then Some exec_lo
      else if operand = 127 then Some exec_hi
      else None)"

fun scalar_operand_to_regnum_gfx11 :: "nat \<Rightarrow> bool \<Rightarrow> amdgpu_regnum_t option" where
  "scalar_operand_to_regnum_gfx11 operand priv =
     (if operand = 124 then Some null
      else if operand = 125 then Some m0
      else scalar_operand_to_regnum_gfx10 operand priv)"

fun scalar_operand_to_regnum :: "arch \<Rightarrow> nat \<Rightarrow> bool \<Rightarrow> amdgpu_regnum_t option" where
  "scalar_operand_to_regnum GFX9 = scalar_operand_to_regnum_gfx9"
| "scalar_operand_to_regnum GFX10 = scalar_operand_to_regnum_gfx10"
| "scalar_operand_to_regnum GFX11 = scalar_operand_to_regnum_gfx11"
| "scalar_operand_to_regnum GFX12 = scalar_operand_to_regnum_gfx11"

subsection \<open>Instruction predicates\<close>

datatype cbranch_cond_t =
    scc0 | scc1 | execz | execnz | vccz | vccnz
  | cdbgsys | cdbguser | cdbgsys_or_user | cdbgsys_and_user

definition gfx9_cbranch_opcodes_map :: "(nat \<times> cbranch_cond_t) list" where
  "gfx9_cbranch_opcodes_map =
     [(4, scc0), (5, scc1), (6, vccz), (7, vccnz), (8, execz), (9, execnz),
      (23, cdbgsys), (24, cdbguser), (25, cdbgsys_or_user), (26, cdbgsys_and_user)]"

definition gfx11_cbranch_opcodes_map :: "(nat \<times> cbranch_cond_t) list" where
  "gfx11_cbranch_opcodes_map =
     [(33, scc0), (34, scc1), (35, vccz), (36, vccnz), (37, execz), (38, execnz),
      (39, cdbgsys), (40, cdbguser), (41, cdbgsys_or_user), (42, cdbgsys_and_user)]"

definition gfx12_cbranch_opcodes_map :: "(nat \<times> cbranch_cond_t) list" where
  "gfx12_cbranch_opcodes_map =
     [(33, scc0), (34, scc1), (35, vccz), (36, vccnz), (37, execz), (38, execnz)]"

fun cbranch_opcodes_map :: "arch \<Rightarrow> (nat \<times> cbranch_cond_t) list" where
  "cbranch_opcodes_map GFX9 = gfx9_cbranch_opcodes_map"
| "cbranch_opcodes_map GFX10 = gfx9_cbranch_opcodes_map"
| "cbranch_opcodes_map GFX11 = gfx11_cbranch_opcodes_map"
| "cbranch_opcodes_map GFX12 = gfx12_cbranch_opcodes_map"

definition is_cbranch :: "arch \<Rightarrow> instruction_t \<Rightarrow> bool" where
  "is_cbranch a i \<longleftrightarrow>
     (if capacity i < 4 then False
      else if word0 i AND 0xFF800000 \<noteq> 0xBF800000 then False
      else map_of (cbranch_opcodes_map a) (unat (encoding_op7 i)) \<noteq> None)"

definition cbranch_condition_code :: "arch \<Rightarrow> instruction_t \<Rightarrow> error + cbranch_cond_t" where
  "cbranch_condition_code a i =
     (if \<not> is_cbranch a i then Inl Assert_failed
      else case map_of (cbranch_opcodes_map a) (unat (encoding_op7 i)) of
             None \<Rightarrow> Inl Assert_failed
           | Some c \<Rightarrow> Inr c)"

fun is_endpgm :: "arch \<Rightarrow> instruction_t \<Rightarrow> bool" where
  "is_endpgm GFX9 i = is_sopp_encoding [1] i"
| "is_endpgm GFX10 i = is_sopp_encoding [1] i"
| "is_endpgm GFX11 i = is_sopp_encoding [48] i"
| "is_endpgm GFX12 i = is_sopp_encoding [48] i"

fun is_trap :: "arch \<Rightarrow> instruction_t \<Rightarrow> bool" where
  "is_trap GFX9 i = is_sopp_encoding [18] i"
| "is_trap GFX10 i = is_sopp_encoding [18] i"
| "is_trap GFX11 i = is_sopp_encoding [16] i"
| "is_trap GFX12 i = is_sopp_encoding [16] i"

fun is_sethalt :: "arch \<Rightarrow> instruction_t \<Rightarrow> bool" where
  "is_sethalt GFX9 i = is_sopp_encoding [13] i"
| "is_sethalt GFX10 i = is_sopp_encoding [13] i"
| "is_sethalt GFX11 i = is_sopp_encoding [2] i"
| "is_sethalt GFX12 i = is_sopp_encoding [2] i"

fun is_barrier :: "arch \<Rightarrow> instruction_t \<Rightarrow> bool" where
  "is_barrier GFX9 i = is_sopp_encoding [10] i"
| "is_barrier GFX10 i = is_sopp_encoding [10] i"
| "is_barrier GFX11 i = is_sopp_encoding [61] i"
| "is_barrier GFX12 i = is_sopp_encoding [20] i"

fun is_sleep :: "arch \<Rightarrow> instruction_t \<Rightarrow> bool" where
  "is_sleep GFX9 i = is_sopp_encoding [14] i"
| "is_sleep GFX10 i = is_sopp_encoding [14] i"
| "is_sleep GFX11 i = is_sopp_encoding [3] i"
| "is_sleep GFX12 i = is_sopp_encoding [3] i"

fun is_call :: "arch \<Rightarrow> instruction_t \<Rightarrow> bool" where
  "is_call GFX9 i \<longleftrightarrow> is_valid i \<and> is_sopk_encoding [21] i \<and> sdst_operand i AND 1 = 0"
| "is_call GFX10 i \<longleftrightarrow> is_valid i \<and> is_sopk_encoding [22] i \<and> sdst_operand i AND 1 = 0"
| "is_call GFX11 i \<longleftrightarrow> is_sopk_encoding [20] i"
| "is_call GFX12 i \<longleftrightarrow> is_sopk_encoding [20] i"

fun is_getpc :: "arch \<Rightarrow> instruction_t \<Rightarrow> bool" where
  "is_getpc GFX9 i \<longleftrightarrow> is_valid i \<and> is_sop1_encoding [28] i \<and> sdst_operand i AND 1 = 0"
| "is_getpc GFX10 i \<longleftrightarrow> is_valid i \<and> is_sop1_encoding [31] i \<and> sdst_operand i AND 1 = 0"
| "is_getpc GFX11 i \<longleftrightarrow> is_sop1_encoding [71] i"
| "is_getpc GFX12 i \<longleftrightarrow> is_sop1_encoding [71] i"

fun is_setpc :: "arch \<Rightarrow> instruction_t \<Rightarrow> bool" where
  "is_setpc GFX9 i \<longleftrightarrow> is_valid i \<and> is_sop1_encoding [29] i \<and> ssrc0_operand i AND 1 = 0"
| "is_setpc GFX10 i \<longleftrightarrow> is_valid i \<and> is_sop1_encoding [32] i"
| "is_setpc GFX11 i \<longleftrightarrow> is_sop1_encoding [72] i"
| "is_setpc GFX12 i \<longleftrightarrow> is_sop1_encoding [72] i"

fun is_swappc :: "arch \<Rightarrow> instruction_t \<Rightarrow> bool" where
  "is_swappc GFX9 i \<longleftrightarrow>
     is_valid i \<and> is_sop1_encoding [30] i \<and> ssrc0_operand i AND 1 = 0
       \<and> sdst_operand i AND 1 = 0"
| "is_swappc GFX10 i \<longleftrightarrow> is_valid i \<and> is_sop1_encoding [33] i \<and> ssrc0_operand i AND 1 = 0"
| "is_swappc GFX11 i \<longleftrightarrow> is_sop1_encoding [73] i"
| "is_swappc GFX12 i \<longleftrightarrow> is_sop1_encoding [73] i"

fun is_branch :: "arch \<Rightarrow> instruction_t \<Rightarrow> bool" where
  "is_branch GFX9 i = is_sopp_encoding [2] i"
| "is_branch GFX10 i = is_sopp_encoding [2] i"
| "is_branch GFX11 i = is_sopp_encoding [32] i"
| "is_branch GFX12 i = is_sopp_encoding [32] i"

fun is_cbranch_i_fork :: "arch \<Rightarrow> instruction_t \<Rightarrow> bool" where
  "is_cbranch_i_fork GFX9 i \<longleftrightarrow>
     is_valid i \<and> is_sopk_encoding [16] i \<and> sdst_operand i AND 1 = 0"
| "is_cbranch_i_fork a i \<longleftrightarrow> False"

fun is_cbranch_g_fork :: "arch \<Rightarrow> instruction_t \<Rightarrow> bool" where
  "is_cbranch_g_fork GFX9 i \<longleftrightarrow>
     is_valid i \<and> is_sop2_encoding [41] i \<and> ssrc0_operand i AND 1 = 0
       \<and> ssrc1_operand i AND 1 = 0"
| "is_cbranch_g_fork a i \<longleftrightarrow> False"

fun is_cbranch_join :: "arch \<Rightarrow> instruction_t \<Rightarrow> bool" where
  "is_cbranch_join GFX9 i \<longleftrightarrow> is_valid i \<and> is_sop1_encoding [46] i"
| "is_cbranch_join a i \<longleftrightarrow> False"

fun is_code_end :: "arch \<Rightarrow> instruction_t \<Rightarrow> bool" where
  "is_code_end a i = is_sopp_encoding [31] i"

fun is_subvector_loop_begin :: "arch \<Rightarrow> instruction_t \<Rightarrow> bool" where
  "is_subvector_loop_begin GFX9 i \<longleftrightarrow> False"
| "is_subvector_loop_begin GFX10 i \<longleftrightarrow> is_valid i \<and> is_sopk_encoding [27] i"
| "is_subvector_loop_begin GFX11 i \<longleftrightarrow> is_valid i \<and> is_sopk_encoding [22] i"
| "is_subvector_loop_begin GFX12 i \<longleftrightarrow> False"

fun is_subvector_loop_end :: "arch \<Rightarrow> instruction_t \<Rightarrow> bool" where
  "is_subvector_loop_end GFX9 i \<longleftrightarrow> False"
| "is_subvector_loop_end GFX10 i \<longleftrightarrow> is_valid i \<and> is_sopk_encoding [28] i"
| "is_subvector_loop_end GFX11 i \<longleftrightarrow> is_valid i \<and> is_sopk_encoding [23] i"
| "is_subvector_loop_end GFX12 i \<longleftrightarrow> False"

fun is_sequential :: "arch \<Rightarrow> instruction_t \<Rightarrow> bool" where
  "is_sequential GFX9 i \<longleftrightarrow>
     (if \<not> is_valid i then False
      else \<not> is_sopp_encoding [1, 2, 4, 5, 6, 7, 8, 9, 23, 24, 25, 26] i
         \<and> \<not> is_sop1_encoding [29, 30, 46] i
         \<and> \<not> is_sop2_encoding [41] i
         \<and> \<not> is_sopk_encoding [16, 21] i)"
| "is_sequential GFX10 i \<longleftrightarrow>
     (if \<not> is_valid i then False
      else \<not> is_sopp_encoding [1, 2, 4, 5, 6, 7, 8, 9, 23, 24, 25, 26] i
         \<and> \<not> is_sop1_encoding [32, 33] i
         \<and> \<not> is_sopk_encoding [22, 27, 28] i)"
| "is_sequential GFX11 i \<longleftrightarrow>
     (if \<not> is_valid i then False
      else \<not> is_sopp_encoding [48, 32, 33, 34, 35, 36, 37, 38, 39, 40, 41, 42] i
         \<and> \<not> is_sop1_encoding [72, 73] i
         \<and> \<not> is_sopk_encoding [20, 22, 23] i)"
| "is_sequential GFX12 i \<longleftrightarrow>
     (if \<not> is_valid i then False
      else \<not> is_sopp_encoding [48, 32, 33, 34, 35, 36, 37, 38] i
         \<and> \<not> is_sop1_encoding [72, 73] i
         \<and> \<not> is_sopk_encoding [20] i)"

subsection \<open>The injected instructions\<close>

fun terminating_instruction :: "arch \<Rightarrow> instruction_t" where
  "terminating_instruction GFX9 = legal_instruction [0x00, 0x00, 0x81, 0xBF]"
| "terminating_instruction GFX10 = legal_instruction [0x00, 0x00, 0x81, 0xBF]"
| "terminating_instruction GFX11 = legal_instruction [0x00, 0x00, 0xB0, 0xBF]"
| "terminating_instruction GFX12 = legal_instruction [0x00, 0x00, 0xB0, 0xBF]"

subsection \<open>classify_instruction\<close>

datatype amd_dbgapi_instruction_kind_t =
    INSTRUCTION_KIND_UNKNOWN
  | INSTRUCTION_KIND_SEQUENTIAL
  | INSTRUCTION_KIND_DIRECT_BRANCH
  | INSTRUCTION_KIND_DIRECT_BRANCH_CONDITIONAL
  | INSTRUCTION_KIND_INDIRECT_BRANCH_REGISTER_PAIR
  | INSTRUCTION_KIND_INDIRECT_BRANCH_CONDITIONAL_REGISTER_PAIR
  | INSTRUCTION_KIND_DIRECT_CALL_REGISTER_PAIR
  | INSTRUCTION_KIND_INDIRECT_CALL_REGISTER_PAIRS
  | INSTRUCTION_KIND_TERMINATE
  | INSTRUCTION_KIND_TRAP
  | INSTRUCTION_KIND_HALT
  | INSTRUCTION_KIND_BARRIER
  | INSTRUCTION_KIND_SLEEP
  | INSTRUCTION_KIND_SPECIAL

datatype information_kind_t = info_none | info_pc_direct | info_pc_indirect | info_uint8

text \<open>
  The branch displacement \<open>static_cast<int64_t> (simm16) << 2\<close>, added to an
  unsigned 64-bit address: sign extension, then a shift, modulo \<open>2 ^ 64\<close>.
\<close>

definition simm16_offset :: "instruction_t \<Rightarrow> u64" where
  "simm16_offset i = push_bit 2 (scast (simm16_operand i) :: u64)"

text \<open>
  The if-chain of \<open>amdgcn_architecture_t::classify_instruction\<close> that selects the
  kind, the information kind and the operand registers.
\<close>

definition classify_kind ::
  "arch \<Rightarrow> instruction_t \<Rightarrow>
     amd_dbgapi_instruction_kind_t \<times> information_kind_t
       \<times> amdgpu_regnum_t option \<times> amdgpu_regnum_t option" where
  "classify_kind a i =
     (if is_branch a i then (INSTRUCTION_KIND_DIRECT_BRANCH, info_pc_direct, None, None)
      else if is_cbranch a i \<or> is_cbranch_i_fork a i
        then (INSTRUCTION_KIND_DIRECT_BRANCH_CONDITIONAL, info_pc_direct, None, None)
      else if is_cbranch_g_fork a i
        then (INSTRUCTION_KIND_INDIRECT_BRANCH_CONDITIONAL_REGISTER_PAIR, info_pc_indirect,
              scalar_operand_to_regnum a (unat (ssrc1_operand i)) False, None)
      else if is_cbranch_join a i then (INSTRUCTION_KIND_SPECIAL, info_none, None, None)
      else if is_setpc a i
        then (INSTRUCTION_KIND_INDIRECT_BRANCH_REGISTER_PAIR, info_pc_indirect,
              scalar_operand_to_regnum a (unat (ssrc0_operand i)) False, None)
      else if is_call a i
        then (INSTRUCTION_KIND_DIRECT_CALL_REGISTER_PAIR, info_pc_direct, None,
              scalar_operand_to_regnum a (unat (sdst_operand i)) False)
      else if is_swappc a i
        then (INSTRUCTION_KIND_INDIRECT_CALL_REGISTER_PAIRS, info_pc_indirect,
              scalar_operand_to_regnum a (unat (ssrc0_operand i)) False,
              scalar_operand_to_regnum a (unat (sdst_operand i)) False)
      else if is_endpgm a i then (INSTRUCTION_KIND_TERMINATE, info_none, None, None)
      else if is_trap a i then (INSTRUCTION_KIND_TRAP, info_uint8, None, None)
      else if is_sethalt a i \<and> simm16_operand i AND 1 \<noteq> 0
        then (INSTRUCTION_KIND_HALT, info_none, None, None)
      else if is_barrier a i then (INSTRUCTION_KIND_BARRIER, info_none, None, None)
      else if is_sleep a i then (INSTRUCTION_KIND_SLEEP, info_none, None, None)
      else (if is_sequential a i then INSTRUCTION_KIND_SEQUENTIAL
            else INSTRUCTION_KIND_UNKNOWN, info_none, None, None))"

text \<open>
  \<open>regnum_to_register_id\<close> comes from register.h and is a parameter \<open>rid\<close>.  The
  result is \<open>(kind, properties, size, information)\<close>; the only property value the
  function produces is \<open>AMD_DBGAPI_INSTRUCTION_PROPERTY_NONE\<close>, written \<open>0\<close>.
\<close>

definition sdst_information :: "(amdgpu_regnum_t \<Rightarrow> u64) \<Rightarrow> amdgpu_regnum_t option \<Rightarrow> u64 list" where
  "sdst_information rid sdst =
     (case sdst of None \<Rightarrow> []
      | Some r \<Rightarrow> [rid (regnum_add r 0), rid (regnum_add r 1)])"

definition classify_instruction_amdgcn ::
  "arch \<Rightarrow> (amdgpu_regnum_t \<Rightarrow> u64) \<Rightarrow> u64 \<Rightarrow> instruction_t \<Rightarrow>
     error + (amd_dbgapi_instruction_kind_t \<times> nat \<times> u64 \<times> u64 list)" where
  "classify_instruction_amdgcn a rid address i =
     (case classify_kind a i of (kind, info, ssrc, sdst) \<Rightarrow>
        (case info of
           info_pc_direct \<Rightarrow>
             Inr (kind, 0, isize i,
                  (address + isize i + simm16_offset i) # sdst_information rid sdst)
         | info_pc_indirect \<Rightarrow>
             (case ssrc of
                None \<Rightarrow> Inl Assert_failed
              | Some r \<Rightarrow>
                  Inr (kind, 0, isize i,
                       [rid (regnum_add r 0), rid (regnum_add r 1)]
                         @ sdst_information rid sdst))
         | info_uint8 \<Rightarrow>
             Inr (kind, 0, isize i, [ucast (bit_extract (simm16_operand i) 0 7)])
         | info_none \<Rightarrow> Inr (kind, 0, isize i, [])))"

definition classify_instruction_gfx10 ::
  "arch \<Rightarrow> (amdgpu_regnum_t \<Rightarrow> u64) \<Rightarrow> u64 \<Rightarrow> instruction_t \<Rightarrow>
     error + (amd_dbgapi_instruction_kind_t \<times> nat \<times> u64 \<times> u64 list)" where
  "classify_instruction_gfx10 a rid address i =
     (if \<not> is_valid i then Inl Assert_failed
      else if is_subvector_loop_begin a i \<or> is_subvector_loop_end a i
        then Inr (INSTRUCTION_KIND_DIRECT_BRANCH_CONDITIONAL, 0, isize i,
                  [address + isize i + simm16_offset i])
      else if is_code_end a i then Inr (INSTRUCTION_KIND_UNKNOWN, 0, isize i, [])
      else classify_instruction_amdgcn a rid address i)"

fun classify_instruction ::
  "arch \<Rightarrow> (amdgpu_regnum_t \<Rightarrow> u64) \<Rightarrow> u64 \<Rightarrow> instruction_t \<Rightarrow>
     error + (amd_dbgapi_instruction_kind_t \<times> nat \<times> u64 \<times> u64 list)" where
  "classify_instruction GFX9 = classify_instruction_amdgcn GFX9"
| "classify_instruction a = classify_instruction_gfx10 a"

section \<open>Waves (wave.cpp)\<close>

datatype amd_dbgapi_wave_state_t = WAVE_STATE_RUN | WAVE_STATE_SINGLE_STEP | WAVE_STATE_STOP

text \<open>
  Modelled from the spec: \<open>amd_dbgapi_wave_stop_reasons_t\<close> is the client-visible bit
  set of stop reasons declared in the public header, which is not part of the sources
  at hand.  A bit set of distinct one-bit flags is a set of flags: \<open>|=\<close> is union,
  \<open>&\<close> is intersection and \<open>AMD_DBGAPI_WAVE_STOP_REASON_NONE\<close> is the empty set.
\<close>

datatype amd_dbgapi_wave_stop_reason_t =
    STOP_REASON_BREAKPOINT
  | STOP_REASON_WATCHPOINT
  | STOP_REASON_SINGLE_STEP
  | STOP_REASON_FP_INPUT_DENORMAL
  | STOP_REASON_FP_DIVIDE_BY_0
  | STOP_REASON_FP_OVERFLOW
  | STOP_REASON_FP_UNDERFLOW
  | STOP_REASON_FP_INEXACT
  | STOP_REASON_FP_INVALID_OPERATION
  | STOP_REASON_INT_DIVIDE_BY_0
  | STOP_REASON_DEBUG_TRAP
  | STOP_REASON_ASSERT_TRAP
  | STOP_REASON_TRAP
  | STOP_REASON_MEMORY_VIOLATION
  | STOP_REASON_ADDRESS_ERROR
  | STOP_REASON_ILLEGAL_INSTRUCTION
  | STOP_REASON_OTHER nat

type_synonym amd_dbgapi_wave_stop_reasons_t = "amd_dbgapi_wave_stop_reason_t set"

datatype visibility_t = visible | hidden_at_endpgm | hidden_other

datatype amd_dbgapi_event_kind_t =
    EVENT_KIND_WAVE_STOP
  | EVENT_KIND_WAVE_COMMAND_TERMINATED

subsection \<open>Bytes and words\<close>

definition le_bytes32 :: "u32 \<Rightarrow> u8 list" where
  "le_bytes32 v = [ucast v, ucast (drop_bit 8 v), ucast (drop_bit 16 v), ucast (drop_bit 24 v)]"

definition le_bytes64 :: "u64 \<Rightarrow> u8 list" where
  "le_bytes64 v =
     [ucast v, ucast (drop_bit 8 v), ucast (drop_bit 16 v), ucast (drop_bit 24 v),
      ucast (drop_bit 32 v), ucast (drop_bit 40 v), ucast (drop_bit 48 v),
      ucast (drop_bit 56 v)]"

definition of_le_bytes32 :: "u8 list \<Rightarrow> u32" where
  "of_le_bytes32 bs =
     ucast (bs ! 0) OR push_bit 8 (ucast (bs ! 1)) OR push_bit 16 (ucast (bs ! 2))
       OR push_bit 24 (ucast (bs ! 3))"

definition of_le_bytes64 :: "u8 list \<Rightarrow> u64" where
  "of_le_bytes64 bs =
     ucast (bs ! 0) OR push_bit 8 (ucast (bs ! 1)) OR push_bit 16 (ucast (bs ! 2))
       OR push_bit 24 (ucast (bs ! 3)) OR push_bit 32 (ucast (bs ! 4))
       OR push_bit 40 (ucast (bs ! 5)) OR push_bit 48 (ucast (bs ! 6))
       OR push_bit 56 (ucast (bs ! 7))"

text \<open>\<open>memcpy (dst + offset, src, size)\<close> on a byte array.\<close>

definition memcpy_at :: "u8 list \<Rightarrow> nat \<Rightarrow> u8 list \<Rightarrow> u8 list" where
  "memcpy_at dst offset src = take offset dst @ src @ drop (offset + length src) dst"

definition load_bytes :: "(u64 \<Rightarrow> u8) \<Rightarrow> u64 \<Rightarrow> nat \<Rightarrow> u8 list" where
  "load_bytes m a n = map (\<lambda>k. m (a + of_nat k)) [0..<n]"

definition store_bytes :: "(u64 \<Rightarrow> u8) \<Rightarrow> u64 \<Rightarrow> u8 list \<Rightarrow> (u64 \<Rightarrow> u8)" where
  "store_bytes m a bs = (\<lambda>x. if unat (x - a) < length bs then bs ! unat (x - a) else m x)"

subsection \<open>The wave object\<close>

text \<open>
  Modelled from the spec: \<open>memory_cache_t\<close> (memory.h is not part of the sources at
  hand) is the write-back cache over the hot register range of the save area:
  \<open>contains (address, size)\<close> holds when the byte range lies within the cached
  window, and reads and writes of a contained range are served by the cache.
\<close>

record memory_cache_t =
  cache_address :: u64
  cache_size :: u64
  cache_bytes :: "u64 \<Rightarrow> u8"

definition cache_contains :: "memory_cache_t \<Rightarrow> u64 \<Rightarrow> nat \<Rightarrow> bool" where
  "cache_contains c a n \<longleftrightarrow>
     unat (cache_address c) \<le> unat a
       \<and> unat a + n \<le> unat (cache_address c) + unat (cache_size c)"

record displaced_stepping_t =
  is_simulated :: bool
  ds_from :: u64
  ds_to :: u64
  original_instruction :: instruction_t

text \<open>
  The members of \<open>wave_t\<close> that wave.cpp and architecture.cpp read and write.
  \<open>register_address\<close> is \<open>m_cwsr_record->register_address\<close>; \<open>global_memory\<close> is the
  process memory behind \<open>read_global_memory\<close> and \<open>write_global_memory\<close> (the memory
  plumbing is an external collaborator: an access to the save area of a suspended
  queue succeeds); \<open>instruction_memory\<close> is what \<open>instruction_at_pc\<close> reads, \<open>None\<close>
  when the partial read fails; \<open>events\<close> collects what \<open>raise_event\<close> enqueues;
  the last two fields are the answers of the queue callbacks of the same names.
\<close>

record wave_t =
  m_state :: amd_dbgapi_wave_state_t
  m_stop_reason :: amd_dbgapi_wave_stop_reasons_t
  m_stop_requested :: bool
  m_is_parked :: bool
  m_parked_pc :: u64
  m_last_stopped_pc :: u64
  m_displaced_stepping :: "displaced_stepping_t option"
  m_visibility :: visibility_t
  lane_count :: nat
  register_address :: "amdgpu_regnum_t \<Rightarrow> u64 option"
  m_register_cache :: memory_cache_t
  global_memory :: "u64 \<Rightarrow> u8"
  queue_is_suspended :: bool
  instruction_memory :: "u64 \<Rightarrow> instruction_t option"
  events :: "amd_dbgapi_event_kind_t list"
  park_instruction_address :: u64
  endpgm_instruction_address :: u64

text \<open>
  Modelled from the spec: \<open>is_pseudo_register\<close> (register.h): the registers that have
  no save-area address of their own and are computed from real registers.
\<close>

fun is_pseudo_register :: "amdgpu_regnum_t \<Rightarrow> bool" where
  "is_pseudo_register pseudo_status = True"
| "is_pseudo_register pseudo_exec_64 = True"
| "is_pseudo_register pseudo_vcc_64 = True"
| "is_pseudo_register wave_id = True"
| "is_pseudo_register csp = True"
| "is_pseudo_register null = True"
| "is_pseudo_register r = False"

text \<open>\<open>amdgcn_architecture_t::register_size\<close>; \<open>None\<close> is its \<open>assert_not_reached\<close>.\<close>

fun register_size :: "amdgpu_regnum_t \<Rightarrow> nat option" where
  "register_size (vgpr_64 n) = Some (4 * 64)"
| "register_size (shadow_sgpr n) = Some 4"
| "register_size (sgpr n) = Some 4"
| "register_size (hwreg n) = Some 4"
| "register_size (ttmp n) = Some 4"
| "register_size exec_64 = Some 8"
| "register_size pseudo_exec_64 = Some 8"
| "register_size vcc_64 = Some 8"
| "register_size pseudo_vcc_64 = Some 8"
| "register_size xnack_mask_64 = Some 8"
| "register_size pc = Some 8"
| "register_size m0 = Some 4"
| "register_size status = Some 4"
| "register_size trapsts = Some 4"
| "register_size mode = Some 4"
| "register_size flat_scratch_lo = Some 4"
| "register_size flat_scratch_hi = Some 4"
| "register_size exec_lo = Some 4"
| "register_size exec_hi = Some 4"
| "register_size vcc_lo = Some 4"
| "register_size vcc_hi = Some 4"
| "register_size xnack_mask_lo = Some 4"
| "register_size xnack_mask_hi = Some 4"
| "register_size pseudo_status = Some 4"
| "register_size csp = Some 4"
| "register_size null = Some 4"
| "register_size wave_id = Some 8"
| "register_size flat_scratch = Some 8"
| "register_size r = None"

text \<open>
  \<open>wave_t::read_register\<close> and \<open>wave_t::write_register\<close> for a register that is not
  a pseudo register (the part of the function after the pseudo-register dispatch).
\<close>

definition read_real_register ::
  "wave_t \<Rightarrow> amdgpu_regnum_t \<Rightarrow> nat \<Rightarrow> nat \<Rightarrow> error + u8 list" where
  "read_real_register w regnum offset value_size =
     (case (register_address w regnum, register_size regnum) of
        (Some reg_addr, Some reg_size) \<Rightarrow>
          if value_size = 0 \<or> offset + value_size > reg_size
            then Inl Invalid_argument_compatibility
          else if m_is_parked w \<and> regnum = pc
            then Inr (take value_size (drop offset (le_bytes64 (m_parked_pc w))))
          else if cache_contains (m_register_cache w) (reg_addr + of_nat offset) value_size
            then Inr (load_bytes (cache_bytes (m_register_cache w))
                        (reg_addr + of_nat offset) value_size)
          else if \<not> queue_is_suspended w then Inl Assert_failed
          else Inr (load_bytes (global_memory w) (reg_addr + of_nat offset) value_size)
      | _ \<Rightarrow> Inl Invalid_register_id)"

definition write_real_register ::
  "wave_t \<Rightarrow> amdgpu_regnum_t \<Rightarrow> nat \<Rightarrow> u8 list \<Rightarrow> error + wave_t" where
  "write_real_register w regnum offset val =
     (case (register_address w regnum, register_size regnum) of
        (Some reg_addr, Some reg_size) \<Rightarrow>
          if length val = 0 \<or> offset + length val > reg_size
            then Inl Invalid_argument_compatibility
          else if m_is_parked w \<and> regnum = pc
            then Inr (w\<lparr> m_parked_pc :=
                          of_le_bytes64 (memcpy_at (le_bytes64 (m_parked_pc w)) offset val) \<rparr>)
          else if cache_contains (m_register_cache w) (reg_addr + of_nat offset) (length val)
            then Inr (w\<lparr> m_register_cache :=
                          (m_register_cache w)\<lparr> cache_bytes :=
                             store_bytes (cache_bytes (m_register_cache w))
                               (reg_addr + of_nat offset) val \<rparr> \<rparr>)
          else if \<not> queue_is_suspended w then Inl Assert_failed
          else Inr (w\<lparr> global_memory :=
                          store_bytes (global_memory w) (reg_addr + of_nat offset) val \<rparr>)
      | _ \<Rightarrow> Inl Invalid_register_id)"

text \<open>The typed accessors on real registers (\<open>read_register (regnum, &value)\<close>).\<close>

definition read_real32 :: "wave_t \<Rightarrow> amdgpu_regnum_t \<Rightarrow> error + u32" where
  "read_real32 w regnum =
     bind_e (read_real_register w regnum 0 4) (\<lambda>bs. Inr (of_le_bytes32 bs))"

definition read_real64 :: "wave_t \<Rightarrow> amdgpu_regnum_t \<Rightarrow> error + u64" where
  "read_real64 w regnum =
     bind_e (read_real_register w regnum 0 8) (\<lambda>bs. Inr (of_le_bytes64 bs))"

definition write_real32 :: "wave_t \<Rightarrow> amdgpu_regnum_t \<Rightarrow> u32 \<Rightarrow> error + wave_t" where
  "write_real32 w regnum v = write_real_register w regnum 0 (le_bytes32 v)"

definition write_real64 :: "wave_t \<Rightarrow> amdgpu_regnum_t \<Rightarrow> u64 \<Rightarrow> error + wave_t" where
  "write_real64 w regnum v = write_real_register w regnum 0 (le_bytes64 v)"

section \<open>Pseudo registers (amdgcn_architecture_t)\<close>

definition sq_wave_status_scc_mask :: u32 where "sq_wave_status_scc_mask = push_bit 0 1"
definition sq_wave_status_priv_mask :: u32 where "sq_wave_status_priv_mask = push_bit 5 1"
definition sq_wave_status_execz_mask :: u32 where "sq_wave_status_execz_mask = push_bit 9 1"
definition sq_wave_status_vccz_mask :: u32 where "sq_wave_status_vccz_mask = push_bit 10 1"
definition sq_wave_status_halt_mask :: u32 where "sq_wave_status_halt_mask = push_bit 13 1"
definition sq_wave_status_skip_export_mask :: u32 where
  "sq_wave_status_skip_export_mask = push_bit 18 1"
definition sq_wave_status_cond_dbg_user_mask :: u32 where
  "sq_wave_status_cond_dbg_user_mask = push_bit 20 1"
definition sq_wave_status_cond_dbg_sys_mask :: u32 where
  "sq_wave_status_cond_dbg_sys_mask = push_bit 21 1"

definition ttmp6_wave_stopped_mask :: u32 where "ttmp6_wave_stopped_mask = push_bit 30 1"
definition ttmp6_saved_status_halt_mask :: u32 where
  "ttmp6_saved_status_halt_mask = push_bit 29 1"
definition ttmp6_saved_trap_id_shift :: nat where "ttmp6_saved_trap_id_shift = 25"
definition ttmp6_saved_trap_id_size :: nat where "ttmp6_saved_trap_id_size = 4"
definition ttmp6_saved_trap_id_mask :: u32 where
  "ttmp6_saved_trap_id_mask =
     bit_mask ttmp6_saved_trap_id_shift
       (ttmp6_saved_trap_id_shift + ttmp6_saved_trap_id_size - 1)"

definition sq_wave_mode_debug_en_mask :: u32 where "sq_wave_mode_debug_en_mask = push_bit 11 1"

definition is_pseudo_register_available :: "wave_t \<Rightarrow> amdgpu_regnum_t \<Rightarrow> error + bool" where
  "is_pseudo_register_available w regnum =
     (if \<not> is_pseudo_register regnum then Inl Assert_failed
      else Inr (regnum = pseudo_status \<or> regnum = pseudo_exec_64 \<or> regnum = pseudo_vcc_64
                  \<or> regnum = wave_id \<or> regnum = csp \<or> regnum = null))"

text \<open>The two assertions at the head of \<open>read_pseudo_register\<close> and \<open>write_pseudo_register\<close>.\<close>

definition pseudo_register_checks :: "wave_t \<Rightarrow> amdgpu_regnum_t \<Rightarrow> nat \<Rightarrow> nat \<Rightarrow> error + unit" where
  "pseudo_register_checks w regnum offset value_size =
     bind_e (dbgapi_assert (is_pseudo_register regnum)) (\<lambda>_.
     bind_e (is_pseudo_register_available w regnum) (\<lambda>avail.
     bind_e (dbgapi_assert avail) (\<lambda>_.
     case register_size regnum of
       None \<Rightarrow> Inl Assert_failed
     | Some sz \<Rightarrow> dbgapi_assert (value_size \<noteq> 0 \<and> offset + value_size \<le> sz))))"

text \<open>
  Inside the pseudo-register functions every \<open>wave.read_register\<close> and
  \<open>wave.write_register\<close> names a real register, for which \<open>wave_t::read_register\<close>
  is \<open>read_real_register\<close>.
\<close>

definition read_pseudo_register ::
  "wave_t \<Rightarrow> amdgpu_regnum_t \<Rightarrow> nat \<Rightarrow> nat \<Rightarrow> error + u8 list" where
  "read_pseudo_register w regnum offset value_size =
     bind_e (pseudo_register_checks w regnum offset value_size) (\<lambda>_.
     if regnum = null then Inr (replicate value_size 0)
     else if regnum = pseudo_exec_64 \<or> regnum = pseudo_vcc_64 then
       bind_e (dbgapi_assert (lane_count w = 64)) (\<lambda>_.
       read_real_register w (if regnum = pseudo_exec_64 then exec_64 else vcc_64)
         offset value_size)
     else if regnum = pseudo_status then
       bind_e (read_real32 w status) (\<lambda>status_reg.
       bind_e (read_real32 w ttmp6) (\<lambda>ttmp6_reg.
       let status_reg = status_reg AND NOT (sq_wave_status_priv_mask OR sq_wave_status_halt_mask
                                              OR sq_wave_status_skip_export_mask);
           status_reg = (if ttmp6_reg AND ttmp6_saved_status_halt_mask \<noteq> 0
                         then status_reg OR sq_wave_status_halt_mask else status_reg)
       in Inr (take value_size (drop offset (le_bytes32 status_reg)))))
     else if regnum = wave_id then
       bind_e (read_real32 w ttmp4) (\<lambda>wave_id0.
       bind_e (read_real32 w ttmp5) (\<lambda>wave_id1.
       Inr (take value_size (drop offset (le_bytes32 wave_id0 @ le_bytes32 wave_id1)))))
     else if regnum = csp then
       bind_e (read_real32 w mode) (\<lambda>mode_reg.
       Inr (take value_size (drop offset (le_bytes32 (bit_extract mode_reg 29 31)))))
     else Inl Assert_failed)"

definition write_pseudo_register ::
  "wave_t \<Rightarrow> amdgpu_regnum_t \<Rightarrow> nat \<Rightarrow> u8 list \<Rightarrow> error + wave_t" where
  "write_pseudo_register w regnum offset val =
     bind_e (pseudo_register_checks w regnum offset (length val)) (\<lambda>_.
     if regnum = null then Inr w
     else if regnum = pseudo_exec_64 \<or> regnum = pseudo_vcc_64 then
       bind_e (dbgapi_assert (lane_count w = 64)) (\<lambda>_.
       let base_regnum = (if regnum = pseudo_exec_64 then exec_64 else vcc_64);
           status_mask = (if regnum = pseudo_exec_64 then sq_wave_status_execz_mask
                          else sq_wave_status_vccz_mask)
       in bind_e (read_real32 w status) (\<lambda>status_reg.
          bind_e (read_real64 w base_regnum) (\<lambda>base_reg.
          let base_reg = of_le_bytes64 (memcpy_at (le_bytes64 base_reg) offset val);
              status_reg = (status_reg AND NOT status_mask)
                             OR (if base_reg = 0 then status_mask else 0)
          in bind_e (write_real32 w status status_reg) (\<lambda>w.
             write_real64 w base_regnum base_reg))))
     else if regnum = pseudo_status then
       bind_e (read_real32 w status) (\<lambda>status_reg.
       bind_e (read_real32 w ttmp6) (\<lambda>ttmp6_reg.
       let status_reg = of_le_bytes32 (memcpy_at (le_bytes32 status_reg) offset val);
           ttmp6_reg = ttmp6_reg AND NOT ttmp6_saved_status_halt_mask;
           ttmp6_reg = (if status_reg AND sq_wave_status_halt_mask \<noteq> 0
                        then ttmp6_reg OR ttmp6_saved_status_halt_mask else ttmp6_reg)
       in bind_e (write_real32 w status status_reg) (\<lambda>w.
          write_real32 w ttmp6 ttmp6_reg)))
     else if regnum = wave_id then
       bind_e (if length val < 8 then read_pseudo_register w wave_id 0 8
               else Inr (replicate 8 0)) (\<lambda>old.
       let new = memcpy_at old offset val
       in bind_e (write_real32 w ttmp4 (of_le_bytes32 (take 4 new))) (\<lambda>w.
          write_real32 w ttmp5 (of_le_bytes32 (drop 4 new))))
     else if regnum = csp then
       bind_e (read_real32 w mode) (\<lambda>mode_reg.
       let csp_reg = of_le_bytes32 (memcpy_at (le_bytes32 (bit_extract mode_reg 29 31)) offset val);
           mode_reg = (mode_reg AND NOT (bit_mask 29 31)) OR push_bit 29 csp_reg
       in write_real32 w mode mode_reg)
     else Inl Assert_failed)"

subsection \<open>wave_t::read_register and wave_t::write_register\<close>

definition read_register ::
  "wave_t \<Rightarrow> amdgpu_regnum_t \<Rightarrow> nat \<Rightarrow> nat \<Rightarrow> error + u8 list" where
  "read_register w regnum offset value_size =
     (if is_pseudo_register regnum then read_pseudo_register w regnum offset value_size
      else read_real_register w regnum offset value_size)"

definition write_register ::
  "wave_t \<Rightarrow> amdgpu_regnum_t \<Rightarrow> nat \<Rightarrow> u8 list \<Rightarrow> error + wave_t" where
  "write_register w regnum offset val =
     (if is_pseudo_register regnum then write_pseudo_register w regnum offset val
      else write_real_register w regnum offset val)"

definition read_register32 :: "wave_t \<Rightarrow> amdgpu_regnum_t \<Rightarrow> error + u32" where
  "read_register32 w regnum =
     bind_e (read_register w regnum 0 4) (\<lambda>bs. Inr (of_le_bytes32 bs))"

definition read_register64 :: "wave_t \<Rightarrow> amdgpu_regnum_t \<Rightarrow> error + u64" where
  "read_register64 w regnum =
     bind_e (read_register w regnum 0 8) (\<lambda>bs. Inr (of_le_bytes64 bs))"

definition write_register32 :: "wave_t \<Rightarrow> amdgpu_regnum_t \<Rightarrow> u32 \<Rightarrow> error + wave_t" where
  "write_register32 w regnum v = write_register w regnum 0 (le_bytes32 v)"

definition write_register64 :: "wave_t \<Rightarrow> amdgpu_regnum_t \<Rightarrow> u64 \<Rightarrow> error + wave_t" where
  "write_register64 w regnum v = write_register w regnum 0 (le_bytes64 v)"

text \<open>\<open>wave_t::pc\<close> and \<open>wave_t::instruction_at_pc\<close>.\<close>

definition wave_pc :: "wave_t \<Rightarrow> error + u64" where
  "wave_pc w = read_register64 w pc"

definition instruction_at_pc :: "wave_t \<Rightarrow> error + instruction_t option" where
  "instruction_at_pc w = bind_e (wave_pc w) (\<lambda>a. Inr (instruction_memory w a))"

section \<open>Parking, termination and the state machine (wave.cpp)\<close>

text \<open>
  What wave.cpp takes from other translation units: the virtual members of
  \<open>architecture_t\<close> it calls, and the constant \<open>resumable_stop_reason_mask\<close> of
  wave.h (not part of the sources at hand), the set of stop reasons after which a
  wave may be resumed.
\<close>

record env_t =
  can_halt_at_endpgm :: bool
  arch_is_endpgm :: "instruction_t \<Rightarrow> bool"
  set_wave_state :: "wave_t \<Rightarrow> amd_dbgapi_wave_state_t \<Rightarrow> error + wave_t"
  arch_simulate_instruction :: "wave_t \<Rightarrow> u64 \<Rightarrow> instruction_t \<Rightarrow> error + (bool \<times> wave_t)"
  resumable_stop_reason_mask :: amd_dbgapi_wave_stop_reasons_t

definition raise_event :: "wave_t \<Rightarrow> amd_dbgapi_event_kind_t \<Rightarrow> wave_t" where
  "raise_event w event_kind = w\<lparr> events := events w @ [event_kind] \<rparr>"

definition park :: "wave_t \<Rightarrow> error + wave_t" where
  "park w =
     bind_e (dbgapi_assert (m_state w = WAVE_STATE_STOP)) (\<lambda>_.
     bind_e (dbgapi_assert (\<not> m_is_parked w)) (\<lambda>_.
     bind_e (wave_pc w) (\<lambda>cur_pc.
     let w = w\<lparr> m_parked_pc := cur_pc \<rparr>
     in bind_e (write_register64 w pc (park_instruction_address w)) (\<lambda>w.
        Inr (w\<lparr> m_is_parked := True \<rparr>)))))"

definition unpark :: "wave_t \<Rightarrow> error + wave_t" where
  "unpark w =
     bind_e (dbgapi_assert (m_state w \<noteq> WAVE_STATE_STOP)) (\<lambda>_.
     bind_e (dbgapi_assert (m_is_parked w)) (\<lambda>_.
     bind_e (wave_pc w) (\<lambda>saved_pc.
     let w = w\<lparr> m_is_parked := False \<rparr>
     in write_register64 w pc saved_pc)))"

text \<open>
  \<open>wave_t::set_state\<close> from the point where the architecture is asked to change the
  state (\<open>architecture ().set_wave_state\<close>) to the end of the function.
\<close>

definition set_state_commit ::
  "env_t \<Rightarrow> wave_t \<Rightarrow> amd_dbgapi_wave_state_t \<Rightarrow> amd_dbgapi_wave_state_t \<Rightarrow> error + wave_t" where
  "set_state_commit E w prev_state state =
     bind_e (set_wave_state E w state) (\<lambda>w.
     let w = w\<lparr> m_state := state \<rparr>
     in bind_e (if \<not> can_halt_at_endpgm E
                then (if state = WAVE_STATE_STOP then park w else unpark w)
                else Inr w) (\<lambda>w.
        if state \<noteq> WAVE_STATE_STOP then
          bind_e (dbgapi_assert (prev_state = WAVE_STATE_STOP)) (\<lambda>_.
          bind_e (wave_pc w) (\<lambda>cur_pc.
          Inr (w\<lparr> m_last_stopped_pc := cur_pc, m_stop_reason := {} \<rparr>)))
        else if prev_state \<noteq> WAVE_STATE_STOP then
          bind_e (dbgapi_assert (m_visibility w = visible)) (\<lambda>_.
          Inr (raise_event (w\<lparr> m_stop_reason := {} \<rparr>)
                 (if prev_state = WAVE_STATE_SINGLE_STEP
                  then EVENT_KIND_WAVE_COMMAND_TERMINATED else EVENT_KIND_WAVE_STOP)))
        else Inr w))"

text \<open>The two assertions of \<open>set_state\<close> and the update of \<open>m_stop_requested\<close>.\<close>

definition set_state_enter ::
  "env_t \<Rightarrow> wave_t \<Rightarrow> amd_dbgapi_wave_state_t \<Rightarrow> error + wave_t" where
  "set_state_enter E w state =
     bind_e (dbgapi_assert (m_displaced_stepping w = None \<or> state \<noteq> WAVE_STATE_RUN)) (\<lambda>_.
     bind_e (dbgapi_assert (state = WAVE_STATE_STOP
                              \<or> m_stop_reason w - resumable_stop_reason_mask E = {})) (\<lambda>_.
     Inr (w\<lparr> m_stop_requested := (state = WAVE_STATE_STOP) \<rparr>)))"

text \<open>
  \<open>wave_t::terminate\<close> ends with \<open>set_state (AMD_DBGAPI_WAVE_STATE_RUN)\<close>; a request
  for the run state takes neither of the two single-step branches of \<open>set_state\<close>, so
  this call is the no-op test, the entry checks and the commit.
\<close>

definition terminate :: "env_t \<Rightarrow> wave_t \<Rightarrow> error + wave_t" where
  "terminate E w =
     (let w = w\<lparr> m_displaced_stepping := None \<rparr>
      in bind_e (write_register64 w pc (endpgm_instruction_address w)) (\<lambda>w.
         let w = w\<lparr> m_visibility := hidden_at_endpgm \<rparr>;
             prev_state = m_state w
         in if WAVE_STATE_RUN = prev_state then Inr w
            else bind_e (set_state_enter E w WAVE_STATE_RUN) (\<lambda>w.
                 set_state_commit E w prev_state WAVE_STATE_RUN)))"


definition set_state :: "env_t \<Rightarrow> wave_t \<Rightarrow> amd_dbgapi_wave_state_t \<Rightarrow> error + wave_t" where
  "set_state E w state =
     (let prev_state = m_state w
      in if state = prev_state then Inr w
         else
           bind_e (set_state_enter E w state) (\<lambda>w.
           bind_e (if state = WAVE_STATE_SINGLE_STEP
                   then bind_e (instruction_at_pc w) (\<lambda>instruction.
                        Inr ((case m_displaced_stepping w of
                                None \<Rightarrow> False
                              | Some d \<Rightarrow> is_simulated d \<and> arch_is_endpgm E (original_instruction d))
                             \<or> (case instruction of
                                   None \<Rightarrow> False
                                 | Some i \<Rightarrow> arch_is_endpgm E i)))
                   else Inr False) (\<lambda>is_endpgm.
           if is_endpgm then
             bind_e (terminate E w) (\<lambda>w.
             Inr (raise_event w EVENT_KIND_WAVE_COMMAND_TERMINATED))
           else
             bind_e (case m_displaced_stepping w of
                       Some d \<Rightarrow>
                         if state = WAVE_STATE_SINGLE_STEP \<and> is_simulated d
                         then arch_simulate_instruction E w (ds_from d) (original_instruction d)
                         else Inr (False, w)
                     | None \<Rightarrow> Inr (False, w)) (\<lambda>(simulated, w).
             if simulated then
               Inr (raise_event (w\<lparr> m_state := WAVE_STATE_STOP,
                                     m_stop_reason := {STOP_REASON_SINGLE_STEP} \<rparr>)
                      EVENT_KIND_WAVE_STOP)
             else set_state_commit E w prev_state state))))"

section \<open>Branch evaluation and simulation (amdgcn_architecture_t)\<close>

definition pc_read_only_bits :: u64 where
  "pc_read_only_bits = bit_mask 0 1"

definition minimum_instruction_alignment :: u64 where
  "minimum_instruction_alignment = pc_read_only_bits + 1"

text \<open>Modelled from the spec: \<open>utils::bit_count\<close> (utils.h), the number of set bits.\<close>

definition bit_count :: "u64 \<Rightarrow> nat" where
  "bit_count x = length (filter (bit x) [0..<64])"

definition join_hi_lo :: "u32 \<Rightarrow> u32 \<Rightarrow> u64" where
  "join_hi_lo hi lo = push_bit 32 (ucast hi) OR ucast lo"

text \<open>
  The register that holds the lane mask of a fork instruction:
  \<open>scalar_operand_to_regnum (is_cbranch_i_fork ? sdst_operand : ssrc0_operand)\<close>.
\<close>

definition fork_mask_regnum :: "arch \<Rightarrow> instruction_t \<Rightarrow> amdgpu_regnum_t option" where
  "fork_mask_regnum a i =
     scalar_operand_to_regnum a
       (if is_cbranch_i_fork a i then unat (sdst_operand i) else unat (ssrc0_operand i)) False"

definition is_branch_taken :: "arch \<Rightarrow> wave_t \<Rightarrow> instruction_t \<Rightarrow> error + bool" where
  "is_branch_taken a w i =
     (if is_cbranch a i then
        bind_e (read_register32 w status) (\<lambda>status_reg.
        bind_e (cbranch_condition_code a i) (\<lambda>c.
        Inr (case c of
               scc0 \<Rightarrow> status_reg AND sq_wave_status_scc_mask = 0
             | scc1 \<Rightarrow> status_reg AND sq_wave_status_scc_mask \<noteq> 0
             | execz \<Rightarrow> status_reg AND sq_wave_status_execz_mask \<noteq> 0
             | execnz \<Rightarrow> status_reg AND sq_wave_status_execz_mask = 0
             | vccz \<Rightarrow> status_reg AND sq_wave_status_vccz_mask \<noteq> 0
             | vccnz \<Rightarrow> status_reg AND sq_wave_status_vccz_mask = 0
             | cdbgsys \<Rightarrow> status_reg AND sq_wave_status_cond_dbg_sys_mask \<noteq> 0
             | cdbguser \<Rightarrow> status_reg AND sq_wave_status_cond_dbg_user_mask \<noteq> 0
             | cdbgsys_or_user \<Rightarrow>
                 status_reg AND (sq_wave_status_cond_dbg_sys_mask
                                   OR sq_wave_status_cond_dbg_user_mask) \<noteq> 0
             | cdbgsys_and_user \<Rightarrow>
                 status_reg AND (sq_wave_status_cond_dbg_sys_mask
                                   OR sq_wave_status_cond_dbg_user_mask)
                   = (sq_wave_status_cond_dbg_sys_mask
                        OR sq_wave_status_cond_dbg_user_mask))))
      else if is_cbranch_i_fork a i \<or> is_cbranch_g_fork a i then
        bind_e (dbgapi_assert (lane_count w = 64)) (\<lambda>_.
        case fork_mask_regnum a i of
          None \<Rightarrow> Inl Assert_failed
        | Some regnum \<Rightarrow>
            bind_e (read_register32 w (regnum_add regnum 0)) (\<lambda>mask_lo.
            bind_e (read_register32 w (regnum_add regnum 1)) (\<lambda>mask_hi.
            bind_e (read_register64 w exec_64) (\<lambda>exec.
            let mask = join_hi_lo mask_hi mask_lo;
                mask_pass = mask AND exec;
                mask_fail = NOT mask AND exec
            in if mask_pass = exec then Inr True
               else if mask_fail = exec then Inr False
               else Inr (bit_count mask_fail \<ge> bit_count mask_pass)))))
      else if is_cbranch_join a i then
        (case scalar_operand_to_regnum a (unat (ssrc0_operand i)) False of
           None \<Rightarrow> Inl Assert_failed
         | Some regnum \<Rightarrow>
             bind_e (read_register32 w csp) (\<lambda>csp_reg.
             bind_e (read_register32 w regnum) (\<lambda>mask.
             Inr (csp_reg \<noteq> mask))))
      else if is_branch a i \<or> is_call a i \<or> is_setpc a i \<or> is_swappc a i then Inr True
      else Inl Assert_failed)"

definition read_register_pair :: "wave_t \<Rightarrow> amdgpu_regnum_t \<Rightarrow> error + u64" where
  "read_register_pair w regnum =
     bind_e (read_register32 w (regnum_add regnum 0)) (\<lambda>lo.
     bind_e (read_register32 w (regnum_add regnum 1)) (\<lambda>hi.
     Inr (join_hi_lo hi lo)))"

definition branch_target :: "arch \<Rightarrow> wave_t \<Rightarrow> u64 \<Rightarrow> instruction_t \<Rightarrow> error + u64" where
  "branch_target a w cur_pc i =
     bind_e (dbgapi_assert (is_valid i)) (\<lambda>_.
     bind_e
       (if is_branch a i \<or> is_call a i \<or> is_cbranch a i \<or> is_cbranch_i_fork a i then
          Inr (cur_pc + isize i + simm16_offset i)
        else if is_cbranch_g_fork a i then
          (case scalar_operand_to_regnum a (unat (ssrc1_operand i)) False of
             None \<Rightarrow> Inl Assert_failed
           | Some regnum \<Rightarrow> read_register_pair w regnum)
        else if is_setpc a i \<or> is_swappc a i then
          (case scalar_operand_to_regnum a (unat (ssrc0_operand i)) False of
             None \<Rightarrow> Inl Assert_failed
           | Some regnum \<Rightarrow> read_register_pair w regnum)
        else if is_cbranch_join a i then
          bind_e (read_register32 w csp) (\<lambda>csp_reg.
          let regnum = sgpr (unat ((csp_reg - 1) * 4))
          in bind_e (read_register32 w (regnum_add regnum 2)) (\<lambda>pc_lo.
             bind_e (read_register32 w (regnum_add regnum 3)) (\<lambda>pc_hi.
             Inr (join_hi_lo pc_hi pc_lo))))
        else Inl Assert_failed)
       (\<lambda>target. Inr (align_down target minimum_instruction_alignment)))"

text \<open>
  The push of a fork: the four writes to \<open>s[csp * 4 .. csp * 4 + 3]\<close>, the write of
  the incremented \<open>csp\<close> and the write of the new exec mask.
\<close>

definition simulate_fork ::
  "arch \<Rightarrow> wave_t \<Rightarrow> u64 \<Rightarrow> instruction_t \<Rightarrow> error + wave_t" where
  "simulate_fork a w cur_pc i =
     bind_e (dbgapi_assert (lane_count w = 64)) (\<lambda>_.
     case fork_mask_regnum a i of
       None \<Rightarrow> Inl Assert_failed
     | Some mask_regnum \<Rightarrow>
         bind_e (read_register32 w (regnum_add mask_regnum 0)) (\<lambda>mask_lo.
         bind_e (read_register32 w (regnum_add mask_regnum 1)) (\<lambda>mask_hi.
         bind_e (read_register64 w exec_64) (\<lambda>exec.
         let mask = join_hi_lo mask_hi mask_lo;
             mask_pass = mask AND exec;
             mask_fail = NOT mask AND exec
         in if mask_pass \<noteq> exec \<and> mask_fail \<noteq> exec then
              bind_e (is_branch_taken a w i) (\<lambda>taken.
              bind_e (if taken then Inr (cur_pc + isize i)
                      else branch_target a w cur_pc i) (\<lambda>saved_pc.
              let saved_exec = (if taken then mask_fail else mask_pass);
                  saved_exec_lo = (ucast saved_exec :: u32);
                  saved_exec_hi = (ucast (drop_bit 32 saved_exec) :: u32);
                  saved_pc_lo = (ucast saved_pc :: u32);
                  saved_pc_hi = (ucast (drop_bit 32 saved_pc) :: u32)
              in bind_e (read_register32 w csp) (\<lambda>csp_reg.
                 let regnum = sgpr (unat (csp_reg * 4))
                 in bind_e (write_register32 w (regnum_add regnum 0) saved_exec_lo) (\<lambda>w.
                    bind_e (write_register32 w (regnum_add regnum 1) saved_exec_hi) (\<lambda>w.
                    bind_e (write_register32 w (regnum_add regnum 2) saved_pc_lo) (\<lambda>w.
                    bind_e (write_register32 w (regnum_add regnum 3) saved_pc_hi) (\<lambda>w.
                    bind_e (write_register32 w csp (csp_reg + 1)) (\<lambda>w.
                    write_register64 w exec_64
                      (if taken then mask_pass else mask_fail)))))))))
            else Inr w))))"

definition simulate_join :: "arch \<Rightarrow> wave_t \<Rightarrow> instruction_t \<Rightarrow> error + wave_t" where
  "simulate_join a w i =
     bind_e (dbgapi_assert (lane_count w = 64)) (\<lambda>_.
     bind_e (is_branch_taken a w i) (\<lambda>taken.
     if taken then
       bind_e (read_register32 w csp) (\<lambda>csp_reg.
       let csp_reg = csp_reg - 1;
           regnum = sgpr (unat (csp_reg * 4))
       in bind_e (read_register32 w (regnum_add regnum 0)) (\<lambda>exec_lo_v.
          bind_e (read_register32 w (regnum_add regnum 1)) (\<lambda>exec_hi_v.
          bind_e (write_register32 w csp csp_reg) (\<lambda>w.
          write_register64 w exec_64 (join_hi_lo exec_hi_v exec_lo_v)))))
     else Inr w))"

text \<open>
  The tail of \<open>amdgcn_architecture_t::simulate_instruction\<close>: the new pc is the next
  instruction when the instruction is sequential or the branch is not taken, the
  branch target otherwise.
\<close>

definition simulate_new_pc ::
  "arch \<Rightarrow> wave_t \<Rightarrow> u64 \<Rightarrow> instruction_t \<Rightarrow> error + (u64 option \<times> wave_t)" where
  "simulate_new_pc a w cur_pc i =
     (if is_sequential a i then Inr (Some (cur_pc + isize i), w)
      else bind_e (is_branch_taken a w i) (\<lambda>taken.
           if \<not> taken then Inr (Some (cur_pc + isize i), w)
           else bind_e (branch_target a w cur_pc i) (\<lambda>t. Inr (Some t, w))))"

text \<open>
  \<open>amdgcn_architecture_t::simulate_instruction\<close> as a wave of the gfx9 generation
  runs it: \<open>gfx9_architecture_t\<close> inherits the member, and the instruction
  predicates, \<open>is_branch_taken\<close> and \<open>branch_target\<close> that it calls are those of
  \<open>GFX9\<close>.  The later generations and gfx940 override the member (subvector loops,
  \<open>s_sendmsg\<close>, the trap-after-instruction exception); their overrides are not
  embedded here.  \<open>wave_terminate\<close> is \<open>wave.terminate ()\<close>.  The result is the new
  pc, \<open>None\<close> after a simulated \<open>s_endpgm\<close>, and the wave.
\<close>

definition gfx9_simulate_instruction ::
  "(wave_t \<Rightarrow> error + wave_t) \<Rightarrow> wave_t \<Rightarrow> u64 \<Rightarrow> instruction_t \<Rightarrow>
     error + (u64 option \<times> wave_t)" where
  "gfx9_simulate_instruction wave_terminate w cur_pc i =
     bind_e (dbgapi_assert (is_aligned cur_pc minimum_instruction_alignment)) (\<lambda>_.
     if is_branch GFX9 i \<or> is_cbranch GFX9 i \<or> is_setpc GFX9 i
       then simulate_new_pc GFX9 w cur_pc i
     else if is_endpgm GFX9 i then bind_e (wave_terminate w) (\<lambda>w. Inr (None, w))
     else if is_cbranch_i_fork GFX9 i \<or> is_cbranch_g_fork GFX9 i then
       bind_e (simulate_fork GFX9 w cur_pc i) (\<lambda>w. simulate_new_pc GFX9 w cur_pc i)
     else if is_cbranch_join GFX9 i then
       bind_e (simulate_join GFX9 w i) (\<lambda>w. simulate_new_pc GFX9 w cur_pc i)
     else if is_call GFX9 i \<or> is_getpc GFX9 i \<or> is_swappc GFX9 i then
       (case scalar_operand_to_regnum GFX9 (unat (sdst_operand i)) False of
          None \<Rightarrow> Inl Assert_failed
        | Some sdst_regnum \<Rightarrow>
            let sdst_value = cur_pc + isize i
            in bind_e (write_register32 w (regnum_add sdst_regnum 0) (ucast sdst_value)) (\<lambda>w.
               bind_e (write_register32 w (regnum_add sdst_regnum 1)
                         (ucast (drop_bit 32 sdst_value))) (\<lambda>w.
               simulate_new_pc GFX9 w cur_pc i)))
     else Inl Assert_failed)"

text \<open>
  \<open>amdgcn_architecture_t::save_pc_for_park\<close> and \<open>saved_parked_pc\<close>;
  \<open>park_stopped_waves\<close> is the answer of the virtual member of that name.
\<close>

definition save_pc_for_park :: "bool \<Rightarrow> wave_t \<Rightarrow> u64 \<Rightarrow> error + wave_t" where
  "save_pc_for_park park_stopped_waves w saved =
     bind_e (dbgapi_assert park_stopped_waves) (\<lambda>_.
     bind_e (write_register32 w ttmp7 (ucast (bit_extract saved 0 31))) (\<lambda>w.
     bind_e (read_register32 w ttmp11) (\<lambda>ttmp11_reg.
     let ttmp11_reg = ttmp11_reg AND NOT (bit_mask 7 22);
         ttmp11_reg = ttmp11_reg OR ucast (push_bit 7 (bit_extract saved 32 47))
     in write_register32 w ttmp11 ttmp11_reg)))"

definition saved_parked_pc :: "bool \<Rightarrow> wave_t \<Rightarrow> error + u64" where
  "saved_parked_pc park_stopped_waves w =
     bind_e (dbgapi_assert park_stopped_waves) (\<lambda>_.
     bind_e (read_register32 w ttmp7) (\<lambda>ttmp7_reg.
     bind_e (read_register32 w ttmp11) (\<lambda>ttmp11_reg.
     Inr (ucast ttmp7_reg OR push_bit 32 (ucast (bit_extract ttmp11_reg 7 22))))))"

text \<open>
  \<open>amdgcn_architecture_t::simulate_trap_handler\<close>, the member that the gfx9, gfx10
  and gfx11 generations run (gfx12 overrides it, halting through \<open>state_priv\<close>; that
  override is not embedded here).  \<open>trap_id\<close> is the optional trap id and
  \<open>park_stopped_waves\<close> the answer of the virtual member of that name.
\<close>

definition amdgcn_simulate_trap_handler ::
  "bool \<Rightarrow> wave_t \<Rightarrow> u64 \<Rightarrow> u8 option \<Rightarrow> error + wave_t" where
  "amdgcn_simulate_trap_handler park_stopped_waves w new_pc trap_id =
     bind_e (dbgapi_assert (is_aligned new_pc minimum_instruction_alignment)) (\<lambda>_.
     bind_e (read_register32 w status) (\<lambda>status_reg.
     bind_e (read_register32 w ttmp6) (\<lambda>ttmp6_reg.
     let ttmp6_reg = ttmp6_reg AND NOT (ttmp6_saved_status_halt_mask OR ttmp6_saved_trap_id_mask);
         ttmp6_reg = ttmp6_reg OR ttmp6_wave_stopped_mask;
         ttmp6_reg = (case trap_id of
                        None \<Rightarrow> ttmp6_reg
                      | Some t \<Rightarrow> ttmp6_reg OR (push_bit ttmp6_saved_trap_id_shift (ucast t)
                                                  AND ttmp6_saved_trap_id_mask));
         ttmp6_reg = (if status_reg AND sq_wave_status_halt_mask \<noteq> 0
                      then ttmp6_reg OR ttmp6_saved_status_halt_mask else ttmp6_reg)
     in bind_e (write_register32 w ttmp6 ttmp6_reg) (\<lambda>w.
        bind_e (if park_stopped_waves
                then bind_e (save_pc_for_park park_stopped_waves w new_pc) (\<lambda>w.
                     Inr (park_instruction_address w, w))
                else Inr (new_pc, w)) (\<lambda>(new_pc, w).
        bind_e (write_register64 w pc new_pc) (\<lambda>w.
        write_register32 w status (status_reg OR sq_wave_status_halt_mask)))))))"

text \<open>
  \<open>amdgcn_architecture_t::can_simulate\<close> as a wave of the gfx9 generation runs it
  (the gfx10 and gfx11 overrides, which first reject an invalid instruction and
  accept further instructions, are not embedded here).  The member ignores its wave
  argument.
\<close>

definition gfx9_can_simulate :: "instruction_t \<Rightarrow> bool" where
  "gfx9_can_simulate i =
     (if is_getpc GFX9 i \<or> is_call GFX9 i \<or> is_cbranch_i_fork GFX9 i
        then scalar_operand_to_regnum GFX9 (unat (sdst_operand i)) False \<noteq> None
      else if is_setpc GFX9 i \<or> is_cbranch_i_fork GFX9 i
        then scalar_operand_to_regnum GFX9 (unat (ssrc0_operand i)) False \<noteq> None
      else if is_swappc GFX9 i
        then scalar_operand_to_regnum GFX9 (unat (ssrc0_operand i)) False \<noteq> None
               \<and> scalar_operand_to_regnum GFX9 (unat (sdst_operand i)) False \<noteq> None
      else is_branch GFX9 i \<or> is_cbranch GFX9 i \<or> is_cbranch_join GFX9 i
             \<or> is_endpgm GFX9 i)"

text \<open>
  \<open>amdgcn_architecture_t::simulate\<close>, which no generation overrides.  The three
  virtual members it calls are parameters: \<open>can_sim\<close> is \<open>can_simulate\<close>,
  \<open>sim_instruction\<close> is \<open>simulate_instruction\<close> and \<open>sim_trap_handler\<close> is
  \<open>simulate_trap_handler\<close>, each as overridden by the generation of the wave.  The
  result is \<open>(simulated, wave)\<close>.
\<close>

definition simulate ::
  "(wave_t \<Rightarrow> instruction_t \<Rightarrow> bool) \<Rightarrow>
   (wave_t \<Rightarrow> u64 \<Rightarrow> instruction_t \<Rightarrow> error + (u64 option \<times> wave_t)) \<Rightarrow>
   (wave_t \<Rightarrow> u64 \<Rightarrow> u8 option \<Rightarrow> error + wave_t) \<Rightarrow>
   wave_t \<Rightarrow> u64 \<Rightarrow> instruction_t \<Rightarrow> error + (bool \<times> wave_t)" where
  "simulate can_sim sim_instruction sim_trap_handler w cur_pc i =
     bind_e (dbgapi_assert (m_state w = WAVE_STATE_SINGLE_STEP)) (\<lambda>_.
     bind_e (dbgapi_assert (can_sim w i)) (\<lambda>_.
     bind_e (read_register32 w status) (\<lambda>status_reg.
     if status_reg AND sq_wave_status_halt_mask \<noteq> 0 then Inr (False, w)
     else
       bind_e (sim_instruction w cur_pc i) (\<lambda>(new_pc, w).
       case new_pc of
         None \<Rightarrow> Inr (True, w)
       | Some p \<Rightarrow>
           bind_e (sim_trap_handler w p None) (\<lambda>w.
           Inr (True, w))))))"

text \<open>
  \<open>simulate\<close> on a wave of the gfx9 generation: the members are the ones above.
\<close>

definition gfx9_simulate ::
  "bool \<Rightarrow> (wave_t \<Rightarrow> error + wave_t) \<Rightarrow> wave_t \<Rightarrow> u64 \<Rightarrow> instruction_t \<Rightarrow>
     error + (bool \<times> wave_t)" where
  "gfx9_simulate park_stopped_waves wave_terminate =
     simulate (\<lambda>w. gfx9_can_simulate) (gfx9_simulate_instruction wave_terminate)
       (amdgcn_simulate_trap_handler park_stopped_waves)"

text \<open>
  \<open>gfx10_architecture_t::branch_target\<close>, inherited by the later generations, and the
  virtual call \<open>branch_target\<close> as a function of the generation.
\<close>

definition gfx10_branch_target :: "arch \<Rightarrow> wave_t \<Rightarrow> u64 \<Rightarrow> instruction_t \<Rightarrow> error + u64" where
  "gfx10_branch_target a w cur_pc i =
     bind_e (dbgapi_assert (is_valid i)) (\<lambda>_.
     if is_subvector_loop_begin a i \<or> is_subvector_loop_end a i
       then Inr (cur_pc + isize i + simm16_offset i)
     else branch_target a w cur_pc i)"

fun arch_branch_target :: "arch \<Rightarrow> wave_t \<Rightarrow> u64 \<Rightarrow> instruction_t \<Rightarrow> error + u64" where
  "arch_branch_target GFX9 = branch_target GFX9"
| "arch_branch_target a = gfx10_branch_target a"

section \<open>Exceptions and stop reasons (amdgcn_architecture_t)\<close>

definition sq_wave_mode_excp_en_invalid_mask :: u32 where
  "sq_wave_mode_excp_en_invalid_mask = push_bit 12 1"
definition sq_wave_mode_excp_en_input_denorm_mask :: u32 where
  "sq_wave_mode_excp_en_input_denorm_mask = push_bit 13 1"
definition sq_wave_mode_excp_en_div0_mask :: u32 where
  "sq_wave_mode_excp_en_div0_mask = push_bit 14 1"
definition sq_wave_mode_excp_en_overflow_mask :: u32 where
  "sq_wave_mode_excp_en_overflow_mask = push_bit 15 1"
definition sq_wave_mode_excp_en_underflow_mask :: u32 where
  "sq_wave_mode_excp_en_underflow_mask = push_bit 16 1"
definition sq_wave_mode_excp_en_inexact_mask :: u32 where
  "sq_wave_mode_excp_en_inexact_mask = push_bit 17 1"
definition sq_wave_mode_excp_en_int_div0_mask :: u32 where
  "sq_wave_mode_excp_en_int_div0_mask = push_bit 18 1"
definition sq_wave_mode_excp_en_addr_watch_mask :: u32 where
  "sq_wave_mode_excp_en_addr_watch_mask = push_bit 19 1"

definition sq_wave_trapsts_excp_invalid_mask :: u32 where
  "sq_wave_trapsts_excp_invalid_mask = push_bit 0 1"
definition sq_wave_trapsts_excp_input_denorm_mask :: u32 where
  "sq_wave_trapsts_excp_input_denorm_mask = push_bit 1 1"
definition sq_wave_trapsts_excp_div0_mask :: u32 where
  "sq_wave_trapsts_excp_div0_mask = push_bit 2 1"
definition sq_wave_trapsts_excp_overflow_mask :: u32 where
  "sq_wave_trapsts_excp_overflow_mask = push_bit 3 1"
definition sq_wave_trapsts_excp_underflow_mask :: u32 where
  "sq_wave_trapsts_excp_underflow_mask = push_bit 4 1"
definition sq_wave_trapsts_excp_inexact_mask :: u32 where
  "sq_wave_trapsts_excp_inexact_mask = push_bit 5 1"
definition sq_wave_trapsts_excp_int_div0_mask :: u32 where
  "sq_wave_trapsts_excp_int_div0_mask = push_bit 6 1"
definition sq_wave_trapsts_excp_addr_watch0_mask :: u32 where
  "sq_wave_trapsts_excp_addr_watch0_mask = push_bit 7 1"
definition sq_wave_trapsts_excp_mem_viol_mask :: u32 where
  "sq_wave_trapsts_excp_mem_viol_mask = push_bit 8 1"
definition sq_wave_trapsts_illegal_inst_mask :: u32 where
  "sq_wave_trapsts_illegal_inst_mask = push_bit 11 1"
definition sq_wave_trapsts_excp_hi_addr_watch1_mask :: u32 where
  "sq_wave_trapsts_excp_hi_addr_watch1_mask = push_bit 12 1"
definition sq_wave_trapsts_excp_hi_addr_watch2_mask :: u32 where
  "sq_wave_trapsts_excp_hi_addr_watch2_mask = push_bit 13 1"
definition sq_wave_trapsts_excp_hi_addr_watch3_mask :: u32 where
  "sq_wave_trapsts_excp_hi_addr_watch3_mask = push_bit 14 1"
definition sq_wave_trapsts_xnack_error_mask :: u32 where
  "sq_wave_trapsts_xnack_error_mask = push_bit 28 1"

text \<open>\<open>enum class exception_mask_t : uint32_t\<close>.\<close>

type_synonym exception_mask_t = u32

definition exception_invalid :: exception_mask_t where "exception_invalid = push_bit 0 1"
definition exception_input_denorm :: exception_mask_t where "exception_input_denorm = push_bit 1 1"
definition exception_float_div0 :: exception_mask_t where "exception_float_div0 = push_bit 2 1"
definition exception_overflow :: exception_mask_t where "exception_overflow = push_bit 3 1"
definition exception_underflow :: exception_mask_t where "exception_underflow = push_bit 4 1"
definition exception_inexact :: exception_mask_t where "exception_inexact = push_bit 5 1"
definition exception_int_div0 :: exception_mask_t where "exception_int_div0 = push_bit 6 1"
definition exception_mem_viol :: exception_mask_t where "exception_mem_viol = push_bit 7 1"
definition exception_illegal_inst :: exception_mask_t where "exception_illegal_inst = push_bit 8 1"
definition exception_addr_watch0 :: exception_mask_t where "exception_addr_watch0 = push_bit 9 1"
definition exception_addr_watch1 :: exception_mask_t where "exception_addr_watch1 = push_bit 10 1"
definition exception_addr_watch2 :: exception_mask_t where "exception_addr_watch2 = push_bit 11 1"
definition exception_addr_watch3 :: exception_mask_t where "exception_addr_watch3 = push_bit 12 1"
definition exception_xnack_error :: exception_mask_t where "exception_xnack_error = push_bit 13 1"
definition exception_wave_begin :: exception_mask_t where "exception_wave_begin = push_bit 14 1"
definition exception_wave_end :: exception_mask_t where "exception_wave_end = push_bit 15 1"
definition exception_trap_after_inst :: exception_mask_t where
  "exception_trap_after_inst = push_bit 16 1"
definition exception_host_trap :: exception_mask_t where "exception_host_trap = push_bit 17 1"

text \<open>\<open>if (c) x |= m;\<close> on a bit mask.\<close>

definition or_if :: "bool \<Rightarrow> u32 \<Rightarrow> u32 \<Rightarrow> u32" where
  "or_if c m x = (if c then x OR m else x)"

definition signaled_exceptions :: "wave_t \<Rightarrow> error + exception_mask_t" where
  "signaled_exceptions w =
     bind_e (read_register32 w trapsts) (\<lambda>trapsts_reg.
     bind_e (read_register32 w mode) (\<lambda>mode_reg.
     let exceptions = 0;
         exceptions = or_if (trapsts_reg AND sq_wave_trapsts_excp_invalid_mask \<noteq> 0
                     \<and> mode_reg AND sq_wave_mode_excp_en_invalid_mask \<noteq> 0)
                        exception_invalid exceptions;
         exceptions = or_if (trapsts_reg AND sq_wave_trapsts_excp_input_denorm_mask \<noteq> 0
                     \<and> mode_reg AND sq_wave_mode_excp_en_input_denorm_mask \<noteq> 0)
                        exception_input_denorm exceptions;
         exceptions = or_if (trapsts_reg AND sq_wave_trapsts_excp_div0_mask \<noteq> 0
                     \<and> mode_reg AND sq_wave_mode_excp_en_div0_mask \<noteq> 0)
                        exception_float_div0 exceptions;
         exceptions = or_if (trapsts_reg AND sq_wave_trapsts_excp_overflow_mask \<noteq> 0
                     \<and> mode_reg AND sq_wave_mode_excp_en_overflow_mask \<noteq> 0)
                        exception_overflow exceptions;
         exceptions = or_if (trapsts_reg AND sq_wave_trapsts_excp_underflow_mask \<noteq> 0
                     \<and> mode_reg AND sq_wave_mode_excp_en_underflow_mask \<noteq> 0)
                        exception_underflow exceptions;
         exceptions = or_if (trapsts_reg AND sq_wave_trapsts_excp_inexact_mask \<noteq> 0
                     \<and> mode_reg AND sq_wave_mode_excp_en_inexact_mask \<noteq> 0)
                        exception_inexact exceptions;
         exceptions = or_if (trapsts_reg AND sq_wave_trapsts_excp_int_div0_mask \<noteq> 0
                     \<and> mode_reg AND sq_wave_mode_excp_en_int_div0_mask \<noteq> 0)
                        exception_int_div0 exceptions;
         exceptions = or_if (trapsts_reg AND sq_wave_trapsts_xnack_error_mask \<noteq> 0)
                        exception_xnack_error exceptions;
         exceptions = or_if (trapsts_reg AND sq_wave_trapsts_excp_mem_viol_mask \<noteq> 0)
                        exception_mem_viol exceptions;
         exceptions = or_if (trapsts_reg AND sq_wave_trapsts_illegal_inst_mask \<noteq> 0)
                        exception_illegal_inst exceptions;
         exceptions = or_if (trapsts_reg AND sq_wave_trapsts_excp_addr_watch0_mask \<noteq> 0
                     \<and> mode_reg AND sq_wave_mode_excp_en_addr_watch_mask \<noteq> 0)
                        exception_addr_watch0 exceptions;
         exceptions = or_if (trapsts_reg AND sq_wave_trapsts_excp_hi_addr_watch1_mask \<noteq> 0
                     \<and> mode_reg AND sq_wave_mode_excp_en_addr_watch_mask \<noteq> 0)
                        exception_addr_watch1 exceptions;
         exceptions = or_if (trapsts_reg AND sq_wave_trapsts_excp_hi_addr_watch2_mask \<noteq> 0
                     \<and> mode_reg AND sq_wave_mode_excp_en_addr_watch_mask \<noteq> 0)
                        exception_addr_watch2 exceptions;
         exceptions = or_if (trapsts_reg AND sq_wave_trapsts_excp_hi_addr_watch3_mask \<noteq> 0
                     \<and> mode_reg AND sq_wave_mode_excp_en_addr_watch_mask \<noteq> 0)
                        exception_addr_watch3 exceptions
     in Inr exceptions))"

text \<open>The lambda \<open>convert_mask\<close> of \<open>amdgcn_architecture_t::set_exceptions\<close>.\<close>

definition convert_mask :: "exception_mask_t \<Rightarrow> u32" where
  "convert_mask m =
     (let trapsts_mask = 0;
          trapsts_mask = or_if (m AND exception_invalid \<noteq> 0)
                           sq_wave_trapsts_excp_invalid_mask trapsts_mask;
          trapsts_mask = or_if (m AND exception_input_denorm \<noteq> 0)
                           sq_wave_trapsts_excp_input_denorm_mask trapsts_mask;
          trapsts_mask = or_if (m AND exception_float_div0 \<noteq> 0)
                           sq_wave_trapsts_excp_div0_mask trapsts_mask;
          trapsts_mask = or_if (m AND exception_overflow \<noteq> 0)
                           sq_wave_trapsts_excp_overflow_mask trapsts_mask;
          trapsts_mask = or_if (m AND exception_underflow \<noteq> 0)
                           sq_wave_trapsts_excp_underflow_mask trapsts_mask;
          trapsts_mask = or_if (m AND exception_int_div0 \<noteq> 0)
                           sq_wave_trapsts_excp_int_div0_mask trapsts_mask;
          trapsts_mask = or_if (m AND exception_mem_viol \<noteq> 0)
                           sq_wave_trapsts_excp_mem_viol_mask trapsts_mask;
          trapsts_mask = or_if (m AND exception_illegal_inst \<noteq> 0)
                           sq_wave_trapsts_illegal_inst_mask trapsts_mask;
          trapsts_mask = or_if (m AND exception_addr_watch0 \<noteq> 0)
                           sq_wave_trapsts_excp_addr_watch0_mask trapsts_mask;
          trapsts_mask = or_if (m AND exception_addr_watch1 \<noteq> 0)
                           sq_wave_trapsts_excp_hi_addr_watch1_mask trapsts_mask;
          trapsts_mask = or_if (m AND exception_addr_watch2 \<noteq> 0)
                           sq_wave_trapsts_excp_hi_addr_watch2_mask trapsts_mask;
          trapsts_mask = or_if (m AND exception_addr_watch3 \<noteq> 0)
                           sq_wave_trapsts_excp_hi_addr_watch3_mask trapsts_mask
      in trapsts_mask)"

definition set_exceptions ::
  "wave_t \<Rightarrow> exception_mask_t \<Rightarrow> exception_mask_t \<Rightarrow> error + wave_t" where
  "set_exceptions w msk exceptions =
     (let trapsts_mask = convert_mask msk;
          trapsts_set = convert_mask exceptions
      in bind_e (read_register32 w trapsts) (\<lambda>trapsts_reg.
         write_register32 w trapsts
           ((trapsts_reg AND NOT trapsts_mask) OR (trapsts_set AND trapsts_mask))))"

definition clear_stop_reasons_mask :: "amd_dbgapi_wave_stop_reasons_t \<Rightarrow> exception_mask_t" where
  "clear_stop_reasons_mask stop_reason =
     (let exceptions = exception_wave_begin OR exception_wave_end;
          exceptions = or_if (STOP_REASON_MEMORY_VIOLATION \<in> stop_reason)
                         (exception_mem_viol OR exception_xnack_error) exceptions;
          exceptions = or_if (STOP_REASON_ADDRESS_ERROR \<in> stop_reason)
                         exception_mem_viol exceptions;
          exceptions = or_if (STOP_REASON_ILLEGAL_INSTRUCTION \<in> stop_reason)
                         exception_illegal_inst exceptions;
          exceptions = or_if (STOP_REASON_FP_INVALID_OPERATION \<in> stop_reason)
                         exception_invalid exceptions;
          exceptions = or_if (STOP_REASON_FP_INPUT_DENORMAL \<in> stop_reason)
                         exception_input_denorm exceptions;
          exceptions = or_if (STOP_REASON_FP_DIVIDE_BY_0 \<in> stop_reason)
                         exception_float_div0 exceptions;
          exceptions = or_if (STOP_REASON_FP_OVERFLOW \<in> stop_reason)
                         exception_overflow exceptions;
          exceptions = or_if (STOP_REASON_FP_UNDERFLOW \<in> stop_reason)
                         exception_underflow exceptions;
          exceptions = or_if (STOP_REASON_FP_INEXACT \<in> stop_reason)
                         exception_inexact exceptions;
          exceptions = or_if (STOP_REASON_INT_DIVIDE_BY_0 \<in> stop_reason)
                         exception_int_div0 exceptions;
          exceptions = or_if (STOP_REASON_WATCHPOINT \<in> stop_reason)
                         (exception_addr_watch0 OR exception_addr_watch1 OR exception_addr_watch2
                           OR exception_addr_watch3) exceptions;
          exceptions = or_if (STOP_REASON_SINGLE_STEP \<in> stop_reason)
                         exception_trap_after_inst exceptions
      in exceptions)"

definition clear_stop_reasons :: "wave_t \<Rightarrow> error + wave_t" where
  "clear_stop_reasons w = set_exceptions w (clear_stop_reasons_mask (m_stop_reason w)) 0"

subsection \<open>wave_get_state and wave_set_state\<close>

text \<open>\<open>ttmp6_saved_trap_id\<close>: the four saved bits of the trap id, \<open>None\<close> when zero.\<close>

definition ttmp6_saved_trap_id :: "u32 \<Rightarrow> u8 option" where
  "ttmp6_saved_trap_id x =
     (let trap_id = (ucast (bit_extract x ttmp6_saved_trap_id_shift
                              (ttmp6_saved_trap_id_shift + ttmp6_saved_trap_id_size - 1)) :: u8)
      in if trap_id \<noteq> 0 then Some trap_id else None)"

definition set_if :: "bool \<Rightarrow> 'a set \<Rightarrow> 'a set \<Rightarrow> 'a set" where
  "set_if c m x = (if c then x \<union> m else x)"

definition stop_reason_of_exceptions ::
  "exception_mask_t \<Rightarrow> amd_dbgapi_wave_stop_reasons_t" where
  "stop_reason_of_exceptions exceptions =
     (let stop_reason = {};
          stop_reason = set_if (exceptions AND exception_invalid \<noteq> 0)
                          {STOP_REASON_FP_INVALID_OPERATION} stop_reason;
          stop_reason = set_if (exceptions AND exception_input_denorm \<noteq> 0)
                          {STOP_REASON_FP_INPUT_DENORMAL} stop_reason;
          stop_reason = set_if (exceptions AND exception_float_div0 \<noteq> 0)
                          {STOP_REASON_FP_DIVIDE_BY_0} stop_reason;
          stop_reason = set_if (exceptions AND exception_overflow \<noteq> 0)
                          {STOP_REASON_FP_OVERFLOW} stop_reason;
          stop_reason = set_if (exceptions AND exception_underflow \<noteq> 0)
                          {STOP_REASON_FP_UNDERFLOW} stop_reason;
          stop_reason = set_if (exceptions AND exception_inexact \<noteq> 0)
                          {STOP_REASON_FP_INEXACT} stop_reason;
          stop_reason = set_if (exceptions AND exception_int_div0 \<noteq> 0)
                          {STOP_REASON_INT_DIVIDE_BY_0} stop_reason;
          stop_reason = (if exceptions AND exception_xnack_error \<noteq> 0
                         then stop_reason \<union> {STOP_REASON_MEMORY_VIOLATION}
                         else set_if (exceptions AND exception_mem_viol \<noteq> 0)
                                {STOP_REASON_ADDRESS_ERROR} stop_reason);
          stop_reason = set_if (exceptions AND exception_illegal_inst \<noteq> 0)
                          {STOP_REASON_ILLEGAL_INSTRUCTION} stop_reason;
          stop_reason = set_if (exceptions AND (exception_addr_watch0 OR exception_addr_watch1
                                     OR exception_addr_watch2 OR exception_addr_watch3) \<noteq> 0)
                          {STOP_REASON_WATCHPOINT} stop_reason;
          stop_reason = set_if (exceptions AND exception_trap_after_inst \<noteq> 0)
                          {STOP_REASON_SINGLE_STEP} stop_reason;
          stop_reason = set_if (exceptions AND (exception_wave_begin OR exception_wave_end) \<noteq> 0)
                          {STOP_REASON_TRAP} stop_reason
      in stop_reason)"

definition stop_reason_of_trap_id :: "u8 option \<Rightarrow> amd_dbgapi_wave_stop_reasons_t" where
  "stop_reason_of_trap_id t =
     (case t of
        None \<Rightarrow> {}
      | Some trap_id \<Rightarrow>
          if trap_id = 2 then {STOP_REASON_ASSERT_TRAP}
          else if trap_id = 3 then {STOP_REASON_DEBUG_TRAP}
          else if trap_id = 1 then {STOP_REASON_BREAKPOINT}
          else {STOP_REASON_TRAP})"

text \<open>
  \<open>amdgcn_architecture_t::wave_get_state\<close>.  The virtual members it calls are
  parameters: \<open>park_stopped_waves\<close> and \<open>sig\<close> (\<open>signaled_exceptions\<close>).  The wave
  is returned because un-parking writes the pc.
\<close>

definition amdgcn_wave_get_state ::
  "bool \<Rightarrow> (wave_t \<Rightarrow> error + exception_mask_t) \<Rightarrow> wave_t \<Rightarrow>
     error + ((amd_dbgapi_wave_state_t \<times> amd_dbgapi_wave_stop_reasons_t) \<times> wave_t)" where
  "amdgcn_wave_get_state park_stopped_waves sig w =
     bind_e (read_register32 w ttmp6) (\<lambda>ttmp6_reg.
     if ttmp6_reg AND ttmp6_wave_stopped_mask = 0 then Inr ((m_state w, {}), w)
     else if m_state w = WAVE_STATE_STOP then Inr ((WAVE_STATE_STOP, m_stop_reason w), w)
     else
       bind_e (if park_stopped_waves
               then bind_e (saved_parked_pc park_stopped_waves w) (\<lambda>p.
                    write_register64 w pc p)
               else Inr w) (\<lambda>w.
       bind_e (sig w) (\<lambda>exceptions.
       Inr ((WAVE_STATE_STOP,
             stop_reason_of_exceptions exceptions
               \<union> stop_reason_of_trap_id (ttmp6_saved_trap_id ttmp6_reg)), w))))"

text \<open>
  \<open>amdgcn_architecture_t::wave_set_state\<close>; \<open>ttmps_always_initialized\<close> is
  \<open>wave.agent ().os_info ().ttmps_always_initialized\<close>.
\<close>

definition wave_set_state ::
  "bool \<Rightarrow> wave_t \<Rightarrow> amd_dbgapi_wave_state_t \<Rightarrow> error + wave_t" where
  "wave_set_state ttmps_always_initialized w state =
     bind_e (read_register32 w status) (\<lambda>status_reg.
     bind_e (read_register32 w mode) (\<lambda>mode_reg.
     bind_e (read_register32 w ttmp6) (\<lambda>ttmp6_reg.
     let (status_reg, mode_reg, ttmp6_reg) =
           (case state of
              WAVE_STATE_STOP \<Rightarrow>
                let ttmp6_reg = ttmp6_reg AND NOT (ttmp6_wave_stopped_mask
                                                     OR ttmp6_saved_status_halt_mask);
                    ttmp6_reg = (if status_reg AND sq_wave_status_halt_mask \<noteq> 0
                                 then ttmp6_reg OR ttmp6_saved_status_halt_mask else ttmp6_reg);
                    ttmp6_reg = ttmp6_reg OR ttmp6_wave_stopped_mask;
                    status_reg = status_reg OR sq_wave_status_halt_mask;
                    status_reg = (if \<not> ttmps_always_initialized
                                  then status_reg OR sq_wave_status_skip_export_mask
                                  else status_reg)
                in (status_reg, mode_reg, ttmp6_reg)
            | WAVE_STATE_RUN \<Rightarrow>
                let status_reg = status_reg AND NOT (sq_wave_status_halt_mask
                                                       OR sq_wave_status_skip_export_mask);
                    status_reg = (if ttmp6_reg AND ttmp6_saved_status_halt_mask \<noteq> 0
                                  then status_reg OR sq_wave_status_halt_mask else status_reg);
                    ttmp6_reg = ttmp6_reg AND NOT (ttmp6_wave_stopped_mask
                                                     OR ttmp6_saved_status_halt_mask);
                    mode_reg = mode_reg AND NOT sq_wave_mode_debug_en_mask
                in (status_reg, mode_reg, ttmp6_reg)
            | WAVE_STATE_SINGLE_STEP \<Rightarrow>
                let status_reg = status_reg AND NOT (sq_wave_status_halt_mask
                                                       OR sq_wave_status_skip_export_mask);
                    status_reg = (if ttmp6_reg AND ttmp6_saved_status_halt_mask \<noteq> 0
                                  then status_reg OR sq_wave_status_halt_mask else status_reg);
                    ttmp6_reg = ttmp6_reg AND NOT (ttmp6_wave_stopped_mask
                                                     OR ttmp6_saved_status_halt_mask);
                    mode_reg = mode_reg OR sq_wave_mode_debug_en_mask
                in (status_reg, mode_reg, ttmp6_reg))
     in bind_e (write_register32 w status status_reg) (\<lambda>w.
        bind_e (write_register32 w mode mode_reg) (\<lambda>w.
        bind_e (write_register32 w ttmp6 ttmp6_reg) (\<lambda>w.
        if state \<noteq> WAVE_STATE_STOP \<and> m_state w = WAVE_STATE_STOP \<and> m_stop_reason w \<noteq> {}
        then clear_stop_reasons w
        else Inr w))))))"

text \<open>
  \<open>gfx9_architecture_t::wave_get_state\<close>; \<open>a\<close> decides \<open>is_sequential\<close>, and
  \<open>wave.last_stopped_pc ()\<close> is \<open>m_last_stopped_pc\<close>.
\<close>

definition gfx9_wave_get_state ::
  "arch \<Rightarrow> bool \<Rightarrow> bool \<Rightarrow> (wave_t \<Rightarrow> error + exception_mask_t) \<Rightarrow> wave_t \<Rightarrow>
     error + ((amd_dbgapi_wave_state_t \<times> amd_dbgapi_wave_stop_reasons_t) \<times> wave_t)" where
  "gfx9_wave_get_state a park_stopped_waves ttmps_always_initialized sig w =
     (let prev_state = m_state w
      in bind_e (amdgcn_wave_get_state park_stopped_waves sig w) (\<lambda>((new_state, stop_reason), w).
         if prev_state \<noteq> WAVE_STATE_SINGLE_STEP \<or> new_state \<noteq> WAVE_STATE_STOP
           then Inr ((new_state, stop_reason), w)
         else
           bind_e (wave_pc w) (\<lambda>cur_pc.
           if cur_pc \<noteq> m_last_stopped_pc w
             then Inr ((WAVE_STATE_STOP, stop_reason \<union> {STOP_REASON_SINGLE_STEP}), w)
           else if stop_reason = {} then
             bind_e (instruction_at_pc w) (\<lambda>instruction.
             if (case instruction of None \<Rightarrow> False | Some i \<Rightarrow> is_sequential a i) then
               bind_e (wave_set_state ttmps_always_initialized w WAVE_STATE_SINGLE_STEP) (\<lambda>w.
               Inr ((WAVE_STATE_SINGLE_STEP, {}), w))
             else Inr ((WAVE_STATE_STOP, stop_reason \<union> {STOP_REASON_SINGLE_STEP}), w))
           else Inr ((WAVE_STATE_STOP, stop_reason), w))))"

section \<open>The CWSR record parser (gfx9_architecture_t)\<close>

definition compute_relaunch_is_event :: "u32 \<Rightarrow> bool" where
  "compute_relaunch_is_event relaunch \<longleftrightarrow> bit_extract relaunch 30 30 \<noteq> 0"

definition compute_relaunch_is_state :: "u32 \<Rightarrow> bool" where
  "compute_relaunch_is_state relaunch \<longleftrightarrow> bit_extract relaunch 31 31 \<noteq> 0"

record cwsr_record_t =
  m_compute_relaunch_wave :: u32
  m_compute_relaunch_state :: u32
  m_context_save_address :: u64

definition vgpr_count :: "cwsr_record_t \<Rightarrow> nat" where
  "vgpr_count r = unat ((bit_extract (m_compute_relaunch_state r) 0 5 + 1) * 4)"

definition sgpr_count :: "cwsr_record_t \<Rightarrow> nat" where
  "sgpr_count r = unat ((bit_extract (m_compute_relaunch_state r) 6 8 + 1) * 16 - 16)"

definition lds_size :: "cwsr_record_t \<Rightarrow> nat" where
  "lds_size r = unat (bit_extract (m_compute_relaunch_state r) 9 17 * 128) * 4"

definition is_first_wave :: "cwsr_record_t \<Rightarrow> bool" where
  "is_first_wave r \<longleftrightarrow> bit_extract (m_compute_relaunch_wave r) 17 17 \<noteq> 0"

definition scalar_register_count :: nat where "scalar_register_count = 102"
definition scalar_alias_count :: nat where "scalar_alias_count = 6"

text \<open>
  \<open>gfx9_architecture_t::cwsr_record_t::register_address\<close>.  The range tests of the
  source are matches on the constructor of the range (sixteen trap temporaries and
  sixteen hardware registers, as the block sizes of the function say).  A register
  number that the arithmetic of the source moves below the first scalar register
  (possible only for a wave with fewer than six scalar registers) is outside the
  ranges this embedding names and has no address here.
\<close>

definition rename_hwreg :: "amdgpu_regnum_t \<Rightarrow> amdgpu_regnum_t" where
  "rename_hwreg regnum =
     (case regnum of
        m0 \<Rightarrow> hwreg 0
      | pc \<Rightarrow> hwreg 1
      | exec_lo \<Rightarrow> hwreg 3
      | exec_64 \<Rightarrow> hwreg 3
      | exec_hi \<Rightarrow> hwreg 4
      | status \<Rightarrow> hwreg 5
      | trapsts \<Rightarrow> hwreg 6
      | xnack_mask_lo \<Rightarrow> hwreg 7
      | xnack_mask_64 \<Rightarrow> hwreg 7
      | xnack_mask_hi \<Rightarrow> hwreg 8
      | mode \<Rightarrow> hwreg 9
      | _ \<Rightarrow> regnum)"

definition sgpr_below :: "nat \<Rightarrow> nat \<Rightarrow> amdgpu_regnum_t" where
  "sgpr_below e k = (if k \<le> e then sgpr (e - k) else other_regnum 0)"

definition rename_aliased_sgpr :: "nat \<Rightarrow> amdgpu_regnum_t \<Rightarrow> amdgpu_regnum_t" where
  "rename_aliased_sgpr e regnum =
     (case regnum of
        vcc_64 \<Rightarrow> sgpr_below e 2
      | vcc_lo \<Rightarrow> sgpr_below e 2
      | vcc_hi \<Rightarrow> sgpr_below e 1
      | flat_scratch \<Rightarrow> sgpr_below e 6
      | flat_scratch_lo \<Rightarrow> sgpr_below e 6
      | flat_scratch_hi \<Rightarrow> sgpr_below e 5
      | _ \<Rightarrow> regnum)"

text \<open>The offset of a register number inside its range, when it lies in that range.\<close>

fun ttmp_index :: "amdgpu_regnum_t \<Rightarrow> nat option" where
  "ttmp_index (ttmp n) = (if n < 16 then Some n else None)"
| "ttmp_index r = None"

fun hwreg_index :: "amdgpu_regnum_t \<Rightarrow> nat option" where
  "hwreg_index (hwreg n) = (if n < 16 then Some n else None)"
| "hwreg_index r = None"

fun sgpr_index :: "amdgpu_regnum_t \<Rightarrow> nat option" where
  "sgpr_index (sgpr n) = Some n"
| "sgpr_index r = None"

fun shadow_sgpr_index :: "amdgpu_regnum_t \<Rightarrow> nat option" where
  "shadow_sgpr_index (shadow_sgpr n) = Some n"
| "shadow_sgpr_index r = None"

fun vgpr_64_index :: "amdgpu_regnum_t \<Rightarrow> nat option" where
  "vgpr_64_index (vgpr_64 n) = (if n < 256 then Some n else None)"
| "vgpr_64_index r = None"

definition cwsr_register_address :: "cwsr_record_t \<Rightarrow> amdgpu_regnum_t \<Rightarrow> u64 option" where
  "cwsr_register_address r regnum =
     (let save_area_addr = (if is_first_wave r
                            then m_context_save_address r - of_nat (lds_size r)
                            else m_context_save_address r);
          ttmps_addr = save_area_addr - 16 * 4;
          hwregs_addr = ttmps_addr - 16 * 4;
          sgprs_addr = hwregs_addr - of_nat (sgpr_count r) * 4;
          vgprs_addr = sgprs_addr - of_nat (vgpr_count r) * (4 * 64);
          e = min (scalar_register_count + scalar_alias_count) (sgpr_count r)
      in if is_first_wave r \<and> regnum = lds_0 then Some save_area_addr
         else if ttmp_index regnum \<noteq> None
           then Some (ttmps_addr + of_nat (the (ttmp_index regnum)) * 4)
         else
           let regnum = rename_hwreg regnum
           in if hwreg_index regnum \<noteq> None
                then Some (hwregs_addr + of_nat (the (hwreg_index regnum)) * 4)
              else if (case sgpr_index regnum of
                         Some n \<Rightarrow> e \<le> n + scalar_alias_count \<and> n < e
                       | None \<Rightarrow> False) then None
              else
                let regnum = rename_aliased_sgpr e regnum
                in case shadow_sgpr_index regnum of
                     Some n \<Rightarrow>
                       if e \<le> n + scalar_alias_count \<and> n < e then
                         (if n + 4 = e \<or> n + 3 = e
                          then Some (hwregs_addr + of_nat (11 - (e - n)) * 4)
                          else Some (sgprs_addr + of_nat n * 4))
                       else None
                   | None \<Rightarrow>
                       (case sgpr_index regnum of
                          Some n \<Rightarrow> if n < e then Some (sgprs_addr + of_nat n * 4) else None
                        | None \<Rightarrow>
                            (case vgpr_64_index regnum of
                               Some n \<Rightarrow>
                                 if n < vgpr_count r
                                 then Some (vgprs_addr + of_nat n * (4 * 64))
                                 else None
                             | None \<Rightarrow> None)))"

text \<open>
  \<open>gfx9_architecture_t::control_stack_iterate\<close>.  \<open>make_record\<close> is the virtual
  \<open>make_gfx9_cwsr_record\<close> followed by \<open>register_address (first_vgpr_64)\<close>: it maps
  the wave word, the latest state word and the context save address of a record to
  the address of its first vector register.  The loop over the words from index 2 is
  \<open>control_stack_walk\<close> over the list without its first two words; it carries the
  latest state word, the cursor \<open>last_wave_area\<close> and the records handed to the
  callback so far.
\<close>

fun control_stack_walk ::
  "(u32 \<Rightarrow> u32 \<Rightarrow> u64 \<Rightarrow> u64 option) \<Rightarrow> u32 list \<Rightarrow> u32 \<Rightarrow> u64 \<Rightarrow> cwsr_record_t list \<Rightarrow>
     error + (u64 \<times> cwsr_record_t list)" where
  "control_stack_walk make_record [] state last_wave_area records =
     Inr (last_wave_area, records)"
| "control_stack_walk make_record (relaunch # ws) state last_wave_area records =
     (if compute_relaunch_is_event relaunch
        then control_stack_walk make_record ws state last_wave_area records
      else if compute_relaunch_is_state relaunch
        then control_stack_walk make_record ws relaunch last_wave_area records
      else
        (case make_record relaunch state (last_wave_area - 64) of
           None \<Rightarrow> Inl Bad_optional_access
         | Some first_vgpr \<Rightarrow>
             control_stack_walk make_record ws state first_vgpr
               (records @ [\<lparr> m_compute_relaunch_wave = relaunch,
                             m_compute_relaunch_state = state,
                             m_context_save_address = last_wave_area - 64 \<rparr>])))"

definition control_stack_iterate ::
  "(u32 \<Rightarrow> u32 \<Rightarrow> u64 \<Rightarrow> u64 option) \<Rightarrow> u32 list \<Rightarrow> u64 \<Rightarrow> u64 \<Rightarrow>
     error + (nat \<times> cwsr_record_t list)" where
  "control_stack_iterate make_record control_stack wave_area_address wave_area_size =
     bind_e (control_stack_walk make_record (drop 2 control_stack) 0 wave_area_address [])
       (\<lambda>(last_wave_area, records).
          if last_wave_area \<noteq> wave_area_address - wave_area_size then Inl Fatal_error
          else Inr (length records, records))"

definition gfx9_make_record :: "u32 \<Rightarrow> u32 \<Rightarrow> u64 \<Rightarrow> u64 option" where
  "gfx9_make_record relaunch state context_save_address =
     cwsr_register_address
       \<lparr> m_compute_relaunch_wave = relaunch, m_compute_relaunch_state = state,
         m_context_save_address = context_save_address \<rparr> (vgpr_64 0)"

definition gfx9_control_stack_iterate ::
  "u32 list \<Rightarrow> u64 \<Rightarrow> u64 \<Rightarrow> error + (nat \<times> cwsr_record_t list)" where
  "gfx9_control_stack_iterate = control_stack_iterate gfx9_make_record"

text \<open>
  The layout of the records of a walk that starts with the cursor at \<open>c\<close> and ends with
  it at \<open>c'\<close>: each record is made with its context save address 64 bytes below the
  cursor, and the cursor moves to the address of the first vector register of the
  record.
\<close>

fun record_chain ::
  "(u32 \<Rightarrow> u32 \<Rightarrow> u64 \<Rightarrow> u64 option) \<Rightarrow> u64 \<Rightarrow> cwsr_record_t list \<Rightarrow> u64 \<Rightarrow> bool" where
  "record_chain make_record c [] c' \<longleftrightarrow> c' = c"
| "record_chain make_record c (r # rs) c' \<longleftrightarrow>
     m_context_save_address r = c - 64
     \<and> (case make_record (m_compute_relaunch_wave r) (m_compute_relaunch_state r) (c - 64) of
          None \<Rightarrow> False
        | Some first_vgpr \<Rightarrow> record_chain make_record first_vgpr rs c')"

section \<open>Layouts of the save area\<close>

text \<open>
  Two real registers are separate in a wave when both have a slot in the save area
  and the byte ranges of the two slots do not meet.
\<close>

definition separate :: "wave_t \<Rightarrow> amdgpu_regnum_t \<Rightarrow> amdgpu_regnum_t \<Rightarrow> bool" where
  "separate w r r' \<longleftrightarrow>
     (case (register_address w r, register_size r, register_address w r', register_size r') of
        (Some a, Some n, Some b, Some m) \<Rightarrow>
          list_all (\<lambda>i. list_all (\<lambda>j. a + of_nat i \<noteq> b + of_nat j) [0..<m]) [0..<n]
      | _ \<Rightarrow> False)"

section \<open>A concrete wave\<close>

text \<open>
  A GFX9 wave with sixteen scalar and four vector registers whose context ends at
  \<open>0x10000\<close>: the hardware registers start at \<open>0xFF80\<close> and the trap temporaries at
  \<open>0xFFC0\<close>, and the register cache covers both blocks.  All bytes are zero.
\<close>

definition example_record :: cwsr_record_t where
  "example_record =
     \<lparr> m_compute_relaunch_wave = 0, m_compute_relaunch_state = 0x40,
       m_context_save_address = 0x10000 \<rparr>"

definition example_wave :: wave_t where
  "example_wave =
     \<lparr> m_state = WAVE_STATE_STOP, m_stop_reason = {}, m_stop_requested = False,
       m_is_parked = False, m_parked_pc = 0, m_last_stopped_pc = 0,
       m_displaced_stepping = None, m_visibility = visible, lane_count = 64,
       register_address = cwsr_register_address example_record,
       m_register_cache = \<lparr> cache_address = 0xFF80, cache_size = 128, cache_bytes = (\<lambda>_. 0) \<rparr>,
       global_memory = (\<lambda>_. 0), queue_is_suspended = True,
       instruction_memory = (\<lambda>_. None), events = [],
       park_instruction_address = 0x2000, endpgm_instruction_address = 0x3000 \<rparr>"

section \<open>A wave at a fork\<close>

text \<open>
  \<open>fork_instruction\<close> is \<open>s_cbranch_i_fork s[4:5], 3\<close> (SOPK opcode 16).  \<open>fork_wave m\<close>
  is the concrete wave with exec mask \<open>0b111\<close>, the byte \<open>m\<close> in \<open>s4\<close> and an empty
  fork stack.  \<open>all_separate\<close> says that the slots of a list of registers are
  pairwise separate.
\<close>

definition fork_instruction :: instruction_t where
  "fork_instruction = legal_instruction [0x03, 0x00, 0x04, 0xB8]"

definition fork_wave :: "u8 \<Rightarrow> wave_t" where
  "fork_wave m =
     example_wave\<lparr> m_register_cache :=
                      \<lparr> cache_address = 0xFF80, cache_size = 128,
                        cache_bytes = (\<lambda>_. 0)(0xFF8C := 7) \<rparr>,
                    global_memory := (\<lambda>_. 0)(0xFF50 := m) \<rparr>"

fun all_separate :: "wave_t \<Rightarrow> amdgpu_regnum_t list \<Rightarrow> bool" where
  "all_separate w [] = True"
| "all_separate w (r # rs) = (list_all (separate w r) rs \<and> all_separate w rs)"

text \<open>\<open>branch_back\<close> is \<open>s_branch -1\<close> (SOPP opcode 2), a branch to itself.\<close>

definition branch_back :: instruction_t where
  "branch_back = legal_instruction [0xFF, 0xFF, 0x82, 0xBF]"


definition stepping_wave :: wave_t where
  "stepping_wave = example_wave\<lparr> m_state := WAVE_STATE_SINGLE_STEP \<rparr>"

text \<open>
  \<open>inexact_wave\<close> is the concrete wave stopped by a floating-point inexact exception:
  \<open>status.halt\<close>, \<open>trapsts.excp\<close> inexact, \<open>mode.excp_en\<close> inexact and
  \<open>ttmp6.wave_stopped\<close> are set.  \<open>resume_env\<close> is an environment of \<open>set_state\<close>
  for a GFX9 wave that can halt at \<open>s_endpgm\<close>, in which FP_INEXACT is resumable.
\<close>

definition inexact_wave :: wave_t where
  "inexact_wave =
     example_wave\<lparr> m_stop_reason := {STOP_REASON_FP_INEXACT},
                    m_register_cache :=
                      \<lparr> cache_address = 0xFF80, cache_size = 128,
                        cache_bytes = (\<lambda>_. 0)(0xFF95 := 0x20, 0xFF98 := 0x20, 0xFFA6 := 0x02,
                                                 0xFFDB := 0x40) \<rparr> \<rparr>"

definition resume_env :: env_t where
  "resume_env =
     \<lparr> can_halt_at_endpgm = True, arch_is_endpgm = is_endpgm GFX9,
       set_wave_state = wave_set_state True,
       arch_simulate_instruction = gfx9_simulate False Inr,
       resumable_stop_reason_mask = {STOP_REASON_FP_INEXACT} \<rparr>"


definition getpc_s2 :: instruction_t where
  "getpc_s2 = legal_instruction [0x00, 0x1C, 0x82, 0xBE]"


section \<open>Bytes and words: round trips\<close>

lemma of_le_bytes32_le_bytes32: "of_le_bytes32 (le_bytes32 v) = v"
proof (rule bit_word_eqI)
  fix n :: nat
  assume n: "n < LENGTH(32)"
  then consider "n < 8" | "8 \<le> n \<and> n < 16" | "16 \<le> n \<and> n < 24" | "24 \<le> n \<and> n < 32"
    by fastforce
  then show "bit (of_le_bytes32 (le_bytes32 v)) n = bit v n"
    unfolding of_le_bytes32_def le_bytes32_def
    by cases (simp_all add: bit_simps le_add_diff_inverse less_diff_conv2)
qed

lemma of_le_bytes64_le_bytes64: "of_le_bytes64 (le_bytes64 v) = v"
proof (rule bit_word_eqI)
  fix n :: nat
  assume n: "n < LENGTH(64)"
  then consider "n < 8" | "8 \<le> n \<and> n < 16" | "16 \<le> n \<and> n < 24" | "24 \<le> n \<and> n < 32"
    | "32 \<le> n \<and> n < 40" | "40 \<le> n \<and> n < 48" | "48 \<le> n \<and> n < 56" | "56 \<le> n \<and> n < 64"
    by fastforce
  then show "bit (of_le_bytes64 (le_bytes64 v)) n = bit v n"
    unfolding of_le_bytes64_def le_bytes64_def
    by cases (simp_all add: bit_simps le_add_diff_inverse less_diff_conv2)
qed

section \<open>Memory and registers: reading after writing\<close>

lemma length_le_bytes32 [simp]: "length (le_bytes32 v) = 4"
  by (simp add: le_bytes32_def)

lemma length_le_bytes64 [simp]: "length (le_bytes64 v) = 8"
  by (simp add: le_bytes64_def)

lemma length_load_bytes [simp]: "length (load_bytes m a n) = n"
  by (simp add: load_bytes_def)

lemma bind_e_Inr [simp]: "bind_e (Inr x) f = f x"
  by (simp add: bind_e_def)

lemma bind_e_Inl [simp]: "bind_e (Inl e) f = Inl e"
  by (simp add: bind_e_def)

lemma bind_e_eq_Inr:
  "bind_e m f = Inr y \<longleftrightarrow> (\<exists>x. m = Inr x \<and> f x = Inr y)"
  by (cases m) simp_all

lemma dbgapi_assert_eq_Inr [simp]: "dbgapi_assert c = Inr u \<longleftrightarrow> c"
  by (simp add: dbgapi_assert_def)

lemma dbgapi_assert_True [simp]: "dbgapi_assert True = Inr ()"
  by (simp add: dbgapi_assert_def)

lemma dbgapi_assert_False [simp]: "dbgapi_assert False = Inl Assert_failed"
  by (simp add: dbgapi_assert_def)

lemma unat_add_sub_same:
  fixes a :: u64
  assumes "k < 2 ^ 64"
  shows "unat (a + of_nat k - a) = k"
proof -
  have "a + of_nat k - a = (of_nat k :: u64)" by simp
  moreover have "unat (of_nat k :: u64) = k"
    using assms by (simp add: unat_of_nat take_bit_nat_eq_self)
  ultimately show ?thesis by simp
qed

lemma load_store_same:
  assumes "length bs < 2 ^ 64"
  shows "load_bytes (store_bytes m a bs) a (length bs) = bs"
proof (rule nth_equalityI)
  show "length (load_bytes (store_bytes m a bs) a (length bs)) = length bs" by simp
next
  fix i assume "i < length (load_bytes (store_bytes m a bs) a (length bs))"
  then have i: "i < length bs" by simp
  then have "unat (a + of_nat i - a) = i"
    using assms by (intro unat_add_sub_same) simp
  with i show "load_bytes (store_bytes m a bs) a (length bs) ! i = bs ! i"
    by (simp add: load_bytes_def store_bytes_def)
qed

lemma load_store_disjoint:
  assumes "\<forall>j<n. \<forall>i<length bs. b + of_nat j \<noteq> a + of_nat i"
  shows "load_bytes (store_bytes m a bs) b n = load_bytes m b n"
proof -
  have "store_bytes m a bs (b + of_nat j) = m (b + of_nat j)" if j: "j < n" for j
  proof -
    have "\<not> unat (b + of_nat j - a) < length bs"
    proof
      assume lt: "unat (b + of_nat j - a) < length bs"
      have "a + of_nat (unat (b + of_nat j - a)) = b + of_nat j" by simp
      with assms j lt show False by metis
    qed
    then show ?thesis by (simp add: store_bytes_def)
  qed
  then show ?thesis by (simp add: load_bytes_def)
qed

lemma memcpy_at_full: "length src = length dst \<Longrightarrow> memcpy_at dst 0 src = src"
  by (simp add: memcpy_at_def)

lemma separateD:
  assumes "separate w r r'"
  obtains a n b m where "register_address w r = Some a" "register_size r = Some n"
    "register_address w r' = Some b" "register_size r' = Some m"
    "\<And>i j. i < n \<Longrightarrow> j < m \<Longrightarrow> a + of_nat i \<noteq> b + of_nat j"
  using assms unfolding separate_def
  by (auto split: option.splits simp: list_all_iff)

text \<open>What a successful write of a real register does to the wave.\<close>

lemma write_real_register_InrE:
  assumes "write_real_register w r off bs = Inr w'"
  obtains a n where "register_address w r = Some a" "register_size r = Some n"
    "bs \<noteq> []" "off + length bs \<le> n"
    "(m_is_parked w \<and> r = pc
        \<and> w' = w\<lparr> m_parked_pc := of_le_bytes64 (memcpy_at (le_bytes64 (m_parked_pc w)) off bs) \<rparr>)
     \<or> (\<not> (m_is_parked w \<and> r = pc)
        \<and> cache_contains (m_register_cache w) (a + of_nat off) (length bs)
        \<and> w' = w\<lparr> m_register_cache := (m_register_cache w)\<lparr> cache_bytes :=
                     store_bytes (cache_bytes (m_register_cache w)) (a + of_nat off) bs \<rparr> \<rparr>)
     \<or> (\<not> (m_is_parked w \<and> r = pc)
        \<and> \<not> cache_contains (m_register_cache w) (a + of_nat off) (length bs)
        \<and> queue_is_suspended w
        \<and> w' = w\<lparr> global_memory := store_bytes (global_memory w) (a + of_nat off) bs \<rparr>)"
  using assms unfolding write_real_register_def
  by (auto split: option.splits if_splits)

lemma write_real_register_preserves:
  assumes "write_real_register w r off bs = Inr w'"
  shows "register_address w' = register_address w"
    and "m_is_parked w' = m_is_parked w"
    and "m_state w' = m_state w"
    and "m_stop_reason w' = m_stop_reason w"
    and "lane_count w' = lane_count w"
    and "queue_is_suspended w' = queue_is_suspended w"
    and "instruction_memory w' = instruction_memory w"
    and "m_last_stopped_pc w' = m_last_stopped_pc w"
    and "park_instruction_address w' = park_instruction_address w"
    and "endpgm_instruction_address w' = endpgm_instruction_address w"
    and "m_displaced_stepping w' = m_displaced_stepping w"
    and "m_visibility w' = m_visibility w"
    and "events w' = events w"
    and "m_stop_requested w' = m_stop_requested w"
    and "cache_contains (m_register_cache w') = cache_contains (m_register_cache w)"
  using assms by (auto elim!: write_real_register_InrE simp: cache_contains_def fun_eq_iff)

lemma register_size_le: "register_size r = Some n \<Longrightarrow> 0 < n \<and> n \<le> 256"
  by (cases r) auto

lemma read_after_write_same:
  assumes wr: "write_real_register w r 0 bs = Inr w'"
    and np: "\<not> (m_is_parked w \<and> r = pc)"
  shows "read_real_register w' r 0 (length bs) = Inr bs"
  using wr
proof (rule write_real_register_InrE)
  fix a n
  assume an: "register_address w r = Some a" "register_size r = Some n"
    "bs \<noteq> []" "0 + length bs \<le> n"
    and cases: "(m_is_parked w \<and> r = pc
        \<and> w' = w\<lparr> m_parked_pc := of_le_bytes64 (memcpy_at (le_bytes64 (m_parked_pc w)) 0 bs) \<rparr>)
     \<or> (\<not> (m_is_parked w \<and> r = pc)
        \<and> cache_contains (m_register_cache w) (a + of_nat 0) (length bs)
        \<and> w' = w\<lparr> m_register_cache := (m_register_cache w)\<lparr> cache_bytes :=
                     store_bytes (cache_bytes (m_register_cache w)) (a + of_nat 0) bs \<rparr> \<rparr>)
     \<or> (\<not> (m_is_parked w \<and> r = pc)
        \<and> \<not> cache_contains (m_register_cache w) (a + of_nat 0) (length bs)
        \<and> queue_is_suspended w
        \<and> w' = w\<lparr> global_memory := store_bytes (global_memory w) (a + of_nat 0) bs \<rparr>)"
  have "n \<le> 256" using an(2) register_size_le by blast
  then have len: "length bs < 2 ^ 64" using an(4) by simp
  from cases np an load_store_same [OF len] show ?thesis
    by (auto simp: read_real_register_def cache_contains_def)
qed

lemma read_after_write_other:
  assumes wr: "write_real_register w r off bs = Inr w'"
    and sep: "separate w r r'"
  shows "read_real_register w' r' off' n' = read_real_register w r' off' n'"
proof -
  from sep obtain a n b m where
    ab: "register_address w r = Some a" "register_size r = Some n"
        "register_address w r' = Some b" "register_size r' = Some m"
    and dis: "\<And>i j. i < n \<Longrightarrow> j < m \<Longrightarrow> a + of_nat i \<noteq> b + of_nat j"
    by (rule separateD) blast
  have neq: "r \<noteq> r'"
  proof
    assume "r = r'"
    with ab have "a = b" "n = m" by simp_all
    moreover have "0 < n" using ab(2) register_size_le by blast
    ultimately show False using dis [of 0 0] by simp
  qed
  show ?thesis
  proof (cases "n' = 0 \<or> off' + n' > m")
    case True
    with wr ab show ?thesis
      by (auto elim!: write_real_register_InrE simp: read_real_register_def)
  next
    case False
    then have bnd: "off' + n' \<le> m" by simp
    from wr show ?thesis
    proof (rule write_real_register_InrE)
      fix a' k
      assume an: "register_address w r = Some a'" "register_size r = Some k"
        "bs \<noteq> []" "off + length bs \<le> k"
        and cases: "(m_is_parked w \<and> r = pc
          \<and> w' = w\<lparr> m_parked_pc := of_le_bytes64 (memcpy_at (le_bytes64 (m_parked_pc w)) off bs) \<rparr>)
       \<or> (\<not> (m_is_parked w \<and> r = pc)
          \<and> cache_contains (m_register_cache w) (a' + of_nat off) (length bs)
          \<and> w' = w\<lparr> m_register_cache := (m_register_cache w)\<lparr> cache_bytes :=
                       store_bytes (cache_bytes (m_register_cache w)) (a' + of_nat off) bs \<rparr> \<rparr>)
       \<or> (\<not> (m_is_parked w \<and> r = pc)
          \<and> \<not> cache_contains (m_register_cache w) (a' + of_nat off) (length bs)
          \<and> queue_is_suspended w
          \<and> w' = w\<lparr> global_memory := store_bytes (global_memory w) (a' + of_nat off) bs \<rparr>)"
      from an ab have [simp]: "a' = a" "k = n" by simp_all
      have d: "\<forall>j<n'. \<forall>i<length bs. (b + of_nat off') + of_nat j \<noteq> (a + of_nat off) + of_nat i"
      proof (intro allI impI)
        fix j i assume "j < n'" "i < length bs"
        then have "off + i < n" "off' + j < m" using an(4) bnd by simp_all
        from dis [OF this] show "(b + of_nat off') + of_nat j \<noteq> (a + of_nat off) + of_nat i"
          by (simp add: add.assoc)
      qed
      from cases ab neq load_store_disjoint [OF d] show ?thesis
        by (auto simp: read_real_register_def cache_contains_def)
    qed
  qed
qed

lemma write_real_register_succeeds_iff:
  "(\<exists>w'. write_real_register w r off bs = Inr w') \<longleftrightarrow>
     (\<exists>a n. register_address w r = Some a \<and> register_size r = Some n \<and> bs \<noteq> []
        \<and> off + length bs \<le> n
        \<and> ((m_is_parked w \<and> r = pc)
             \<or> cache_contains (m_register_cache w) (a + of_nat off) (length bs)
             \<or> queue_is_suspended w))"
  unfolding write_real_register_def
  by (auto split: option.splits)

lemma take8_le_bytes64 [simp]: "take 8 (le_bytes64 v) = le_bytes64 v"
  by (simp add: le_bytes64_def)

lemma take4_le_bytes32 [simp]: "take 4 (le_bytes32 v) = le_bytes32 v"
  by (simp add: le_bytes32_def)

lemma read_real64_after_write_real64:
  assumes "write_real64 w r v = Inr w'"
  shows "read_real64 w' r = Inr v"
proof (cases "m_is_parked w \<and> r = pc")
  case True
  with assms show ?thesis
    by (auto elim!: write_real_register_InrE
        simp: write_real64_def read_real64_def read_real_register_def memcpy_at_full
          of_le_bytes64_le_bytes64)
next
  case False
  with assms read_after_write_same [of w r "le_bytes64 v" w'] show ?thesis
    by (simp add: write_real64_def read_real64_def of_le_bytes64_le_bytes64)
qed

lemma read_real32_after_write_real32:
  assumes "write_real32 w r v = Inr w'" and "\<not> (m_is_parked w \<and> r = pc)"
  shows "read_real32 w' r = Inr v"
  using assms read_after_write_same [of w r "le_bytes32 v" w']
  by (simp add: write_real32_def read_real32_def of_le_bytes32_le_bytes32)

lemma read_real32_after_write_other:
  assumes "write_real_register w r off bs = Inr w'" and "separate w r r'"
  shows "read_real32 w' r' = read_real32 w r'"
  using read_after_write_other [OF assms] by (simp add: read_real32_def)


lemma separate_write [simp]:
  assumes "write_real_register w r off bs = Inr w'"
  shows "separate w' x y = separate w x y"
  using write_real_register_preserves(1) [OF assms] by (simp add: separate_def)

text \<open>Parking.\<close>

lemma pc_not_pseudo [simp]: "\<not> is_pseudo_register pc"
  by simp

lemma park_InrE:
  assumes "park w = Inr w1"
  obtains cur w' where "m_state w = WAVE_STATE_STOP" "\<not> m_is_parked w"
    "read_real64 w pc = Inr cur"
    "write_real64 (w\<lparr> m_parked_pc := cur \<rparr>) pc (park_instruction_address w) = Inr w'"
    "w1 = w'\<lparr> m_is_parked := True \<rparr>"
  using assms
  unfolding park_def wave_pc_def read_register64_def write_register64_def read_register_def
    write_register_def read_real64_def write_real64_def
  by (auto simp: bind_e_eq_Inr Let_def)

section \<open>The concrete wave\<close>

lemmas cwsr_defs = cwsr_register_address_def example_record_def is_first_wave_def lds_size_def
  sgpr_count_def vgpr_count_def bit_extract_def rename_hwreg_def rename_aliased_sgpr_def
  sgpr_below_def scalar_register_count_def scalar_alias_count_def

lemma example_addresses:
  "register_address example_wave pc = Some 0xFF84"
  "register_address example_wave exec_64 = Some 0xFF8C"
  "register_address example_wave status = Some 0xFF94"
  "register_address example_wave trapsts = Some 0xFF98"
  "register_address example_wave mode = Some 0xFFA4"
  "register_address example_wave ttmp6 = Some 0xFFD8"
  "register_address example_wave ttmp7 = Some 0xFFDC"
  "register_address example_wave ttmp11 = Some 0xFFEC"
  "register_address example_wave vcc_64 = Some 0xFF78"
  by (simp_all add: example_wave_def cwsr_defs Let_def)

lemma example_fields:
  "m_is_parked example_wave = False" "queue_is_suspended example_wave"
  "m_state example_wave = WAVE_STATE_STOP" "lane_count example_wave = 64"
  "cache_address (m_register_cache example_wave) = 0xFF80"
  "cache_size (m_register_cache example_wave) = 128"
  "park_instruction_address example_wave = 0x2000"
  by (simp_all add: example_wave_def)

lemma example_park: "\<exists>w1. park example_wave = Inr w1"
  by (simp add: park_def wave_pc_def read_register64_def write_register64_def read_register_def
      write_register_def read_real_register_def write_real_register_def
      example_addresses example_fields cache_contains_def Let_def)

section \<open>Classification of the terminate encodings\<close>

lemmas encoding_defs =
  is_sopp_encoding_def is_sopk_encoding_def is_sop1_encoding_def is_sop2_encoding_def
  capacity_def word0_def legal_instruction_def is_valid_def is_cbranch_def
  encoding_op7_def bit_extract_def isize_def
  gfx9_cbranch_opcodes_map_def gfx11_cbranch_opcodes_map_def gfx12_cbranch_opcodes_map_def

lemma classify_terminating_instruction:
  "classify_instruction a rid address (terminating_instruction a)
     = Inr (INSTRUCTION_KIND_TERMINATE, 0, 4, [])"
  by (cases a)
     (simp_all add: classify_instruction_amdgcn_def classify_instruction_gfx10_def
        classify_kind_def encoding_defs)

text \<open>
  C7.  On every architecture, \<open>classify_instruction\<close> applied to the architecture's
  own terminate encoding (\<open>terminating_instruction\<close>) returns kind TERMINATE, no
  properties, size 4 and no operand information.  In particular the bytes
  \<open>00 00 81 BF\<close> (s_endpgm, SOPP opcode 1) classify as TERMINATE on GFX9 and the
  bytes \<open>00 00 B0 BF\<close> (s_endpgm, SOPP opcode 48) classify as TERMINATE on GFX11,
  whatever the address and the register-id numbering.
\<close>

theorem C7_terminate_encoding_classifies_as_terminate:
  "classify_instruction a rid address (terminating_instruction a)
     = Inr (INSTRUCTION_KIND_TERMINATE, 0, 4, [])
   \<and> classify_instruction GFX9 rid address (legal_instruction [0x00, 0x00, 0x81, 0xBF])
     = Inr (INSTRUCTION_KIND_TERMINATE, 0, 4, [])
   \<and> is_endpgm GFX9 (legal_instruction [0x00, 0x00, 0x81, 0xBF])
   \<and> classify_instruction GFX11 rid address (legal_instruction [0x00, 0x00, 0xB0, 0xBF])
     = Inr (INSTRUCTION_KIND_TERMINATE, 0, 4, [])
   \<and> is_endpgm GFX11 (legal_instruction [0x00, 0x00, 0xB0, 0xBF])"
  using classify_terminating_instruction [of a rid address]
    classify_terminating_instruction [of GFX9 rid address]
    classify_terminating_instruction [of GFX11 rid address]
  by (simp add: encoding_defs)

section \<open>Parking and the shadow pc\<close>

lemma read_register_pc [simp]: "read_register w pc = read_real_register w pc"
  by (simp add: read_register_def fun_eq_iff)

lemma write_register_pc [simp]: "write_register w pc = write_real_register w pc"
  by (simp add: write_register_def fun_eq_iff)

lemma le_bytes64_neq_Nil [simp]: "le_bytes64 v \<noteq> []"
  by (simp add: le_bytes64_def)

lemma le_bytes32_neq_Nil [simp]: "le_bytes32 v \<noteq> []"
  by (simp add: le_bytes32_def)

lemma wave_pc_parked:
  assumes "m_is_parked w" and "register_address w pc \<noteq> None"
  shows "wave_pc w = Inr (m_parked_pc w)"
  using assms
  by (auto simp: wave_pc_def read_register64_def read_real_register_def of_le_bytes64_le_bytes64)

lemma wave_pc_real: "wave_pc w = read_real64 w pc"
  by (simp add: wave_pc_def read_register64_def read_real64_def)

lemma park_unpark:
  assumes park: "park w = Inr w1" and s: "s \<noteq> WAVE_STATE_STOP"
  shows "m_is_parked w1 \<and> wave_pc w1 = wave_pc w
         \<and> read_real64 (w1\<lparr> m_is_parked := False \<rparr>) pc = Inr (park_instruction_address w)
         \<and> (\<exists>w3. unpark (w1\<lparr> m_state := s \<rparr>) = Inr w3 \<and> \<not> m_is_parked w3
                  \<and> wave_pc w3 = wave_pc w)"
  using park
proof (rule park_InrE)
  fix cur w'
  assume st: "m_state w = WAVE_STATE_STOP" and np: "\<not> m_is_parked w"
    and rd: "read_real64 w pc = Inr cur"
    and wr: "write_real64 (w\<lparr> m_parked_pc := cur \<rparr>) pc (park_instruction_address w) = Inr w'"
    and w1: "w1 = w'\<lparr> m_is_parked := True \<rparr>"
  let ?w0 = "w\<lparr> m_parked_pc := cur \<rparr>"
  from wr have wr': "write_real_register ?w0 pc 0 (le_bytes64 (park_instruction_address w)) = Inr w'"
    by (simp add: write_real64_def)
  note pres = write_real_register_preserves [OF wr']
  from wr' np have ppc: "m_parked_pc w' = cur"
    by (auto elim!: write_real_register_InrE)
  from wr' obtain a where a: "register_address w pc = Some a"
    by (auto elim!: write_real_register_InrE)
  have npw': "\<not> m_is_parked w'" using pres(2) np by simp
  have addr1: "register_address w1 pc = Some a" using w1 pres(1) a by simp
  have parked1: "m_is_parked w1" using w1 by simp
  have pc1: "wave_pc w1 = Inr cur"
    using wave_pc_parked [OF parked1] addr1 w1 ppc by simp
  have pcw: "wave_pc w = Inr cur" using rd by (simp add: wave_pc_real)
  have eqw': "w1\<lparr> m_is_parked := False \<rparr> = w'" using w1 npw' by simp
  have slot: "read_real64 (w1\<lparr> m_is_parked := False \<rparr>) pc = Inr (park_instruction_address w)"
    unfolding eqw' by (rule read_real64_after_write_real64 [OF wr])
  let ?w2 = "w1\<lparr> m_state := s \<rparr>"
  let ?w2' = "?w2\<lparr> m_is_parked := False \<rparr>"
  have pc2: "wave_pc ?w2 = Inr cur"
    using wave_pc_parked [of ?w2] addr1 parked1 w1 ppc by simp
  have "\<exists>w3. write_real_register ?w2' pc 0 (le_bytes64 cur) = Inr w3"
  proof -
    have ex: "\<exists>x. write_real_register ?w0 pc 0 (le_bytes64 (park_instruction_address w)) = Inr x"
      using wr' by blast
    show ?thesis
      using ex pres(1) pres(6) pres(15) w1 np
      unfolding write_real_register_succeeds_iff
      by (simp add: cache_contains_def)
  qed
  then obtain w3 where w3: "write_real64 ?w2' pc cur = Inr w3"
    by (auto simp: write_real64_def)
  have un: "unpark ?w2 = Inr w3"
    using s parked1 pc2 w3
    by (simp add: unpark_def write_register64_def write_real64_def Let_def)
  have np3: "\<not> m_is_parked w3"
    using write_real_register_preserves(2) [of ?w2' pc 0 "le_bytes64 cur" w3] w3
    by (simp add: write_real64_def)
  have pc3: "wave_pc w3 = Inr cur"
    using read_real64_after_write_real64 [OF w3] by (simp add: wave_pc_real)
  from parked1 pc1 pcw slot un np3 pc3 show ?thesis by auto
qed

text \<open>
  C10.  While a wave is parked, a read of the pc register returns the bytes of the
  shadow \<open>m_parked_pc\<close> (after the checks on the register and on the range), and a
  write of the pc register changes \<open>m_parked_pc\<close> and nothing else, so the register
  cache and the memory of the save area, where the pc slot holds the park address,
  are as before.  After \<open>park\<close> the wave is parked, its visible pc is the pc from
  before, and the pc slot of the save area holds the park address; once the state has
  left \<open>stop\<close>, \<open>unpark\<close> succeeds, leaves the wave un-parked and its visible pc is
  again the pc from before \<open>park\<close>.
\<close>

theorem C10_parked_pc_is_served_from_the_shadow:
  "(m_is_parked w \<and> register_address w pc \<noteq> None \<longrightarrow>
      read_register w pc offset n
        = (if n = 0 \<or> 8 < offset + n then Inl Invalid_argument_compatibility
           else Inr (take n (drop offset (le_bytes64 (m_parked_pc w))))))
   \<and> (m_is_parked w \<and> write_register w pc offset val = Inr w' \<longrightarrow>
        w' = w\<lparr> m_parked_pc :=
                  of_le_bytes64 (memcpy_at (le_bytes64 (m_parked_pc w)) offset val) \<rparr>
        \<and> global_memory w' = global_memory w
        \<and> m_register_cache w' = m_register_cache w)
   \<and> (park w = Inr w1 \<and> s \<noteq> WAVE_STATE_STOP \<longrightarrow>
        m_is_parked w1 \<and> wave_pc w1 = wave_pc w
        \<and> read_real64 (w1\<lparr> m_is_parked := False \<rparr>) pc = Inr (park_instruction_address w)
        \<and> (\<exists>w3. unpark (w1\<lparr> m_state := s \<rparr>) = Inr w3 \<and> \<not> m_is_parked w3
                 \<and> wave_pc w3 = wave_pc w))"
proof (intro conjI impI)
  assume "m_is_parked w \<and> register_address w pc \<noteq> None"
  then show "read_register w pc offset n
        = (if n = 0 \<or> 8 < offset + n then Inl Invalid_argument_compatibility
           else Inr (take n (drop offset (le_bytes64 (m_parked_pc w)))))"
    by (auto simp: read_real_register_def)
next
  assume a: "m_is_parked w \<and> write_register w pc offset val = Inr w'"
  then show "w' = w\<lparr> m_parked_pc :=
                  of_le_bytes64 (memcpy_at (le_bytes64 (m_parked_pc w)) offset val) \<rparr>"
    by (auto elim!: write_real_register_InrE)
  then show "global_memory w' = global_memory w" "m_register_cache w' = m_register_cache w"
    by simp_all
next
  assume a: "park w = Inr w1 \<and> s \<noteq> WAVE_STATE_STOP"
  then have p: "park w = Inr w1" and s: "s \<noteq> WAVE_STATE_STOP" by simp_all
  from park_unpark [OF p s]
  show "m_is_parked w1" "wave_pc w1 = wave_pc w"
    "read_real64 (w1\<lparr> m_is_parked := False \<rparr>) pc = Inr (park_instruction_address w)"
    "\<exists>w3. unpark (w1\<lparr> m_state := s \<rparr>) = Inr w3 \<and> \<not> m_is_parked w3 \<and> wave_pc w3 = wave_pc w"
    by simp_all
qed

theorem C10_parked_pc_witness:
  "m_is_parked (example_wave\<lparr> m_is_parked := True, m_parked_pc := 0x1000 \<rparr>)
   \<and> register_address (example_wave\<lparr> m_is_parked := True, m_parked_pc := 0x1000 \<rparr>) pc \<noteq> None
   \<and> read_register (example_wave\<lparr> m_is_parked := True, m_parked_pc := 0x1000 \<rparr>) pc 0 8
       = Inr (le_bytes64 0x1000)
   \<and> (\<exists>w'. write_register (example_wave\<lparr> m_is_parked := True, m_parked_pc := 0x1000 \<rparr>) pc 0
               (le_bytes64 0x1234) = Inr w'
          \<and> global_memory w' = global_memory example_wave
          \<and> m_register_cache w' = m_register_cache example_wave)
   \<and> (\<exists>w1. park example_wave = Inr w1 \<and> m_is_parked w1 \<and> wave_pc w1 = wave_pc example_wave
          \<and> read_real64 (w1\<lparr> m_is_parked := False \<rparr>) pc = Inr 0x2000
          \<and> (\<exists>w3. unpark (w1\<lparr> m_state := WAVE_STATE_RUN \<rparr>) = Inr w3 \<and> \<not> m_is_parked w3
                   \<and> wave_pc w3 = wave_pc example_wave))"
proof -
  let ?w = "example_wave\<lparr> m_is_parked := True, m_parked_pc := 0x1000 \<rparr>"
  have h1: "m_is_parked ?w \<and> register_address ?w pc \<noteq> None"
    by (simp add: example_addresses)
  obtain w' where h2: "write_register ?w pc 0 (le_bytes64 0x1234) = Inr w'"
    by (simp add: write_real_register_def example_addresses)
  obtain w1 where h3: "park example_wave = Inr w1"
    using example_park by blast
  have h4: "WAVE_STATE_RUN \<noteq> WAVE_STATE_STOP" by simp
  from C10_parked_pc_is_served_from_the_shadow [of ?w 0 8 "le_bytes64 0x1234" w'] h1 h2
    C10_parked_pc_is_served_from_the_shadow [of example_wave _ _ _ _ w1 WAVE_STATE_RUN] h3 h4
  show ?thesis
    by (simp add: example_fields)
qed

section \<open>Writing the pseudo EXEC and VCC registers\<close>

lemma separate_sym: "separate w r r' \<Longrightarrow> separate w r' r"
  unfolding separate_def
  by (auto split: option.splits simp: list_all_iff)
     (metis atLeastLessThan_iff zero_le)

lemma zero_flag_update:
  fixes x m :: u32
  shows "((x AND NOT m) OR (if c then m else 0)) AND m = (if c then m else 0)"
  by (auto simp: bit_eq_iff bit_simps)

lemma read_register_real [simp]:
  "\<not> is_pseudo_register r \<Longrightarrow> read_register w r = read_real_register w r"
  by (simp add: read_register_def fun_eq_iff)

lemma write_register_real [simp]:
  "\<not> is_pseudo_register r \<Longrightarrow> write_register w r = write_real_register w r"
  by (simp add: write_register_def fun_eq_iff)

lemma read_register32_real [simp]:
  "\<not> is_pseudo_register r \<Longrightarrow> read_register32 w r = read_real32 w r"
  by (simp add: read_register32_def read_real32_def)

lemma read_register64_real [simp]:
  "\<not> is_pseudo_register r \<Longrightarrow> read_register64 w r = read_real64 w r"
  by (simp add: read_register64_def read_real64_def)

lemma write_register32_real [simp]:
  "\<not> is_pseudo_register r \<Longrightarrow> write_register32 w r = write_real32 w r"
  by (simp add: write_register32_def write_real32_def fun_eq_iff)

lemma write_register64_real [simp]:
  "\<not> is_pseudo_register r \<Longrightarrow> write_register64 w r = write_real64 w r"
  by (simp add: write_register64_def write_real64_def fun_eq_iff)

lemma write_pseudo_mask_register:
  assumes wr: "write_pseudo_register w regnum offset val = Inr w'"
    and reg: "regnum = pseudo_exec_64 \<or> regnum = pseudo_vcc_64"
    and base: "base = (if regnum = pseudo_exec_64 then exec_64 else vcc_64)"
    and zmask: "zmask = (if regnum = pseudo_exec_64 then sq_wave_status_execz_mask
                         else sq_wave_status_vccz_mask)"
    and sep: "separate w status base"
  shows "\<exists>old st. lane_count w = 64 \<and> read_real64 w base = Inr old
           \<and> read_real64 w' base = Inr (of_le_bytes64 (memcpy_at (le_bytes64 old) offset val))
           \<and> read_real32 w' status = Inr st
           \<and> (st AND zmask \<noteq> 0
                 \<longleftrightarrow> of_le_bytes64 (memcpy_at (le_bytes64 old) offset val) = 0)"
proof -
  let ?new = "\<lambda>old. of_le_bytes64 (memcpy_at (le_bytes64 old) offset val)"
  let ?st = "\<lambda>s old. (s AND NOT zmask) OR (if ?new old = 0 then zmask else 0)"
  from wr reg base zmask obtain s old w1 where
    lc: "lane_count w = 64" and rs: "read_real32 w status = Inr s"
    and ro: "read_real64 w base = Inr old"
    and w1: "write_real32 w status (?st s old) = Inr w1"
    and w2: "write_real64 w1 base (?new old) = Inr w'"
    unfolding write_pseudo_register_def
    by (auto simp: bind_e_eq_Inr Let_def split: if_splits)
  have zm: "zmask \<noteq> 0"
    using zmask by (simp add: sq_wave_status_execz_mask_def sq_wave_status_vccz_mask_def)
  have w1': "write_real_register w status 0 (le_bytes32 (?st s old)) = Inr w1"
    using w1 by (simp add: write_real32_def)
  have w2': "write_real_register w1 base 0 (le_bytes64 (?new old)) = Inr w'"
    using w2 by (simp add: write_real64_def)
  have sep1: "separate w1 base status"
    using sep separate_sym separate_write [OF w1'] by blast
  have "read_real32 w' status = read_real32 w1 status"
    by (rule read_real32_after_write_other [OF w2' sep1])
  also have "\<dots> = Inr (?st s old)"
    by (rule read_real32_after_write_real32 [OF w1]) simp
  finally have st: "read_real32 w' status = Inr (?st s old)" .
  have nb: "read_real64 w' base = Inr (?new old)"
    by (rule read_real64_after_write_real64 [OF w2])
  have flag: "?st s old AND zmask \<noteq> 0 \<longleftrightarrow> ?new old = 0"
    using zm by (simp add: zero_flag_update)
  from lc ro nb st flag show ?thesis by blast
qed

lemma example_separate:
  "separate example_wave status exec_64"
  "separate example_wave status vcc_64"
  by (simp_all add: separate_def example_addresses upt_rec [of _ "numeral n" for n]
      upt_rec [of _ "Suc n" for n])

lemma example_write_exec:
  "\<exists>w'. write_register example_wave pseudo_exec_64 0 (le_bytes64 0) = Inr w'"
  by (simp add: write_register_def write_pseudo_register_def pseudo_register_checks_def
      is_pseudo_register_available_def read_real32_def read_real64_def write_real32_def
      write_real64_def read_real_register_def write_real_register_def
      example_addresses example_fields cache_contains_def Let_def)

lemma example_write_vcc:
  "\<exists>w'. write_register example_wave pseudo_vcc_64 0 (le_bytes64 5) = Inr w'"
  by (simp add: write_register_def write_pseudo_register_def pseudo_register_checks_def
      is_pseudo_register_available_def read_real32_def read_real64_def write_real32_def
      write_real64_def read_real_register_def write_real_register_def
      example_addresses example_fields cache_contains_def Let_def)

text \<open>
  C9.  Take a write of the pseudo EXEC or pseudo VCC register that returns normally,
  on a wave whose status register and EXEC (VCC) pair occupy separate slots of the
  save area.  Then the wave has 64 lanes, the underlying real register \<open>exec_64\<close>
  (\<open>vcc_64\<close>) afterwards holds its old value with the written bytes copied in at the
  offset, which is the written value itself for a write of all eight bytes, and
  afterwards the bit \<open>status.execz\<close> (\<open>status.vccz\<close>) is set exactly when that
  resulting 64-bit value is zero.
\<close>

theorem C9_exec_vcc_write_sets_zero_flag:
  assumes "write_register w regnum offset val = Inr w'"
    and "regnum = pseudo_exec_64 \<or> regnum = pseudo_vcc_64"
    and "separate w status (if regnum = pseudo_exec_64 then exec_64 else vcc_64)"
  shows "\<exists>old new st.
           lane_count w = 64
         \<and> read_register64 w (if regnum = pseudo_exec_64 then exec_64 else vcc_64) = Inr old
         \<and> new = of_le_bytes64 (memcpy_at (le_bytes64 old) offset val)
         \<and> (if offset = 0 \<and> length val = 8 then new = of_le_bytes64 val else True)
         \<and> read_register64 w' (if regnum = pseudo_exec_64 then exec_64 else vcc_64) = Inr new
         \<and> read_register32 w' status = Inr st
         \<and> ((st AND (if regnum = pseudo_exec_64 then sq_wave_status_execz_mask
                       else sq_wave_status_vccz_mask) \<noteq> 0) = (new = 0))"
proof -
  from assms(2) have ps: "is_pseudo_register regnum" by auto
  with assms(1) have wr: "write_pseudo_register w regnum offset val = Inr w'"
    by (simp add: write_register_def)
  from write_pseudo_mask_register [OF wr assms(2) refl refl assms(3)]
  obtain old st where
    "lane_count w = 64"
    "read_real64 w (if regnum = pseudo_exec_64 then exec_64 else vcc_64) = Inr old"
    "read_real64 w' (if regnum = pseudo_exec_64 then exec_64 else vcc_64)
       = Inr (of_le_bytes64 (memcpy_at (le_bytes64 old) offset val))"
    "read_real32 w' status = Inr st"
    "(st AND (if regnum = pseudo_exec_64 then sq_wave_status_execz_mask
              else sq_wave_status_vccz_mask) \<noteq> 0)
       = (of_le_bytes64 (memcpy_at (le_bytes64 old) offset val) = 0)"
    by blast
  then show ?thesis
    by (intro exI [of _ old] exI [of _ "of_le_bytes64 (memcpy_at (le_bytes64 old) offset val)"]
          exI [of _ st])
       (auto simp: memcpy_at_full)
qed

theorem C9_exec_vcc_write_witness:
  "(\<exists>w'. write_register example_wave pseudo_exec_64 0 (le_bytes64 0) = Inr w'
         \<and> read_register64 w' exec_64 = Inr 0
         \<and> (\<exists>st. read_register32 w' status = Inr st \<and> st AND sq_wave_status_execz_mask \<noteq> 0))
   \<and> separate example_wave status exec_64
   \<and> (\<exists>w'. write_register example_wave pseudo_vcc_64 0 (le_bytes64 5) = Inr w'
         \<and> read_register64 w' vcc_64 = Inr 5
         \<and> (\<exists>st. read_register32 w' status = Inr st \<and> st AND sq_wave_status_vccz_mask = 0))
   \<and> separate example_wave status vcc_64"
proof -
  obtain w1 where h1: "write_register example_wave pseudo_exec_64 0 (le_bytes64 0) = Inr w1"
    using example_write_exec by blast
  obtain w2 where h2: "write_register example_wave pseudo_vcc_64 0 (le_bytes64 5) = Inr w2"
    using example_write_vcc by blast
  have s1: "separate example_wave status
              (if pseudo_exec_64 = pseudo_exec_64 then exec_64 else vcc_64)"
    and s2: "separate example_wave status
              (if pseudo_vcc_64 = pseudo_exec_64 then exec_64 else vcc_64)"
    by (simp_all add: example_separate)
  from C9_exec_vcc_write_sets_zero_flag [OF h1 _ s1]
  have c1: "read_register64 w1 exec_64 = Inr 0
            \<and> (\<exists>st. read_register32 w1 status = Inr st \<and> st AND sq_wave_status_execz_mask \<noteq> 0)"
    by (auto simp: memcpy_at_full of_le_bytes64_le_bytes64)
  from C9_exec_vcc_write_sets_zero_flag [OF h2 _ s2]
  have c2: "read_register64 w2 vcc_64 = Inr 5
            \<and> (\<exists>st. read_register32 w2 status = Inr st \<and> st AND sq_wave_status_vccz_mask = 0)"
    by (auto simp: memcpy_at_full of_le_bytes64_le_bytes64)
  from h1 h2 c1 c2 example_separate show ?thesis by blast
qed

section \<open>Forks\<close>

lemma fork_not_cbranch:
  "is_cbranch_i_fork a i \<or> is_cbranch_g_fork a i \<Longrightarrow> \<not> is_cbranch a i"
  by (cases a) (auto simp: is_cbranch_def is_sopk_encoding_def is_sop2_encoding_def
      split: if_splits)

lemma join_hi_lo_split:
  "join_hi_lo (ucast (drop_bit 32 x) :: u32) (ucast x :: u32) = (x :: u64)"
  unfolding join_hi_lo_def
  by (rule bit_word_eqI) (auto simp: bit_simps)

lemma read_register_pair_InrE:
  assumes "read_register_pair w r = Inr v"
  obtains lo hi where "read_register32 w (regnum_add r 0) = Inr lo"
    "read_register32 w (regnum_add r 1) = Inr hi" "v = join_hi_lo hi lo"
  using assms unfolding read_register_pair_def by (auto simp: bind_e_eq_Inr)

lemma is_branch_taken_fork:
  assumes "is_cbranch_i_fork a i \<or> is_cbranch_g_fork a i"
    and "lane_count w = 64"
    and "fork_mask_regnum a i = Some mr"
    and "read_register_pair w mr = Inr msk"
    and "read_register64 w exec_64 = Inr exec"
  shows "is_branch_taken a w i =
           Inr (if msk AND exec = exec then True
                else if NOT msk AND exec = exec then False
                else bit_count (msk AND exec) \<le> bit_count (NOT msk AND exec))"
proof -
  from assms(4) obtain lo hi where
    "read_register32 w (regnum_add mr 0) = Inr lo"
    "read_register32 w (regnum_add mr 1) = Inr hi" "msk = join_hi_lo hi lo"
    by (rule read_register_pair_InrE)
  with assms fork_not_cbranch [OF assms(1)] show ?thesis
    by (simp add: is_branch_taken_def Let_def)
qed

lemma write_register32_csp:
  assumes "write_register32 w csp v = Inr w'"
  shows "\<exists>m. write_real_register w mode 0 (le_bytes32 m) = Inr w'"
  using assms
  unfolding write_register32_def write_register_def write_pseudo_register_def
  by (auto simp: bind_e_eq_Inr write_real32_def Let_def split: if_splits)


lemma regnum_add_sgpr: "regnum_add (sgpr n) k = sgpr (n + k)"
  by (cases k) simp_all

lemma read_real32_kept:
  assumes "write_real_register w r off bs = Inr w'" and "separate w r' r"
  shows "read_real32 w' r' = read_real32 w r'"
  using read_real32_after_write_other [OF assms(1) separate_sym [OF assms(2)]] .

lemma simulate_fork_mixed:
  assumes fork: "is_cbranch_i_fork a i \<or> is_cbranch_g_fork a i"
    and run: "simulate_fork a w cur_pc i = Inr w'"
    and mr: "fork_mask_regnum a i = Some mr"
    and msk: "read_register_pair w mr = Inr msk"
    and exec: "read_register64 w exec_64 = Inr exec"
    and c: "read_register32 w csp = Inr c"
    and mixed: "msk AND exec \<noteq> exec" "NOT msk AND exec \<noteq> exec"
    and sep: "all_separate w [sgpr (unat (c * 4)), sgpr (unat (c * 4) + 1),
                sgpr (unat (c * 4) + 2), sgpr (unat (c * 4) + 3), mode, exec_64]"
  shows "\<exists>taken saved_pc.
           is_branch_taken a w i = Inr taken
         \<and> (if taken then Inr (cur_pc + isize i) else branch_target a w cur_pc i) = Inr saved_pc
         \<and> read_register64 w' exec_64 = Inr (if taken then msk AND exec else NOT msk AND exec)
         \<and> read_register_pair w' (sgpr (unat (c * 4)))
             = Inr (if taken then NOT msk AND exec else msk AND exec)
         \<and> read_register_pair w' (sgpr (unat (c * 4) + 2)) = Inr saved_pc"
proof -
  define k where "k = unat (c * 4)"
  from msk obtain lo hi where
    lo: "read_register32 w (regnum_add mr 0) = Inr lo"
    and hi: "read_register32 w (regnum_add mr 1) = Inr hi" and m: "msk = join_hi_lo hi lo"
    by (rule read_register_pair_InrE)
  from run lo hi exec c mr mixed obtain taken saved_pc w1 w2 w3 w4 w5 where
    tk: "is_branch_taken a w i = Inr taken"
    and sp: "(if taken then Inr (cur_pc + isize i) else branch_target a w cur_pc i) = Inr saved_pc"
    and w1: "write_real32 w (sgpr k)
               (ucast (if taken then NOT msk AND exec else msk AND exec)) = Inr w1"
    and w2: "write_real32 w1 (sgpr (k + 1))
               (ucast (drop_bit 32 (if taken then NOT msk AND exec else msk AND exec))) = Inr w2"
    and w3: "write_real32 w2 (sgpr (k + 2)) (ucast saved_pc) = Inr w3"
    and w4: "write_real32 w3 (sgpr (k + 3)) (ucast (drop_bit 32 saved_pc)) = Inr w4"
    and w5: "write_register32 w4 csp (c + 1) = Inr w5"
    and w6: "write_real64 w5 exec_64 (if taken then msk AND exec else NOT msk AND exec) = Inr w'"
    unfolding simulate_fork_def k_def
    by (auto simp: bind_e_eq_Inr Let_def m regnum_add_sgpr simp del: regnum_add.simps
        split: if_splits)
  let ?d = "if taken then NOT msk AND exec else msk AND exec"
  from w5 obtain mv where w5': "write_real_register w4 mode 0 (le_bytes32 mv) = Inr w5"
    using write_register32_csp by blast
  note w1' = w1 [unfolded write_real32_def] and w2' = w2 [unfolded write_real32_def]
    and w3' = w3 [unfolded write_real32_def] and w4' = w4 [unfolded write_real32_def]
    and w6' = w6 [unfolded write_real64_def]
  from sep have s:
    "separate w (sgpr k) (sgpr (k + 1))" "separate w (sgpr k) (sgpr (k + 2))"
    "separate w (sgpr k) (sgpr (k + 3))" "separate w (sgpr k) mode"
    "separate w (sgpr k) exec_64"
    "separate w (sgpr (k + 1)) (sgpr (k + 2))" "separate w (sgpr (k + 1)) (sgpr (k + 3))"
    "separate w (sgpr (k + 1)) mode" "separate w (sgpr (k + 1)) exec_64"
    "separate w (sgpr (k + 2)) (sgpr (k + 3))" "separate w (sgpr (k + 2)) mode"
    "separate w (sgpr (k + 2)) exec_64"
    "separate w (sgpr (k + 3)) mode" "separate w (sgpr (k + 3)) exec_64"
    by (simp_all add: k_def)
  have sw: "separate w' = separate w" "separate w5 = separate w" "separate w4 = separate w"
    "separate w3 = separate w" "separate w2 = separate w" "separate w1 = separate w"
    using separate_write [OF w1'] separate_write [OF w2'] separate_write [OF w3']
      separate_write [OF w4'] separate_write [OF w5'] separate_write [OF w6']
    by (simp_all add: fun_eq_iff)
  have r0: "read_real32 w' (sgpr k) = Inr (ucast ?d)"
    using read_real32_kept [OF w6'] read_real32_kept [OF w5'] read_real32_kept [OF w4']
      read_real32_kept [OF w3'] read_real32_kept [OF w2'] read_real32_after_write_real32 [OF w1]
      s sw by simp
  have r1: "read_real32 w' (sgpr (k + 1)) = Inr (ucast (drop_bit 32 ?d))"
    using read_real32_kept [OF w6'] read_real32_kept [OF w5'] read_real32_kept [OF w4']
      read_real32_kept [OF w3'] read_real32_after_write_real32 [OF w2]
      s sw by simp
  have r2: "read_real32 w' (sgpr (k + 2)) = Inr (ucast saved_pc)"
    using read_real32_kept [OF w6'] read_real32_kept [OF w5'] read_real32_kept [OF w4']
      read_real32_after_write_real32 [OF w3]
      s sw by simp
  have r3: "read_real32 w' (sgpr (k + 3)) = Inr (ucast (drop_bit 32 saved_pc))"
    using read_real32_kept [OF w6'] read_real32_kept [OF w5']
      read_real32_after_write_real32 [OF w4]
      s sw by simp
  have e: "read_real64 w' exec_64 = Inr (if taken then msk AND exec else NOT msk AND exec)"
    by (rule read_real64_after_write_real64 [OF w6])
  have p0: "read_register_pair w' (sgpr k) = Inr ?d"
    using r0 r1 by (simp add: read_register_pair_def regnum_add_sgpr join_hi_lo_split
        del: regnum_add.simps)
  have p2: "read_register_pair w' (sgpr (k + 2)) = Inr saved_pc"
  proof -
    have "regnum_add (sgpr (k + 2)) 0 = sgpr (k + 2)"
      and "regnum_add (sgpr (k + 2)) 1 = sgpr (k + 3)"
      by (simp_all add: regnum_add_sgpr del: regnum_add.simps)
    then show ?thesis
      unfolding read_register_pair_def
      by (simp only: read_register32_real is_pseudo_register.simps r2 r3 bind_e_Inr
          join_hi_lo_split simp_thms)
  qed
  from tk sp e p0 p2 show ?thesis unfolding k_def by auto
qed


lemma fork_instruction_is_i_fork:
  "is_cbranch_i_fork GFX9 fork_instruction"
  "fork_mask_regnum GFX9 fork_instruction = Some (sgpr 4)"
  "isize fork_instruction = 4" "simm16_offset fork_instruction = 12"
  by (simp_all add: fork_instruction_def fork_mask_regnum_def encoding_defs sdst_operand_def
      simm16_offset_def simm16_operand_def)

lemma fork_wave_addresses:
  "register_address (fork_wave m) (sgpr n)
     = (if n < 10 then Some (0xFF40 + of_nat n * 4) else None)"
  "register_address (fork_wave m) mode = Some 0xFFA4"
  "register_address (fork_wave m) exec_64 = Some 0xFF8C"
  by (simp_all add: fork_wave_def example_wave_def cwsr_defs Let_def)

lemma fork_wave_fields:
  "m_is_parked (fork_wave m) = False" "queue_is_suspended (fork_wave m)"
  "lane_count (fork_wave m) = 64"
  "cache_address (m_register_cache (fork_wave m)) = 0xFF80"
  "cache_size (m_register_cache (fork_wave m)) = 128"
  by (simp_all add: fork_wave_def example_wave_def)

lemmas upt_unroll = upt_rec [of _ "numeral n" for n] upt_rec [of _ "Suc n" for n]

lemma fork_wave_reads:
  "read_register64 (fork_wave m) exec_64 = Inr 7"
  "read_register_pair (fork_wave m) (sgpr 4) = Inr (ucast m)"
  "read_register32 (fork_wave m) csp = Inr 0"
  apply (simp_all add: read_register_pair_def read_register32_def read_register_def
      read_pseudo_register_def pseudo_register_checks_def is_pseudo_register_available_def
      read_real64_def read_real32_def
      read_real_register_def fork_wave_addresses fork_wave_fields cache_contains_def
      load_bytes_def upt_unroll of_le_bytes32_le_bytes32)
  apply (simp_all add: fork_wave_def example_wave_def of_le_bytes64_def of_le_bytes32_def
      join_hi_lo_def bit_extract_def)
  apply (rule bit_word_eqI)
  apply (auto simp: bit_simps dest: bit_imp_le_length)
  done

lemma fork_wave_separate:
  "all_separate (fork_wave m) [sgpr (unat (0 * 4 :: u32)), sgpr (unat (0 * 4 :: u32) + 1),
      sgpr (unat (0 * 4 :: u32) + 2), sgpr (unat (0 * 4 :: u32) + 3), mode, exec_64]"
  by (simp add: separate_def fork_wave_addresses upt_unroll)

lemma minimum_instruction_alignment_eq: "minimum_instruction_alignment = 4"
  by (simp add: minimum_instruction_alignment_def pc_read_only_bits_def bit_mask_def mask_eq_exp_minus_1)

lemma fork_instruction_valid: "is_valid fork_instruction"
  by (simp add: fork_instruction_def legal_instruction_def is_valid_def)

lemma branch_target_direct:
  assumes "is_branch a i \<or> is_call a i \<or> is_cbranch a i \<or> is_cbranch_i_fork a i"
    and "is_valid i"
  shows "branch_target a w cur_pc i
           = Inr (align_down (cur_pc + isize i + simm16_offset i) minimum_instruction_alignment)"
  unfolding branch_target_def using assms by simp

lemma fork_wave_target:
  "branch_target GFX9 (fork_wave m) 0x1000 fork_instruction = Inr 0x1010"
proof -
  have "align_down (0x1010 :: u64) 4 = 0x1010"
    unfolding align_down_def by (rule bit_word_eqI) (auto simp: bit_simps)
  then show ?thesis
    using branch_target_direct [of GFX9 fork_instruction "fork_wave m" "0x1000"]
      fork_instruction_is_i_fork fork_instruction_valid
    by (simp add: minimum_instruction_alignment_eq del: is_cbranch_i_fork.simps)
qed

lemma bit_count_examples:
  "bit_count 1 = 1" "bit_count 6 = 2" "bit_count 3 = 2" "bit_count 4 = 1"
  by (simp_all add: bit_count_def upt_unroll)

lemma write_real_register_total:
  assumes "register_address w r = Some a" "register_size r = Some n" "bs \<noteq> []"
    "off + length bs \<le> n" "queue_is_suspended w"
  shows "\<exists>w'. write_real_register w r off bs = Inr w'
            \<and> register_address w' = register_address w \<and> queue_is_suspended w'"
proof -
  from assms obtain w' where w': "write_real_register w r off bs = Inr w'"
    using write_real_register_succeeds_iff [of w r off bs] by blast
  from write_real_register_preserves(1,6) [OF w'] assms(5) w' show ?thesis by simp
qed

lemma read_real_register_total:
  assumes "register_address w r = Some a" "register_size r = Some n" "k \<noteq> 0"
    "off + k \<le> n" "queue_is_suspended w"
  shows "\<exists>bs. read_real_register w r off k = Inr bs"
  using assms by (simp add: read_real_register_def)

lemma simulate_fork_succeeds:
  assumes fork: "is_cbranch_i_fork a i \<or> is_cbranch_g_fork a i"
    and lanes: "lane_count w = 64"
    and mr: "fork_mask_regnum a i = Some mr"
    and msk: "read_register_pair w mr = Inr msk"
    and exec: "read_register64 w exec_64 = Inr exec"
    and c: "read_register32 w csp = Inr c"
    and tgt: "branch_target a w cur_pc i = Inr t"
    and sep: "all_separate w [sgpr (unat (c * 4)), sgpr (unat (c * 4) + 1),
                sgpr (unat (c * 4) + 2), sgpr (unat (c * 4) + 3), mode, exec_64]"
    and q: "queue_is_suspended w"
  shows "\<exists>w'. simulate_fork a w cur_pc i = Inr w'"
proof -
  define k where "k = unat (c * 4)"
  from msk obtain lo hi where
    lo: "read_register32 w (regnum_add mr 0) = Inr lo"
    and hi: "read_register32 w (regnum_add mr 1) = Inr hi" and m: "msk = join_hi_lo hi lo"
    by (rule read_register_pair_InrE)
  define taken where "taken = (if msk AND exec = exec then True
                else if NOT msk AND exec = exec then False
                else bit_count (msk AND exec) \<le> bit_count (NOT msk AND exec))"
  have tk: "is_branch_taken a w i = Inr taken"
    unfolding taken_def by (rule is_branch_taken_fork [OF fork lanes mr msk exec])
  from sep obtain a0 a1 a2 a3 am ae where ad:
    "register_address w (sgpr k) = Some a0" "register_address w (sgpr (k + 1)) = Some a1"
    "register_address w (sgpr (k + 2)) = Some a2" "register_address w (sgpr (k + 3)) = Some a3"
    "register_address w mode = Some am" "register_address w exec_64 = Some ae"
    by (auto simp: k_def separate_def split: option.splits)
  define d where "d = (if taken then NOT msk AND exec else msk AND exec)"
  define saved_pc where "saved_pc = (if taken then cur_pc + isize i else t)"
  define v0 :: u32 where "v0 = ucast d"
  define v1 :: u32 where "v1 = ucast (drop_bit 32 d)"
  define v2 :: u32 where "v2 = ucast saved_pc"
  define v3 :: u32 where "v3 = ucast (drop_bit 32 saved_pc)"
  define v4 :: u32 where "v4 = c + 1"
  define v5 :: u64 where "v5 = (if taken then msk AND exec else NOT msk AND exec)"
  from write_real_register_total [OF ad(1) _ _ _ q, of 4 "le_bytes32 v0" 0]
  obtain w1 where w1: "write_real32 w (sgpr k) v0 = Inr w1"
    and p1: "register_address w1 = register_address w" "queue_is_suspended w1"
    by (auto simp: write_real32_def)
  from write_real_register_total [of w1 "sgpr (k + 1)" a1 4 "le_bytes32 v1" 0] ad p1
  obtain w2 where w2: "write_real32 w1 (sgpr (k + 1)) v1 = Inr w2"
    and p2: "register_address w2 = register_address w" "queue_is_suspended w2"
    by (auto simp: write_real32_def)
  from write_real_register_total [of w2 "sgpr (k + 2)" a2 4 "le_bytes32 v2" 0] ad p2
  obtain w3 where w3: "write_real32 w2 (sgpr (k + 2)) v2 = Inr w3"
    and p3: "register_address w3 = register_address w" "queue_is_suspended w3"
    by (auto simp: write_real32_def)
  from write_real_register_total [of w3 "sgpr (k + 3)" a3 4 "le_bytes32 v3" 0] ad p3
  obtain w4 where w4: "write_real32 w3 (sgpr (k + 3)) v3 = Inr w4"
    and p4: "register_address w4 = register_address w" "queue_is_suspended w4"
    by (auto simp: write_real32_def)
  from read_real_register_total [of w4 mode am 4 4 0] ad p4
  obtain mb where mb: "read_real_register w4 mode 0 4 = Inr mb" by auto
  from write_real_register_total [of w4 mode am 4 _ 0] ad p4
  have "\<exists>w5. write_register32 w4 csp v4 = Inr w5
            \<and> register_address w5 = register_address w \<and> queue_is_suspended w5"
    using mb
    by (simp add: write_register32_def write_register_def write_pseudo_register_def
        pseudo_register_checks_def is_pseudo_register_available_def read_real32_def
        write_real32_def Let_def)
  then obtain w5 where w5: "write_register32 w4 csp v4 = Inr w5"
    and p5: "register_address w5 = register_address w" "queue_is_suspended w5"
    by blast
  from write_real_register_total [of w5 exec_64 ae 8 "le_bytes64 v5" 0] ad p5
  obtain w6 where w6: "write_real64 w5 exec_64 v5 = Inr w6"
    by (auto simp: write_real64_def)
  have sp: "(if taken then Inr (cur_pc + isize i) else branch_target a w cur_pc i)
              = Inr saved_pc"
    by (simp add: saved_pc_def tgt)
  show ?thesis
    unfolding simulate_fork_def
    using lanes mr lo hi exec c tk sp w1 w2 w3 w4 w5 w6
    by (cases taken)
       (simp_all add: Let_def regnum_add_sgpr m [symmetric] k_def [symmetric] d_def
          v0_def v1_def v2_def v3_def v4_def v5_def del: regnum_add.simps)
qed


lemma simulate_fork_lanes:
  "simulate_fork a w cur_pc i = Inr w' \<Longrightarrow> lane_count w = 64"
  unfolding simulate_fork_def by (auto simp: bind_e_eq_Inr)

lemma simulate_fork_uniform:
  assumes "simulate_fork a w cur_pc i = Inr w'"
    and "fork_mask_regnum a i = Some mr"
    and "read_register_pair w mr = Inr msk"
    and "read_register64 w exec_64 = Inr exec"
    and "msk AND exec = exec \<or> NOT msk AND exec = exec"
  shows "w' = w"
proof -
  from assms(3) obtain lo hi where
    "read_register32 w (regnum_add mr 0) = Inr lo"
    "read_register32 w (regnum_add mr 1) = Inr hi" "msk = join_hi_lo hi lo"
    by (rule read_register_pair_InrE)
  with assms show ?thesis
    unfolding simulate_fork_def
    by (auto simp: bind_e_eq_Inr Let_def split: if_splits)
qed

text \<open>
  C4, as stated, fails on its last clause.  On the wave \<open>fork_wave 1\<close> (exec mask
  \<open>0b111\<close>, fork mask \<open>0b001\<close>) the pass side has one active lane and the fail side
  two.  \<open>is_branch_taken\<close> answers taken, and \<open>simulate_fork\<close> makes the pass side
  (one lane) the new exec mask and pushes the fail side (two lanes) with the address
  of the next instruction: the deferred side is the one with more active lanes, not
  the one with fewer.
\<close>

theorem C4_fork_side_with_fewer_lanes_is_deferred_counterexample:
  "is_cbranch_i_fork GFX9 fork_instruction
   \<and> lane_count (fork_wave 1) = 64
   \<and> read_register64 (fork_wave 1) exec_64 = Inr 7
   \<and> read_register_pair (fork_wave 1) (sgpr 4) = Inr 1
   \<and> is_branch_taken GFX9 (fork_wave 1) fork_instruction = Inr True
   \<and> (\<exists>w'. simulate_fork GFX9 (fork_wave 1) 0x1000 fork_instruction = Inr w'
          \<and> read_register64 w' exec_64 = Inr 1
          \<and> read_register_pair w' (sgpr 0) = Inr 6
          \<and> read_register_pair w' (sgpr 2) = Inr 0x1004)
   \<and> bit_count 1 = 1 \<and> bit_count 6 = 2"
proof -
  let ?w = "fork_wave 1"
  have m: "read_register_pair ?w (sgpr 4) = Inr 1"
    using fork_wave_reads(2) [of 1] by simp
  have v: "(1 :: u64) AND 7 = 1" "NOT (1 :: u64) AND 7 = 6"
    by simp_all
  have fk: "is_cbranch_i_fork GFX9 fork_instruction \<or> is_cbranch_g_fork GFX9 fork_instruction"
    using fork_instruction_is_i_fork(1) by blast
  have tk: "is_branch_taken GFX9 ?w fork_instruction = Inr True"
    using is_branch_taken_fork [OF fk fork_wave_fields(3) fork_instruction_is_i_fork(2) m
        fork_wave_reads(1)]
    by (simp add: v bit_count_examples)
  obtain w' where run: "simulate_fork GFX9 ?w 0x1000 fork_instruction = Inr w'"
    using simulate_fork_succeeds [OF fk fork_wave_fields(3) fork_instruction_is_i_fork(2) m
        fork_wave_reads(1) fork_wave_reads(3) fork_wave_target fork_wave_separate
        fork_wave_fields(2)]
    by blast
  have mixed: "(1 :: u64) AND 7 \<noteq> 7" "NOT (1 :: u64) AND 7 \<noteq> 7" by simp_all
  have z: "unat (0 * 4 :: u32) = 0" by simp
  from simulate_fork_mixed [OF fk run fork_instruction_is_i_fork(2) m fork_wave_reads(1)
      fork_wave_reads(3) mixed fork_wave_separate, unfolded z add_0]
  obtain taken saved_pc where t:
    "is_branch_taken GFX9 ?w fork_instruction = Inr taken"
    "(if taken then Inr (0x1000 + isize fork_instruction)
      else branch_target GFX9 ?w 0x1000 fork_instruction) = Inr saved_pc"
    "read_register64 w' exec_64 = Inr (if taken then 1 AND 7 else NOT 1 AND 7)"
    "read_register_pair w' (sgpr 0) = Inr (if taken then NOT 1 AND 7 else 1 AND 7)"
    "read_register_pair w' (sgpr 2) = Inr saved_pc"
    by blast
  from t(1) tk have taken by simp
  with t have "read_register64 w' exec_64 = Inr 1 \<and> read_register_pair w' (sgpr 0) = Inr 6
        \<and> read_register_pair w' (sgpr 2) = Inr 0x1004"
    by (simp add: fork_instruction_is_i_fork)
  with run tk m fork_instruction_is_i_fork(1) fork_wave_fields(3) fork_wave_reads(1)
    bit_count_examples
  show ?thesis by blast
qed

text \<open>
  C4, amended.  For a \<open>cbranch_i_fork\<close> or \<open>cbranch_g_fork\<close> instruction on which
  \<open>simulate_fork\<close> returns normally, the wave has 64 lanes; \<open>is_branch_taken\<close> answers
  taken when the exec mask lies within the pass mask, otherwise not taken when it lies
  within the fail mask, and otherwise taken exactly when the fail side has at least
  as many active lanes as the pass side.  In the first two cases the wave is
  unchanged.  In the last case, provided the four stack registers, \<open>mode\<close> and
  \<open>exec_64\<close> occupy separate slots, the new exec mask is the side chosen by the
  decision, the other side's mask and resume PC are pushed at \<open>s[4 * csp ..]\<close>, and
  the side that executes first has no more active lanes than the deferred side.
\<close>

theorem C4_fork_side_with_more_lanes_is_deferred:
  assumes fork: "is_cbranch_i_fork a i \<or> is_cbranch_g_fork a i"
    and run: "simulate_fork a w cur_pc i = Inr w'"
    and mr: "fork_mask_regnum a i = Some mr"
    and msk: "read_register_pair w mr = Inr msk"
    and exec: "read_register64 w exec_64 = Inr exec"
    and c: "read_register32 w csp = Inr c"
    and sep: "all_separate w [sgpr (unat (c * 4)), sgpr (unat (c * 4) + 1),
                sgpr (unat (c * 4) + 2), sgpr (unat (c * 4) + 3), mode, exec_64]"
  shows "lane_count w = 64
       \<and> is_branch_taken a w i =
           Inr (if msk AND exec = exec then True
                else if NOT msk AND exec = exec then False
                else bit_count (msk AND exec) \<le> bit_count (NOT msk AND exec))
       \<and> (if msk AND exec = exec \<or> NOT msk AND exec = exec then w' = w
          else \<exists>taken saved_pc.
                 is_branch_taken a w i = Inr taken
               \<and> (if taken then Inr (cur_pc + isize i) else branch_target a w cur_pc i)
                   = Inr saved_pc
               \<and> read_register64 w' exec_64
                   = Inr (if taken then msk AND exec else NOT msk AND exec)
               \<and> read_register_pair w' (sgpr (unat (c * 4)))
                   = Inr (if taken then NOT msk AND exec else msk AND exec)
               \<and> read_register_pair w' (sgpr (unat (c * 4) + 2)) = Inr saved_pc
               \<and> bit_count (if taken then msk AND exec else NOT msk AND exec)
                   \<le> bit_count (if taken then NOT msk AND exec else msk AND exec))"
proof -
  have lanes: "lane_count w = 64" using run by (rule simulate_fork_lanes)
  note tk = is_branch_taken_fork [OF fork lanes mr msk exec]
  show ?thesis
  proof (cases "msk AND exec = exec \<or> NOT msk AND exec = exec")
    case True
    with simulate_fork_uniform [OF run mr msk exec] lanes tk show ?thesis by simp
  next
    case False
    then have mixed: "msk AND exec \<noteq> exec" "NOT msk AND exec \<noteq> exec" by simp_all
    from simulate_fork_mixed [OF fork run mr msk exec c mixed sep]
    obtain taken saved_pc where t:
      "is_branch_taken a w i = Inr taken"
      "(if taken then Inr (cur_pc + isize i) else branch_target a w cur_pc i) = Inr saved_pc"
      "read_register64 w' exec_64 = Inr (if taken then msk AND exec else NOT msk AND exec)"
      "read_register_pair w' (sgpr (unat (c * 4)))
         = Inr (if taken then NOT msk AND exec else msk AND exec)"
      "read_register_pair w' (sgpr (unat (c * 4) + 2)) = Inr saved_pc"
      by blast
    from t(1) tk mixed
    have "taken = (bit_count (msk AND exec) \<le> bit_count (NOT msk AND exec))" by simp
    then have "bit_count (if taken then msk AND exec else NOT msk AND exec)
                 \<le> bit_count (if taken then NOT msk AND exec else msk AND exec)"
      by auto
    with t lanes tk False show ?thesis by (simp only: if_False) blast
  qed
qed

theorem C4_fork_side_with_more_lanes_witness:
  "is_cbranch_i_fork GFX9 fork_instruction
   \<and> read_register64 (fork_wave 3) exec_64 = Inr 7
   \<and> read_register_pair (fork_wave 3) (sgpr 4) = Inr 3
   \<and> is_branch_taken GFX9 (fork_wave 3) fork_instruction = Inr False
   \<and> (\<exists>w'. simulate_fork GFX9 (fork_wave 3) 0x1000 fork_instruction = Inr w'
          \<and> read_register64 w' exec_64 = Inr 4
          \<and> read_register_pair w' (sgpr 0) = Inr 3
          \<and> read_register_pair w' (sgpr 2) = Inr 0x1010)
   \<and> bit_count 4 \<le> bit_count 3"
proof -
  let ?w = "fork_wave 3"
  have m: "read_register_pair ?w (sgpr 4) = Inr 3"
    using fork_wave_reads(2) [of 3] by simp
  have v: "(3 :: u64) AND 7 = 3" "NOT (3 :: u64) AND 7 = 4"
    by simp_all
  have fk: "is_cbranch_i_fork GFX9 fork_instruction \<or> is_cbranch_g_fork GFX9 fork_instruction"
    using fork_instruction_is_i_fork(1) by blast
  obtain w' where run: "simulate_fork GFX9 ?w 0x1000 fork_instruction = Inr w'"
    using simulate_fork_succeeds [OF fk fork_wave_fields(3) fork_instruction_is_i_fork(2) m
        fork_wave_reads(1) fork_wave_reads(3) fork_wave_target fork_wave_separate
        fork_wave_fields(2)]
    by blast
  have z: "unat (0 * 4 :: u32) = 0" by simp
  note r = C4_fork_side_with_more_lanes_is_deferred [OF fk run fork_instruction_is_i_fork(2) m
      fork_wave_reads(1) fork_wave_reads(3) fork_wave_separate, unfolded z add_0 v]
  from r have tk: "is_branch_taken GFX9 ?w fork_instruction = Inr False"
    by (simp add: bit_count_examples)
  from r obtain taken saved_pc where t:
    "is_branch_taken GFX9 ?w fork_instruction = Inr taken"
    "(if taken then Inr (0x1000 + isize fork_instruction)
      else branch_target GFX9 ?w 0x1000 fork_instruction) = Inr saved_pc"
    "read_register64 w' exec_64 = Inr (if taken then 3 else 4)"
    "read_register_pair w' (sgpr 0) = Inr (if taken then 4 else 3)"
    "read_register_pair w' (sgpr 2) = Inr saved_pc"
    by auto
  from t(1) tk have "\<not> taken" by simp
  with t tk have "is_branch_taken GFX9 ?w fork_instruction = Inr False
        \<and> read_register64 w' exec_64 = Inr 4 \<and> read_register_pair w' (sgpr 0) = Inr 3
        \<and> read_register_pair w' (sgpr 2) = Inr 0x1010"
    by (simp add: fork_wave_target)
  with run m fork_instruction_is_i_fork(1) fork_wave_reads(1) bit_count_examples
  show ?thesis by auto
qed


section \<open>Branch targets\<close>

lemma align_down_is_aligned:
  "is_aligned (align_down x minimum_instruction_alignment) minimum_instruction_alignment"
  unfolding is_aligned_def align_down_def minimum_instruction_alignment_eq
  by (rule bit_word_eqI) (auto simp: bit_simps)

lemma align_down_idem:
  "align_down (align_down x al) al = align_down x al"
  unfolding align_down_def by (simp add: and.assoc)

lemma simm16_offset_eq: "simm16_offset i = 4 * scast (simm16_operand i)"
  by (simp add: simm16_offset_def push_bit_eq_mult)

lemma branch_target_InrE:
  assumes "branch_target a w cur_pc i = Inr t"
  obtains raw where "t = align_down raw minimum_instruction_alignment" "is_valid i"
  using assms unfolding branch_target_def by (auto simp: bind_e_eq_Inr)

lemma and_prefix:
  fixes w :: u32
  assumes "w AND 0xFFFF0000 = v"
  shows "w AND 0xFF800000 = v AND 0xFF800000"
proof -
  have "w AND 0xFF800000 = (w AND 0xFFFF0000) AND 0xFF800000"
    by (simp add: and.assoc)
  with assms show ?thesis by simp
qed

lemma sopp_class:
  assumes "is_sopp_encoding [op] i"
  shows "word0 i AND 0xFF800000
           = (0xBF800000 OR push_bit 16 (of_nat op AND 0x7F)) AND 0xFF800000"
  using assms unfolding is_sopp_encoding_def
  by (auto split: if_splits intro: and_prefix)

lemma sopk_class:
  assumes "is_sopk_encoding [op] i"
  shows "word0 i AND 0xFF800000 = (0xB0000000 OR push_bit 23 (of_nat op AND 0x1F))"
  using assms unfolding is_sopk_encoding_def by (auto split: if_splits)

lemma subvector_not_direct:
  assumes "is_subvector_loop_begin a i \<or> is_subvector_loop_end a i"
  shows "\<not> (is_branch a i \<or> is_call a i \<or> is_cbranch a i \<or> is_cbranch_i_fork a i)"
proof (cases a)
  case GFX9
  with assms show ?thesis by simp
next
  case GFX10
  with assms have "word0 i AND 0xFF800000 = 0xBD800000 \<or> word0 i AND 0xFF800000 = 0xBE000000"
    by (auto dest!: sopk_class)
  then show ?thesis
    unfolding GFX10 by (auto dest!: sopk_class sopp_class simp: is_cbranch_def)
next
  case GFX11
  with assms have "word0 i AND 0xFF800000 = 0xBB000000 \<or> word0 i AND 0xFF800000 = 0xBB800000"
    by (auto dest!: sopk_class)
  then show ?thesis
    unfolding GFX11 by (auto dest!: sopk_class sopp_class simp: is_cbranch_def)
next
  case GFX12
  with assms show ?thesis by simp
qed

lemma branch_back_facts:
  "is_branch GFX9 branch_back" "is_valid branch_back" "isize branch_back = 4"
  "simm16_operand branch_back = 0xFFFF"
  by (simp_all add: branch_back_def encoding_defs simm16_operand_def)


lemma is_aligned_align_down:
  assumes "is_aligned x al"
  shows "align_down x al = x"
proof -
  have "x = x AND ((al - 1) OR NOT (al - 1))" by simp
  also have "\<dots> = (x AND (al - 1)) OR (x AND NOT (al - 1))"
    by (simp only: bit.conj_disj_distrib)
  also have "\<dots> = x AND NOT (al - 1)"
    using assms by (simp add: is_aligned_def)
  finally show ?thesis by (simp add: align_down_def)
qed


lemma is_aligned_4_iff: "is_aligned x 4 \<longleftrightarrow> take_bit 2 x = 0"
proof -
  have "(3 :: u64) = mask 2" by (simp add: mask_eq_exp_minus_1)
  then show ?thesis by (simp add: is_aligned_def take_bit_eq_mask)
qed

lemma is_aligned_4_mult: "is_aligned (4 * x) 4"
proof -
  have "4 * x = push_bit 2 x" by (simp add: push_bit_eq_mult)
  then show ?thesis by (simp add: is_aligned_4_iff take_bit_push_bit)
qed

lemma is_aligned_4D:
  assumes "is_aligned x 4"
  shows "x = 4 * drop_bit 2 x"
proof -
  have "push_bit 2 (drop_bit 2 x) + take_bit 2 x = x" by (rule bits_ident)
  with assms show ?thesis by (simp add: is_aligned_4_iff push_bit_eq_mult mult.commute)
qed

lemma is_aligned_4_add:
  assumes "is_aligned x 4" "is_aligned y 4"
  shows "is_aligned (x + y) 4"
proof -
  have "x + y = 4 * (drop_bit 2 x + drop_bit 2 y)"
    using is_aligned_4D [OF assms(1)] is_aligned_4D [OF assms(2)]
    by (simp add: distrib_left)
  then show ?thesis by (metis is_aligned_4_mult)
qed

text \<open>
  C3.  For a valid direct branch, conditional branch, call or i-fork instruction with
  signed 16-bit word offset \<open>d = simm16_operand i\<close> at address \<open>cur_pc\<close> and of size
  \<open>isize i\<close>, \<open>branch_target\<close> returns
  \<open>align_down (cur_pc + isize i + 4 * d, minimum_instruction_alignment)\<close>, computed
  modulo \<open>2 ^ 64\<close> with \<open>d\<close> sign-extended, and the generation's virtual
  \<open>branch_target\<close> agrees with it.  Whatever the branch form, a result of
  \<open>amdgcn_architecture_t::branch_target\<close> is the \<open>align_down\<close> of some target, hence
  aligned to the minimum instruction alignment, which is 4.  The override of the
  later generations differs only on the subvector-loop instructions, whose target
  \<open>cur_pc + isize i + 4 * d\<close> it returns as computed; that target is aligned whenever
  \<open>cur_pc\<close> and the instruction size are.
\<close>

theorem C3_branch_target_is_aligned_down:
  "(is_valid i \<and> (is_branch a i \<or> is_call a i \<or> is_cbranch a i \<or> is_cbranch_i_fork a i) \<longrightarrow>
      branch_target a w cur_pc i
        = Inr (align_down (cur_pc + isize i + 4 * scast (simm16_operand i))
                 minimum_instruction_alignment)
      \<and> arch_branch_target a w cur_pc i = branch_target a w cur_pc i)
   \<and> (branch_target a w cur_pc i = Inr t \<longrightarrow>
        (\<exists>raw. t = align_down raw minimum_instruction_alignment)
        \<and> is_aligned t minimum_instruction_alignment
        \<and> align_down t minimum_instruction_alignment = t)
   \<and> (arch_branch_target a w cur_pc i = Inr t' \<longrightarrow>
        (if is_subvector_loop_begin a i \<or> is_subvector_loop_end a i
         then t' = cur_pc + isize i + 4 * scast (simm16_operand i)
              \<and> (is_aligned cur_pc minimum_instruction_alignment
                   \<and> is_aligned (isize i) minimum_instruction_alignment
                 \<longrightarrow> is_aligned t' minimum_instruction_alignment)
         else branch_target a w cur_pc i = Inr t'
              \<and> is_aligned t' minimum_instruction_alignment))
   \<and> minimum_instruction_alignment = 4"
proof (intro conjI impI)
  assume d: "is_valid i \<and> (is_branch a i \<or> is_call a i \<or> is_cbranch a i \<or> is_cbranch_i_fork a i)"
  then show "branch_target a w cur_pc i
        = Inr (align_down (cur_pc + isize i + 4 * scast (simm16_operand i))
                 minimum_instruction_alignment)"
    using branch_target_direct [of a i w cur_pc] by (simp add: simm16_offset_eq)
  from d subvector_not_direct [of a i]
  have "\<not> (is_subvector_loop_begin a i \<or> is_subvector_loop_end a i)" by blast
  with d show "arch_branch_target a w cur_pc i = branch_target a w cur_pc i"
    by (cases a) (simp_all add: gfx10_branch_target_def)
next
  assume "branch_target a w cur_pc i = Inr t"
  then obtain raw where r: "t = align_down raw minimum_instruction_alignment"
    by (rule branch_target_InrE)
  then show "\<exists>raw. t = align_down raw minimum_instruction_alignment" by blast
  from r show "is_aligned t minimum_instruction_alignment"
    by (simp add: align_down_is_aligned)
  from r show "align_down t minimum_instruction_alignment = t"
    by (simp add: align_down_idem)
next
  assume t': "arch_branch_target a w cur_pc i = Inr t'"
  show "if is_subvector_loop_begin a i \<or> is_subvector_loop_end a i
         then t' = cur_pc + isize i + 4 * scast (simm16_operand i)
              \<and> (is_aligned cur_pc minimum_instruction_alignment
                   \<and> is_aligned (isize i) minimum_instruction_alignment
                 \<longrightarrow> is_aligned t' minimum_instruction_alignment)
         else branch_target a w cur_pc i = Inr t'
              \<and> is_aligned t' minimum_instruction_alignment"
  proof (cases "is_subvector_loop_begin a i \<or> is_subvector_loop_end a i")
    case True
    then have "a \<noteq> GFX9" by auto
    with t' have "gfx10_branch_target a w cur_pc i = Inr t'" by (cases a) simp_all
    with True have "t' = cur_pc + isize i + 4 * scast (simm16_operand i)"
      by (auto simp: gfx10_branch_target_def bind_e_eq_Inr simm16_offset_eq)
    with True show ?thesis
      by (simp add: minimum_instruction_alignment_eq is_aligned_4_add is_aligned_4_mult)
  next
    case False
    with t' have b: "branch_target a w cur_pc i = Inr t'"
      by (cases a) (auto simp: gfx10_branch_target_def bind_e_eq_Inr)
    then obtain raw where "t' = align_down raw minimum_instruction_alignment"
      by (rule branch_target_InrE)
    with b False show ?thesis by (simp add: align_down_is_aligned)
  qed
next
  show "minimum_instruction_alignment = 4" by (rule minimum_instruction_alignment_eq)
qed

theorem C3_branch_target_witness:
  "is_valid branch_back \<and> is_branch GFX9 branch_back
   \<and> branch_target GFX9 example_wave 0x1000 branch_back = Inr 0x1000
   \<and> arch_branch_target GFX9 example_wave 0x1000 branch_back = Inr 0x1000
   \<and> is_aligned 0x1000 minimum_instruction_alignment
   \<and> branch_target GFX9 example_wave 0x1002 branch_back = Inr 0x1000"
proof -
  have v: "align_down (0x1000 + 4 + 4 * (-1)) 4 = 0x1000"
    "align_down (0x1002 + 4 + 4 * (-1)) 4 = 0x1000"
    unfolding align_down_def by simp_all
  have s: "(scast (0xFFFF :: u16) :: u64) = -1" by simp
  have d: "is_valid branch_back
           \<and> (is_branch GFX9 branch_back \<or> is_call GFX9 branch_back
                \<or> is_cbranch GFX9 branch_back \<or> is_cbranch_i_fork GFX9 branch_back)"
    using branch_back_facts(1,2) by blast
  note t = C3_branch_target_is_aligned_down [of branch_back GFX9 example_wave]
  from t [of "0x1000" "0x1000" "0x1000"] d
  have e1: "branch_target GFX9 example_wave 0x1000 branch_back
              = Inr (align_down (0x1000 + isize branch_back
                       + 4 * scast (simm16_operand branch_back)) minimum_instruction_alignment)"
    and e2: "arch_branch_target GFX9 example_wave 0x1000 branch_back
              = branch_target GFX9 example_wave 0x1000 branch_back"
    by blast+
  from t [of "0x1002" "0x1000" "0x1000"] d
  have e3: "branch_target GFX9 example_wave 0x1002 branch_back
              = Inr (align_down (0x1002 + isize branch_back
                       + 4 * scast (simm16_operand branch_back)) minimum_instruction_alignment)"
    by blast
  have r1: "branch_target GFX9 example_wave 0x1000 branch_back = Inr 0x1000"
    unfolding e1 branch_back_facts(3,4) s minimum_instruction_alignment_eq v ..
  have r3: "branch_target GFX9 example_wave 0x1002 branch_back = Inr 0x1000"
    unfolding e3 branch_back_facts(3,4) s minimum_instruction_alignment_eq v ..
  from t [of "0x1000" "0x1000" "0x1000"] r1
  have r4: "is_aligned 0x1000 minimum_instruction_alignment" by blast
  from r1 r3 r4 e2 branch_back_facts(1,2) show ?thesis by simp
qed


section \<open>Simulation of an instruction\<close>

lemma hi9_eq: "(0xFF800000 :: u32) = push_bit 23 (mask 9)"
  by (simp add: mask_eq_exp_minus_1)

lemma op7_field_disjoint:
  "push_bit 16 (x AND 0x7F) AND (0xFF800000 :: u32) = 0"
proof -
  have m: "(0x7F :: u32) = mask 7" by (simp add: mask_eq_exp_minus_1)
  show ?thesis
    unfolding hi9_eq m
    by (rule bit_word_eqI) (auto simp: bit_simps)
qed

lemma op8_field_disjoint:
  "push_bit 8 (x AND 0xFF) AND (0xFF800000 :: u32) = 0"
proof -
  have m: "(0xFF :: u32) = mask 8" by (simp add: mask_eq_exp_minus_1)
  show ?thesis
    unfolding hi9_eq m
    by (rule bit_word_eqI) (auto simp: bit_simps)
qed

lemma sopp_prefix:
  assumes "is_sopp_encoding ops i"
  shows "word0 i AND 0xFF800000 = 0xBF800000" "4 \<le> capacity i"
proof -
  from assms obtain op where
    e: "word0 i AND 0xFFFF0000 = (0xBF800000 OR push_bit 16 (of_nat op AND 0x7F))"
    and c: "4 \<le> capacity i"
    unfolding is_sopp_encoding_def by (auto simp: list_ex_iff split: if_splits)
  have "word0 i AND 0xFF800000 = (word0 i AND 0xFFFF0000) AND 0xFF800000"
    by (simp add: and.assoc)
  also have "\<dots> = (0xBF800000 AND 0xFF800000)
                      OR (push_bit 16 (of_nat op AND 0x7F) AND 0xFF800000)"
    unfolding e by (rule bit.conj_disj_distrib2)
  also have "\<dots> = 0xBF800000"
    unfolding op7_field_disjoint by simp
  finally show "word0 i AND 0xFF800000 = 0xBF800000" .
  from c show "4 \<le> capacity i" .
qed

lemma sop1_prefix:
  assumes "is_sop1_encoding ops i"
  shows "word0 i AND 0xFF800000 = 0xBE800000"
proof -
  from assms obtain op where
    e: "word0 i AND 0xFF80FF00 = (0xBE800000 OR push_bit 8 (of_nat op AND 0xFF))"
    unfolding is_sop1_encoding_def by (auto simp: list_ex_iff split: if_splits)
  have "word0 i AND 0xFF800000 = (word0 i AND 0xFF80FF00) AND 0xFF800000"
    by (simp add: and.assoc)
  also have "\<dots> = (0xBE800000 AND 0xFF800000)
                      OR (push_bit 8 (of_nat op AND 0xFF) AND 0xFF800000)"
    unfolding e by (rule bit.conj_disj_distrib2)
  also have "\<dots> = 0xBE800000"
    unfolding op8_field_disjoint by simp
  finally show ?thesis .
qed

lemma sopk_prefix:
  assumes "is_sopk_encoding ops i"
  shows "\<exists>op \<in> set ops. word0 i AND 0xFF800000 = (0xB0000000 OR push_bit 23 (of_nat op AND 0x1F))"
  using assms unfolding is_sopk_encoding_def by (auto simp: list_ex_iff split: if_splits)

lemma sop2_prefix:
  assumes "is_sop2_encoding ops i"
  shows "\<exists>op \<in> set ops. word0 i AND 0xFF800000 = (0x80000000 OR push_bit 23 (of_nat op AND 0x7F))"
  using assms unfolding is_sop2_encoding_def by (auto simp: list_ex_iff split: if_splits)

lemma cbranch_prefix:
  "is_cbranch a i \<Longrightarrow> word0 i AND 0xFF800000 = 0xBF800000"
  unfolding is_cbranch_def by (auto split: if_splits)


lemma hi16_eq: "(0xFFFF0000 :: u32) = push_bit 16 (mask 16)"
  by (simp add: mask_eq_exp_minus_1)

lemma op7_of_masked:
  fixes w :: u32
  shows "take_bit 7 (drop_bit 16 (w AND 0xFFFF0000)) = take_bit 7 (drop_bit 16 w)"
  unfolding hi16_eq by (rule bit_word_eqI) (auto simp: bit_simps)


lemma encoding_op7_sopp:
  assumes "word0 i AND 0xFFFF0000 = v"
  shows "encoding_op7 i = ucast (take_bit 7 (drop_bit 16 v))"
proof -
  have "encoding_op7 i = ucast (take_bit 7 (drop_bit 16 (word0 i)))"
    by (simp add: encoding_op7_def bit_extract_def)
  also have "\<dots> = ucast (take_bit 7 (drop_bit 16 v))"
    by (subst op7_of_masked [symmetric]) (simp only: assms)
  finally show ?thesis .
qed

lemma branch_not_cbranch:
  "is_sopp_encoding [2] i \<Longrightarrow> \<not> is_cbranch GFX9 i"
  "is_sopp_encoding [1] i \<Longrightarrow> \<not> is_cbranch GFX9 i"
  unfolding is_sopp_encoding_def is_cbranch_def
  by (auto simp: gfx9_cbranch_opcodes_map_def dest!: encoding_op7_sopp split: if_splits)





lemma gfx9_prefixes:
  "is_branch GFX9 i \<Longrightarrow> word0 i AND 0xFF800000 = 0xBF800000"
  "is_endpgm GFX9 i \<Longrightarrow> word0 i AND 0xFF800000 = 0xBF800000"
  "is_cbranch GFX9 i \<Longrightarrow> word0 i AND 0xFF800000 = 0xBF800000"
  "is_setpc GFX9 i \<Longrightarrow> word0 i AND 0xFF800000 = 0xBE800000"
  "is_getpc GFX9 i \<Longrightarrow> word0 i AND 0xFF800000 = 0xBE800000"
  "is_swappc GFX9 i \<Longrightarrow> word0 i AND 0xFF800000 = 0xBE800000"
  "is_cbranch_join GFX9 i \<Longrightarrow> word0 i AND 0xFF800000 = 0xBE800000"
  "is_call GFX9 i \<Longrightarrow> word0 i AND 0xFF800000 = 0xBA800000"
  "is_cbranch_i_fork GFX9 i \<Longrightarrow> word0 i AND 0xFF800000 = 0xB8000000"
  "is_cbranch_g_fork GFX9 i \<Longrightarrow> word0 i AND 0xFF800000 = 0x94800000"
  by (auto dest: sopp_prefix sop1_prefix cbranch_prefix dest!: sopk_prefix sop2_prefix)





lemma gfx9_sopp_not_cbranch:
  "is_branch GFX9 i \<Longrightarrow> \<not> is_cbranch GFX9 i"
  "is_endpgm GFX9 i \<Longrightarrow> \<not> is_cbranch GFX9 i"
  using branch_not_cbranch [of i] by simp_all


lemma gfx9_cbranch_excl:
  assumes "is_cbranch GFX9 i"
  shows "\<not> is_branch GFX9 i" "\<not> is_setpc GFX9 i" "\<not> is_endpgm GFX9 i"
    "\<not> is_cbranch_i_fork GFX9 i" "\<not> is_cbranch_g_fork GFX9 i" "\<not> is_cbranch_join GFX9 i"
    "\<not> is_call GFX9 i" "\<not> is_getpc GFX9 i" "\<not> is_swappc GFX9 i"
  using gfx9_prefixes [of i] gfx9_sopp_not_cbranch [of i] assms
  by (auto simp del: is_setpc.simps is_getpc.simps
      is_swappc.simps is_call.simps is_cbranch_i_fork.simps is_cbranch_g_fork.simps
      is_cbranch_join.simps)







lemmas kind_simps = is_branch.simps is_endpgm.simps is_setpc.simps is_getpc.simps
  is_swappc.simps is_call.simps is_cbranch_i_fork.simps is_cbranch_g_fork.simps
  is_cbranch_join.simps is_sequential.simps






















lemma getpc_s2_facts:
  "is_getpc GFX9 getpc_s2" "is_valid getpc_s2" "isize getpc_s2 = 4"
  "scalar_operand_to_regnum GFX9 (unat (sdst_operand getpc_s2)) False = Some (sgpr 2)"
  by (simp_all add: getpc_s2_def encoding_defs sdst_operand_def)

lemma getpc_s2_can_simulate: "gfx9_can_simulate getpc_s2"
  unfolding gfx9_can_simulate_def
  using getpc_s2_facts(1,4) by (simp del: kind_simps scalar_operand_to_regnum.simps)


lemma stepping_wave_address:
  "register_address stepping_wave = register_address example_wave"
  by (simp add: stepping_wave_def)














section \<open>Resuming a stopped wave\<close>


lemma or_if_and_disjoint: "m AND b = 0 \<Longrightarrow> or_if c m x AND b = x AND b"
  by (simp add: or_if_def bit.conj_disj_distrib2)

lemma or_if_and_same: "or_if c b x AND b = (if c then b else x AND b)"
  by (simp add: or_if_def bit.conj_disj_distrib2)

lemmas trapsts_masks =
  sq_wave_trapsts_excp_invalid_mask_def sq_wave_trapsts_excp_input_denorm_mask_def
  sq_wave_trapsts_excp_div0_mask_def sq_wave_trapsts_excp_overflow_mask_def
  sq_wave_trapsts_excp_underflow_mask_def sq_wave_trapsts_excp_inexact_mask_def
  sq_wave_trapsts_excp_int_div0_mask_def sq_wave_trapsts_excp_addr_watch0_mask_def
  sq_wave_trapsts_excp_mem_viol_mask_def sq_wave_trapsts_illegal_inst_mask_def
  sq_wave_trapsts_excp_hi_addr_watch1_mask_def sq_wave_trapsts_excp_hi_addr_watch2_mask_def
  sq_wave_trapsts_excp_hi_addr_watch3_mask_def sq_wave_trapsts_xnack_error_mask_def

lemmas exception_masks =
  exception_invalid_def exception_input_denorm_def exception_float_div0_def
  exception_overflow_def exception_underflow_def exception_inexact_def
  exception_int_div0_def exception_mem_viol_def exception_illegal_inst_def
  exception_addr_watch0_def exception_addr_watch1_def exception_addr_watch2_def
  exception_addr_watch3_def exception_xnack_error_def exception_wave_begin_def
  exception_wave_end_def exception_trap_after_inst_def exception_host_trap_def

lemma convert_mask_never_inexact:
  "convert_mask m AND sq_wave_trapsts_excp_inexact_mask = 0"
  unfolding convert_mask_def Let_def
  by (simp add: or_if_and_disjoint trapsts_masks)

lemma signaled_exceptions_inexact:
  assumes "read_register32 w trapsts = Inr t" "read_register32 w mode = Inr m"
  shows "\<exists>e. signaled_exceptions w = Inr e
            \<and> (e AND exception_inexact \<noteq> 0
                 \<longleftrightarrow> t AND sq_wave_trapsts_excp_inexact_mask \<noteq> 0
                      \<and> m AND sq_wave_mode_excp_en_inexact_mask \<noteq> 0)"
  unfolding signaled_exceptions_def Let_def using assms
  by (simp add: or_if_and_disjoint or_if_and_same exception_masks del: read_register32_real)


lemma wave_set_state_InrE:
  assumes "wave_set_state tai w state = Inr w'"
  obtains sv mv tv w1 w2 w3 where
    "write_real32 w status sv = Inr w1" "write_real32 w1 mode mv = Inr w2"
    "write_real32 w2 ttmp6 tv = Inr w3"
    "(if state \<noteq> WAVE_STATE_STOP \<and> m_state w3 = WAVE_STATE_STOP \<and> m_stop_reason w3 \<noteq> {}
      then clear_stop_reasons w3 else Inr w3) = Inr w'"
    "\<exists>m. read_real32 w mode = Inr m
         \<and> mv = (case state of WAVE_STATE_RUN \<Rightarrow> m AND NOT sq_wave_mode_debug_en_mask
                 | WAVE_STATE_SINGLE_STEP \<Rightarrow> m OR sq_wave_mode_debug_en_mask
                 | WAVE_STATE_STOP \<Rightarrow> m)"
  using assms unfolding wave_set_state_def
  by (cases state) (auto simp: bind_e_eq_Inr Let_def)

lemma wave_set_state_resume:
  assumes run: "wave_set_state tai w state = Inr w'"
    and st: "state \<noteq> WAVE_STATE_STOP" "m_state w = WAVE_STATE_STOP" "m_stop_reason w \<noteq> {}"
    and sep: "all_separate w [status, mode, ttmp6, trapsts]"
  shows "\<exists>t m. read_register32 w trapsts = Inr t
            \<and> read_register32 w mode = Inr m
            \<and> read_register32 w' trapsts
                = Inr (t AND NOT (convert_mask (clear_stop_reasons_mask (m_stop_reason w))))
            \<and> read_register32 w' mode
                = Inr (if state = WAVE_STATE_RUN then m AND NOT sq_wave_mode_debug_en_mask
                       else m OR sq_wave_mode_debug_en_mask)"
proof -
  from run obtain sv mv tv w1 w2 w3 m where
    w1: "write_real32 w status sv = Inr w1" and w2: "write_real32 w1 mode mv = Inr w2"
    and w3: "write_real32 w2 ttmp6 tv = Inr w3"
    and c: "(if state \<noteq> WAVE_STATE_STOP \<and> m_state w3 = WAVE_STATE_STOP
                \<and> m_stop_reason w3 \<noteq> {}
             then clear_stop_reasons w3 else Inr w3) = Inr w'"
    and m: "read_real32 w mode = Inr m"
    and mv: "mv = (case state of WAVE_STATE_RUN \<Rightarrow> m AND NOT sq_wave_mode_debug_en_mask
                 | WAVE_STATE_SINGLE_STEP \<Rightarrow> m OR sq_wave_mode_debug_en_mask
                 | WAVE_STATE_STOP \<Rightarrow> m)"
    by (rule wave_set_state_InrE) blast
  note w1' = w1 [unfolded write_real32_def] and w2' = w2 [unfolded write_real32_def]
    and w3' = w3 [unfolded write_real32_def]
  have keep: "m_state w3 = m_state w" "m_stop_reason w3 = m_stop_reason w"
    using write_real_register_preserves(3,4) [OF w1']
      write_real_register_preserves(3,4) [OF w2']
      write_real_register_preserves(3,4) [OF w3'] by simp_all
  with c st have c': "clear_stop_reasons w3 = Inr w'" by simp
  then obtain t where t3: "read_real32 w3 trapsts = Inr t"
    and w4: "write_real32 w3 trapsts
               (t AND NOT (convert_mask (clear_stop_reasons_mask (m_stop_reason w)))) = Inr w'"
    unfolding clear_stop_reasons_def set_exceptions_def
    by (auto simp: bind_e_eq_Inr Let_def keep convert_mask_def [of 0] or_if_def)
  note w4' = w4 [unfolded write_real32_def]
  from sep have s: "separate w status mode" "separate w status ttmp6"
    "separate w status trapsts" "separate w mode ttmp6" "separate w mode trapsts"
    "separate w ttmp6 trapsts"
    by simp_all
  have sw: "separate w3 = separate w" "separate w2 = separate w" "separate w1 = separate w"
    using separate_write [OF w1'] separate_write [OF w2'] separate_write [OF w3']
    by (simp_all add: fun_eq_iff)
  have t0: "read_real32 w trapsts = Inr t"
    using t3 read_real32_kept [OF w3', of trapsts] read_real32_kept [OF w2', of trapsts]
      read_real32_kept [OF w1', of trapsts] s sw separate_sym by simp
  have r1: "read_real32 w' trapsts
              = Inr (t AND NOT (convert_mask (clear_stop_reasons_mask (m_stop_reason w))))"
    by (rule read_real32_after_write_real32 [OF w4]) simp
  have r2: "read_real32 w' mode = Inr mv"
    using read_real32_kept [OF w4', of mode] read_real32_kept [OF w3', of mode]
      read_real32_after_write_real32 [OF w2] s sw by simp
  from st(1) mv have "mv = (if state = WAVE_STATE_RUN then m AND NOT sq_wave_mode_debug_en_mask
                       else m OR sq_wave_mode_debug_en_mask)"
    by (cases state) simp_all
  with t0 m r1 r2 show ?thesis by simp
qed


lemma inexact_wave_facts:
  "m_state inexact_wave = WAVE_STATE_STOP"
  "m_stop_reason inexact_wave = {STOP_REASON_FP_INEXACT}"
  "m_displaced_stepping inexact_wave = None"
  "register_address inexact_wave = register_address example_wave"
  by (simp_all add: inexact_wave_def example_wave_def)

lemma inexact_wave_reads:
  "read_register32 inexact_wave trapsts = Inr 0x20"
  "read_register32 inexact_wave mode = Inr 0x20000"
  "read_register32 inexact_wave status = Inr 0x2000"
  "read_register32 inexact_wave ttmp6 = Inr 0x40000000"
  apply (simp_all add: read_real32_def read_real_register_def inexact_wave_facts
      example_addresses cache_contains_def load_bytes_def upt_unroll)
  apply (simp_all add: inexact_wave_def example_wave_def of_le_bytes32_def)
  done

lemma inexact_wave_resumes:
  "\<exists>w'. set_state resume_env inexact_wave WAVE_STATE_RUN = Inr w'"
  apply (simp add: set_state_def set_state_enter_def set_state_commit_def resume_env_def
      inexact_wave_facts Let_def wave_set_state_def inexact_wave_reads
      del: read_register32_real)
  apply (simp add: write_real32_def write_real_register_def inexact_wave_facts
      example_addresses)
  apply (simp add: inexact_wave_def example_wave_def cache_contains_def
      clear_stop_reasons_def set_exceptions_def read_real32_def read_real_register_def
      write_real32_def write_real_register_def example_addresses cwsr_defs Let_def
      wave_pc_def read_real64_def)
  done


lemma set_state_commit_resume:
  assumes "set_state_commit E w prev state = Inr w'" "state \<noteq> WAVE_STATE_STOP"
    "can_halt_at_endpgm E"
  shows "prev = WAVE_STATE_STOP
       \<and> (\<exists>w0 p. set_wave_state E w state = Inr w0
              \<and> w' = w0\<lparr> m_state := state, m_last_stopped_pc := p, m_stop_reason := {} \<rparr>)"
  using assms unfolding set_state_commit_def
  by (auto simp: bind_e_eq_Inr Let_def)

lemma set_state_run:
  assumes "set_state E w WAVE_STATE_RUN = Inr w'" "m_state w \<noteq> WAVE_STATE_RUN"
  shows "set_state_commit E (w\<lparr> m_stop_requested := False \<rparr>) (m_state w) WAVE_STATE_RUN = Inr w'
       \<and> m_stop_reason w - resumable_stop_reason_mask E = {}
       \<and> m_displaced_stepping w = None"
  using assms unfolding set_state_def set_state_enter_def
  by (auto simp: bind_e_eq_Inr Let_def)

lemma read_real_register_fields:
  "read_real_register (w\<lparr> m_stop_requested := b \<rparr>) r off n = read_real_register w r off n"
  "read_real_register (w\<lparr> m_state := st, m_last_stopped_pc := p, m_stop_reason := sr \<rparr>) r off n
     = read_real_register w r off n"
  unfolding read_real_register_def
  by (cases "register_address w r"; cases "register_size r"; simp)+

lemma read_real32_fields [simp]:
  "read_real32 (w\<lparr> m_stop_requested := b \<rparr>) r = read_real32 w r"
  "read_real32 (w\<lparr> m_state := st, m_last_stopped_pc := p, m_stop_reason := sr \<rparr>) r
     = read_real32 w r"
  by (simp_all add: read_real32_def read_real_register_fields)

lemma separate_fields [simp]:
  "separate (w\<lparr> m_stop_requested := b \<rparr>) = separate w"
  by (simp add: separate_def fun_eq_iff)


lemma inexact_masks:
  "clear_stop_reasons_mask {STOP_REASON_FP_INEXACT} AND exception_inexact \<noteq> 0"
  "convert_mask (clear_stop_reasons_mask {STOP_REASON_FP_INEXACT}) = 0"
  "stop_reason_of_exceptions exception_inexact = {STOP_REASON_FP_INEXACT}"
  by (simp_all add: clear_stop_reasons_mask_def convert_mask_def stop_reason_of_exceptions_def
      or_if_def set_if_def exception_masks Let_def)

lemma signaled_exceptions_only_inexact:
  assumes "read_register32 w trapsts = Inr 0x20" "read_register32 w mode = Inr 0x20000"
  shows "signaled_exceptions w = Inr exception_inexact"
  unfolding signaled_exceptions_def Let_def using assms
  by (simp add: or_if_def trapsts_masks exception_masks
      sq_wave_mode_excp_en_invalid_mask_def sq_wave_mode_excp_en_input_denorm_mask_def
      sq_wave_mode_excp_en_div0_mask_def sq_wave_mode_excp_en_overflow_mask_def
      sq_wave_mode_excp_en_underflow_mask_def sq_wave_mode_excp_en_inexact_mask_def
      sq_wave_mode_excp_en_int_div0_mask_def sq_wave_mode_excp_en_addr_watch_mask_def
      del: read_register32_real)

lemma inexact_wave_separate:
  "all_separate inexact_wave [status, mode, ttmp6, trapsts]"
  by (simp add: separate_def inexact_wave_facts(4) example_addresses upt_unroll)

text \<open>
  C6 does not hold of the code for the stop reason FP_INEXACT.  \<open>inexact_wave\<close> is
  stopped with stop reason \<open>{FP_INEXACT}\<close>, a resumable reason in \<open>resume_env\<close>; its
  \<open>trapsts\<close> has the inexact bit (bit 5) set and its \<open>mode\<close> enables the exception, so
  that \<open>signaled_exceptions\<close> reports inexact.  \<open>clear_stop_reasons\<close> selects the
  inexact exception for clearing, but \<open>convert_mask\<close> maps the selection to the empty
  \<open>trapsts\<close> mask.  \<open>set_state\<close> to run returns normally, in state run with no stop
  reason, and \<open>trapsts\<close> still reads \<open>0x20\<close>: \<open>signaled_exceptions\<close> still reports
  the exception that was already reported.
\<close>

theorem C6_resume_leaves_the_inexact_exception_bit_set:
  "m_state inexact_wave = WAVE_STATE_STOP
   \<and> m_stop_reason inexact_wave = {STOP_REASON_FP_INEXACT}
   \<and> m_stop_reason inexact_wave - resumable_stop_reason_mask resume_env = {}
   \<and> read_register32 inexact_wave trapsts = Inr 0x20
   \<and> signaled_exceptions inexact_wave = Inr exception_inexact
   \<and> stop_reason_of_exceptions exception_inexact = {STOP_REASON_FP_INEXACT}
   \<and> clear_stop_reasons_mask {STOP_REASON_FP_INEXACT} AND exception_inexact \<noteq> 0
   \<and> convert_mask (clear_stop_reasons_mask {STOP_REASON_FP_INEXACT}) = 0
   \<and> (\<exists>w'. set_state resume_env inexact_wave WAVE_STATE_RUN = Inr w'
          \<and> m_state w' = WAVE_STATE_RUN \<and> m_stop_reason w' = {}
          \<and> read_register32 w' trapsts = Inr 0x20
          \<and> signaled_exceptions w' = Inr exception_inexact)"
proof -
  let ?w = "inexact_wave\<lparr> m_stop_requested := False \<rparr>"
  obtain w' where run: "set_state resume_env inexact_wave WAVE_STATE_RUN = Inr w'"
    using inexact_wave_resumes by blast
  from set_state_run [OF run] inexact_wave_facts(1)
  have c: "set_state_commit resume_env ?w WAVE_STATE_STOP WAVE_STATE_RUN = Inr w'"
    by simp
  from set_state_commit_resume [OF c]
  obtain w0 p where w0: "wave_set_state True ?w WAVE_STATE_RUN = Inr w0"
    and w': "w' = w0\<lparr> m_state := WAVE_STATE_RUN, m_last_stopped_pc := p, m_stop_reason := {} \<rparr>"
    by (auto simp: resume_env_def)
  have "all_separate ?w [status, mode, ttmp6, trapsts]"
    using inexact_wave_separate by simp
  from wave_set_state_resume [OF w0 _ _ _ this] inexact_wave_facts inexact_wave_reads
  have r: "read_register32 w0 trapsts = Inr 0x20" "read_register32 w0 mode = Inr 0x20000"
    by (simp_all add: inexact_masks sq_wave_mode_debug_en_mask_def)
  then have r': "read_register32 w' trapsts = Inr 0x20" "read_register32 w' mode = Inr 0x20000"
    by (simp_all add: w')
  have s0: "signaled_exceptions inexact_wave = Inr exception_inexact"
    by (rule signaled_exceptions_only_inexact [OF inexact_wave_reads(1,2)])
  have s1: "signaled_exceptions w' = Inr exception_inexact"
    by (rule signaled_exceptions_only_inexact [OF r'])
  have st: "m_state w' = WAVE_STATE_RUN" "m_stop_reason w' = {}" by (simp_all add: w')
  have rs: "m_stop_reason inexact_wave - resumable_stop_reason_mask resume_env = {}"
    by (simp add: inexact_wave_facts resume_env_def)
  from run st r'(1) s0 s1 rs inexact_wave_facts(1,2) inexact_wave_reads(1) inexact_masks
  show ?thesis by blast
qed

section \<open>The state machine of set_state\<close>


















section \<open>The walk over the control stack\<close>

lemma control_stack_walk_InrD:
  "control_stack_walk mk ws st c recs = Inr (c', recs') \<Longrightarrow>
     \<exists>new. recs' = recs @ new
        \<and> map m_compute_relaunch_wave new
            = filter (\<lambda>w. \<not> compute_relaunch_is_event w \<and> \<not> compute_relaunch_is_state w) ws
        \<and> record_chain mk c new c'"
proof (induction ws arbitrary: st c recs)
  case Nil
  then show ?case by simp
next
  case (Cons w ws)
  show ?case
  proof (cases "compute_relaunch_is_event w")
    case True
    with Cons.prems have "control_stack_walk mk ws st c recs = Inr (c', recs')" by simp
    from Cons.IH [OF this] True show ?thesis by simp
  next
    case ne: False
    show ?thesis
    proof (cases "compute_relaunch_is_state w")
      case True
      with ne Cons.prems have "control_stack_walk mk ws w c recs = Inr (c', recs')" by simp
      from Cons.IH [OF this] True show ?thesis by simp
    next
      case ns: False
      let ?r = "\<lparr> m_compute_relaunch_wave = w, m_compute_relaunch_state = st,
                  m_context_save_address = c - 64 \<rparr>"
      from ne ns Cons.prems obtain v where
        v: "mk w st (c - 64) = Some v"
        and k: "control_stack_walk mk ws st v (recs @ [?r]) = Inr (c', recs')"
        by (auto split: option.splits)
      from Cons.IH [OF k] obtain new where
        n: "recs' = (recs @ [?r]) @ new"
           "map m_compute_relaunch_wave new
              = filter (\<lambda>w. \<not> compute_relaunch_is_event w \<and> \<not> compute_relaunch_is_state w) ws"
           "record_chain mk v new c'"
        by blast
      have "recs' = recs @ (?r # new)" using n(1) by simp
      moreover have "map m_compute_relaunch_wave (?r # new)
              = filter (\<lambda>w. \<not> compute_relaunch_is_event w \<and> \<not> compute_relaunch_is_state w) (w # ws)"
        using n(2) ne ns by simp
      moreover have "record_chain mk c (?r # new) c'" using n(3) v by simp
      ultimately show ?thesis by blast
    qed
  qed
qed

lemma control_stack_walk_Inl:
  "control_stack_walk mk ws st c recs = Inl e \<Longrightarrow> e = Bad_optional_access"
  by (induction ws arbitrary: st c recs) (auto split: if_splits option.splits)

lemma vgpr_count_pos: "0 < vgpr_count r"
proof -
  define t :: u32 where "t = bit_extract (m_compute_relaunch_state r) 0 5"
  have "unat t < 64"
    unfolding t_def bit_extract_def
    by (simp add: unsigned_take_bit_eq) (rule order_less_le_trans [OF take_bit_nat_less_exp], simp)
  then have "unat ((t + 1) * 4) = (unat t + 1) * 4"
    by (simp add: unat_word_ariths)
  then show ?thesis unfolding vgpr_count_def t_def by simp
qed

lemma gfx9_make_record_total:
  "gfx9_make_record relaunch state csa
     = Some ((if bit_extract relaunch 17 17 \<noteq> 0
              then csa - of_nat (unat (bit_extract state 9 17 * 128) * 4) else csa)
             - 16 * 4 - 16 * 4
             - of_nat (unat ((bit_extract state 6 8 + 1) * 16 - 16)) * 4
             - of_nat (unat ((bit_extract state 0 5 + 1) * 4)) * (4 * 64))"
  using vgpr_count_pos [of "\<lparr> m_compute_relaunch_wave = relaunch, m_compute_relaunch_state = state,
         m_context_save_address = csa \<rparr>"]
  by (simp add: gfx9_make_record_def cwsr_register_address_def Let_def is_first_wave_def
      lds_size_def sgpr_count_def vgpr_count_def rename_hwreg_def rename_aliased_sgpr_def)

lemma gfx9_walk_total:
  "\<exists>c' recs'. control_stack_walk gfx9_make_record ws st c recs = Inr (c', recs')"
  by (induction ws arbitrary: st c recs) (simp_all add: gfx9_make_record_total)


lemma example_walk:
  "control_stack_walk gfx9_make_record [0x80000040, 0] 0 0x10040 []
     = Inr (0xFB40, [\<lparr> m_compute_relaunch_wave = 0, m_compute_relaunch_state = 0x80000040,
                       m_context_save_address = 0x10000 \<rparr>])"
  "control_stack_walk gfx9_make_record [0x80000040, 0, 0] 0 0x10040 []
     = Inr (0xF640, [\<lparr> m_compute_relaunch_wave = 0, m_compute_relaunch_state = 0x80000040,
                       m_context_save_address = 0x10000 \<rparr>,
                     \<lparr> m_compute_relaunch_wave = 0, m_compute_relaunch_state = 0x80000040,
                       m_context_save_address = 0xFB00 \<rparr>])"
  by (simp_all add: compute_relaunch_is_event_def compute_relaunch_is_state_def bit_extract_def
      gfx9_make_record_total)

text \<open>
  C1: \<open>gfx9_architecture_t::control_stack_iterate\<close>, for every function \<open>mk\<close> in the
  place of the virtual \<open>make_gfx9_cwsr_record\<close>.
  \<^item> The first two words of the control stack are not read: two stacks that agree from
    the third word on have the same result.
  \<^item> A normal return hands out one record for each word from the third on that is
    neither an event nor a state word, in order, laid out downwards from
    \<open>wave_area_address\<close>, and the cursor after the walk is
    \<open>wave_area_address - wave_area_size\<close>.
  \<^item> When the walk ends with the cursor at \<open>c\<close>, the function returns normally if
    \<open>c = wave_area_address - wave_area_size\<close> and raises the fatal error otherwise.
  \<^item> The only other error is the access to the address of the first vector register
    of a record that has none.  A record of \<open>gfx9_architecture_t\<close> always has one, so
    that for it the walk always ends and the function either returns normally or
    raises the fatal error.
\<close>

theorem C1_control_stack_iterate_checks_the_cursor:
  "(drop 2 cs = drop 2 cs' \<longrightarrow>
      control_stack_iterate mk cs a s = control_stack_iterate mk cs' a s)
   \<and> (control_stack_iterate mk cs a s = Inr (n, recs) \<longrightarrow>
        n = length recs
        \<and> map m_compute_relaunch_wave recs
            = filter (\<lambda>w. \<not> compute_relaunch_is_event w \<and> \<not> compute_relaunch_is_state w)
                (drop 2 cs)
        \<and> record_chain mk a recs (a - s)
        \<and> control_stack_walk mk (drop 2 cs) 0 a [] = Inr (a - s, recs))
   \<and> (control_stack_walk mk (drop 2 cs) 0 a [] = Inr (c, recs) \<longrightarrow>
        record_chain mk a recs c
        \<and> control_stack_iterate mk cs a s
            = (if c = a - s then Inr (length recs, recs) else Inl Fatal_error))
   \<and> (control_stack_iterate mk cs a s = Inl e \<longrightarrow>
        e = Fatal_error
          \<and> (\<exists>c recs. control_stack_walk mk (drop 2 cs) 0 a [] = Inr (c, recs) \<and> c \<noteq> a - s)
        \<or> e = Bad_optional_access
          \<and> control_stack_walk mk (drop 2 cs) 0 a [] = Inl Bad_optional_access)
   \<and> (\<exists>c recs. control_stack_walk gfx9_make_record (drop 2 cs) 0 a [] = Inr (c, recs)
          \<and> gfx9_control_stack_iterate cs a s
              = (if c = a - s then Inr (length recs, recs) else Inl Fatal_error))"
proof (intro conjI impI)
  assume "drop 2 cs = drop 2 cs'"
  then show "control_stack_iterate mk cs a s = control_stack_iterate mk cs' a s"
    by (simp add: control_stack_iterate_def)
next
  assume r: "control_stack_iterate mk cs a s = Inr (n, recs)"
  then obtain c where w: "control_stack_walk mk (drop 2 cs) 0 a [] = Inr (c, recs)"
    and c: "c = a - s" and n: "n = length recs"
    unfolding control_stack_iterate_def
    by (auto simp: bind_e_eq_Inr split: if_splits)
  from control_stack_walk_InrD [OF w] c
  have "map m_compute_relaunch_wave recs
            = filter (\<lambda>w. \<not> compute_relaunch_is_event w \<and> \<not> compute_relaunch_is_state w)
                (drop 2 cs)" "record_chain mk a recs (a - s)"
    by auto
  with n w c show "n = length recs"
    "map m_compute_relaunch_wave recs
            = filter (\<lambda>w. \<not> compute_relaunch_is_event w \<and> \<not> compute_relaunch_is_state w)
                (drop 2 cs)"
    "record_chain mk a recs (a - s)"
    "control_stack_walk mk (drop 2 cs) 0 a [] = Inr (a - s, recs)"
    by simp_all
next
  assume w: "control_stack_walk mk (drop 2 cs) 0 a [] = Inr (c, recs)"
  from control_stack_walk_InrD [OF w] show "record_chain mk a recs c" by auto
  from w show "control_stack_iterate mk cs a s
            = (if c = a - s then Inr (length recs, recs) else Inl Fatal_error)"
    by (simp add: control_stack_iterate_def)
next
  assume e: "control_stack_iterate mk cs a s = Inl e"
  show "e = Fatal_error
          \<and> (\<exists>c recs. control_stack_walk mk (drop 2 cs) 0 a [] = Inr (c, recs) \<and> c \<noteq> a - s)
        \<or> e = Bad_optional_access
          \<and> control_stack_walk mk (drop 2 cs) 0 a [] = Inl Bad_optional_access"
  proof (cases "control_stack_walk mk (drop 2 cs) 0 a []")
    case (Inl e')
    with e control_stack_walk_Inl [OF Inl] show ?thesis
      by (simp add: control_stack_iterate_def)
  next
    case (Inr p)
    with e show ?thesis
      by (cases p) (auto simp: control_stack_iterate_def split: if_splits)
  qed
next
  from gfx9_walk_total [of "drop 2 cs" 0 a "[]"] obtain c recs where
    w: "control_stack_walk gfx9_make_record (drop 2 cs) 0 a [] = Inr (c, recs)" by blast
  then have "gfx9_control_stack_iterate cs a s
              = (if c = a - s then Inr (length recs, recs) else Inl Fatal_error)"
    by (simp add: gfx9_control_stack_iterate_def control_stack_iterate_def)
  with w show "\<exists>c recs. control_stack_walk gfx9_make_record (drop 2 cs) 0 a [] = Inr (c, recs)
          \<and> gfx9_control_stack_iterate cs a s
              = (if c = a - s then Inr (length recs, recs) else Inl Fatal_error)"
    by blast
qed

theorem C1_control_stack_iterate_witness:
  "control_stack_iterate gfx9_make_record [1, 2, 0x80000040, 0] 0x10040 0x500
     = Inr (1, [\<lparr> m_compute_relaunch_wave = 0, m_compute_relaunch_state = 0x80000040,
                  m_context_save_address = 0x10000 \<rparr>])
   \<and> control_stack_iterate gfx9_make_record [1, 2, 0x80000040, 0] 0x10040 0x4FF
       = Inl Fatal_error
   \<and> control_stack_iterate gfx9_make_record [1, 2, 0x80000040, 0, 0] 0x10040 0x500
       = Inl Fatal_error
   \<and> control_stack_iterate gfx9_make_record [1, 2, 0x80000040, 0, 0] 0x10040 0xA00
       = control_stack_iterate gfx9_make_record [0x80000040, 0, 0x80000040, 0, 0] 0x10040 0xA00"
proof -
  note T = C1_control_stack_iterate_checks_the_cursor [where mk = gfx9_make_record
      and a = "0x10040"]
  have 1: "control_stack_iterate gfx9_make_record [1, 2, 0x80000040, 0] 0x10040 0x500
     = Inr (1, [\<lparr> m_compute_relaunch_wave = 0, m_compute_relaunch_state = 0x80000040,
                  m_context_save_address = 0x10000 \<rparr>])"
    using T [where cs = "[1, 2, 0x80000040, 0]" and s = "0x500" and c = "0xFB40"
        and recs = "[\<lparr> m_compute_relaunch_wave = 0, m_compute_relaunch_state = 0x80000040,
                  m_context_save_address = 0x10000 \<rparr>]", THEN conjunct2, THEN conjunct2,
        THEN conjunct1] example_walk(1)
    by simp
  have 2: "control_stack_iterate gfx9_make_record [1, 2, 0x80000040, 0] 0x10040 0x4FF
       = Inl Fatal_error"
    using T [where cs = "[1, 2, 0x80000040, 0]" and s = "0x4FF" and c = "0xFB40"
        and recs = "[\<lparr> m_compute_relaunch_wave = 0, m_compute_relaunch_state = 0x80000040,
                  m_context_save_address = 0x10000 \<rparr>]", THEN conjunct2, THEN conjunct2,
        THEN conjunct1] example_walk(1)
    by simp
  have 3: "control_stack_iterate gfx9_make_record [1, 2, 0x80000040, 0, 0] 0x10040 0x500
       = Inl Fatal_error"
    using T [where cs = "[1, 2, 0x80000040, 0, 0]" and s = "0x500" and c = "0xF640"
        and recs = "[\<lparr> m_compute_relaunch_wave = 0, m_compute_relaunch_state = 0x80000040,
                       m_context_save_address = 0x10000 \<rparr>,
                     \<lparr> m_compute_relaunch_wave = 0, m_compute_relaunch_state = 0x80000040,
                       m_context_save_address = 0xFB00 \<rparr>]", THEN conjunct2, THEN conjunct2,
        THEN conjunct1] example_walk(2)
    by simp
  have 4: "control_stack_iterate gfx9_make_record [1, 2, 0x80000040, 0, 0] 0x10040 0xA00
       = control_stack_iterate gfx9_make_record [0x80000040, 0, 0x80000040, 0, 0] 0x10040 0xA00"
    using T [where cs = "[1, 2, 0x80000040, 0, 0]" and s = "0xA00"
        and cs' = "[0x80000040, 0, 0x80000040, 0, 0]", THEN conjunct1]
    by simp
  from 1 2 3 4 show ?thesis by blast
qed

end
